theory Spec2Isabelle
  imports Main "HOL-Library.Word"
begin

section \<open>Common vocabulary: bytes, descriptors, system-call events\<close>

type_synonym byte = "8 word"
type_synonym u32 = "32 word"

text \<open>
  Every function of the repository is modelled as a function from the answers of its
  environment (what each system call returns, in call order) to the list of calls and
  diagnostics it issues, in program order, together with its C return value. A list of
  answers that is used up means that the next call has not returned yet.

  \<open>Send fd off size\<close> is \<open>send(fd, ptr + off, size, 0)\<close>; \<open>Sendto s bytes dst\<close> is
  \<open>sendto(s, buffer, n, 0, dst, ...)\<close> with the \<open>n\<close> bytes it passes; \<open>Fputs bytes\<close> is what
  \<open>fprintf(fp, "%s", buffer)\<close> writes to the log file; \<open>Printf_d fmt i\<close> is \<open>printf(fmt, i)\<close>
  with one \<open>%d\<close>. A socket address is a pair of host
  text and port.
\<close>

type_synonym sockaddr = "string \<times> 16 word"

datatype socktype = SOCK_DGRAM | SOCK_STREAM

datatype event =
    Send int nat nat
  | Sendto int "byte list" sockaddr
  | Close int
  | Printf string
  | Printf_d string int
  | Perror string
  | Fprintf_stderr string
  | Socket_call socktype
  | Epoll_create1
  | Setsockopt int
  | Fcntl int
  | Epoll_ctl_add int
  | Epoll_ctl_del int
  | Bind int "16 word"
  | Listen int
  | Pthread_create_accept
  | Pthread_create_client int
  | Pthread_join_accept
  | Fputs "byte list"
  | Fflush

definition BUFFER_SIZE :: nat where
  "BUFFER_SIZE = 4096"

text \<open>The \<open>errno\<close> values the code compares against, as Linux defines them.\<close>

definition EINTR :: int where "EINTR = 4"
definition EAGAIN :: int where "EAGAIN = 11"
definition EWOULDBLOCK :: int where "EWOULDBLOCK = 11"

section \<open>\<open>send_all.c\<close>\<close>

text \<open>
  \<open>int send_all(int sockfd, const void *buf, unsigned len)\<close>. The buffer is \<open>None\<close> for a
  null pointer. \<open>len\<close> and \<open>sent\<close> are \<open>unsigned\<close> (32 bits); \<open>n\<close> is the \<open>ssize_t\<close> that
  \<open>send\<close> returned and \<open>(unsigned)n\<close> is \<open>word_of_int n\<close>. The fourth argument lists what the
  successive \<open>send\<close> calls return; when it is used up the last call has not returned and
  the result is \<open>None\<close>.
\<close>

fun send_loop :: "int \<Rightarrow> u32 \<Rightarrow> u32 \<Rightarrow> int list \<Rightarrow> event list \<times> int option" where
  "send_loop sockfd len sent [] =
     (if sent < len then ([Send sockfd (unat sent) (unat (len - sent))], None)
      else ([], Some 0))"
| "send_loop sockfd len sent (n # ns) =
     (if sent < len then
        (if n \<le> 0 then
           ([Send sockfd (unat sent) (unat (len - sent)), Perror ''send_all: send failed''],
            Some (- 1))
         else
           (case send_loop sockfd len (sent + word_of_int n) ns of
              (evs, r) \<Rightarrow> (Send sockfd (unat sent) (unat (len - sent)) # evs, r)))
      else ([], Some 0))"

definition send_all :: "int \<Rightarrow> byte list option \<Rightarrow> u32 \<Rightarrow> int list \<Rightarrow> event list \<times> int option" where
  "send_all sockfd buf len ns =
     (if buf = None \<and> len \<noteq> 0 then
        ([Printf ''send_all: invalid argument (NULL buffer with non-zero length)\<newline>''],
         Some (- 1))
      else if len = 0 then ([], Some 0)
      else send_loop sockfd len 0 ns)"

text \<open>
  Vocabulary for the statements about \<open>send_all\<close>. \<open>is_send\<close> recognises the transport
  calls in a trace. \<open>send_conforms len sent ns\<close> says that the answers \<open>ns\<close> respect what
  POSIX promises of \<open>send\<close>: a call asked to write \<open>len - sent\<close> bytes returns at most that
  many. \<open>send_calls fd len off ps\<close> lists the calls that write the remaining suffix, the
  first at offset \<open>off\<close>, each next one further by what the previous one accepted.
\<close>

fun is_send :: "event \<Rightarrow> bool" where
  "is_send (Send fd off sz) = True"
| "is_send ev = False"

fun send_conforms :: "u32 \<Rightarrow> u32 \<Rightarrow> int list \<Rightarrow> bool" where
  "send_conforms len sent [] = True"
| "send_conforms len sent (n # ns) =
     (\<not> sent < len \<or>
      (n \<le> uint (len - sent) \<and> (n \<le> 0 \<or> send_conforms len (sent + word_of_int n) ns)))"

fun send_calls :: "int \<Rightarrow> nat \<Rightarrow> nat \<Rightarrow> int list \<Rightarrow> event list" where
  "send_calls sockfd len off [] = []"
| "send_calls sockfd len off (p # ps) =
     Send sockfd off (len - off) # send_calls sockfd len (off + nat p) ps"

section \<open>\<open>tcp_server.c\<close> with graceful shutdown: the connection handler\<close>

text \<open>
  The statics \<open>udp_socket\<close>, \<open>udp_addr\<close>, \<open>listen_fd\<close> and (in the epoll server) \<open>epoll_fd\<close>
  are written once by \<open>main\<close> before any handler runs; handlers take them as a record.
\<close>

record globals =
  udp_socket :: int
  udp_addr :: sockaddr
  listen_fd :: int
  epoll_fd :: int

text \<open>
  What one \<open>recv\<close> call finds: \<open>Recv_data d\<close> when the bytes \<open>d\<close> are waiting on the
  connection (\<open>[]\<close> is the orderly close by the peer, return value 0), \<open>Recv_fail e\<close> when
  the call fails with \<open>errno = e\<close>. \<open>recv_into buffer sz r\<close> is
  \<open>recv(fd, buffer, sz, 0)\<close>: the return value, \<open>errno\<close>, and the buffer afterwards. A
  call never stores more than \<open>sz\<close> bytes, and leaves the rest of the buffer as it was.
  \<open>errno\<close> after a successful call is never read by the code; the model gives 0.
\<close>

datatype recv_result = Recv_data "byte list" | Recv_fail int

fun recv_into :: "byte list \<Rightarrow> nat \<Rightarrow> recv_result \<Rightarrow> int \<times> int \<times> byte list" where
  "recv_into buffer sz (Recv_data d) =
     (int (length (take sz d)), 0, take sz d @ drop (length (take sz d)) buffer)"
| "recv_into buffer sz (Recv_fail e) = (- 1, e, buffer)"

text \<open>
  One iteration of \<open>while (running)\<close> in \<open>client_thread\<close> sees the value of the volatile
  \<open>running\<close> at the loop head, what \<open>recv\<close> finds and what \<open>sendto\<close> returns.
  \<open>client_iter\<close> is the loop body: the events, the buffer afterwards, and whether the
  loop goes on (\<open>continue\<close> or the end of the body) rather than being left (\<open>break\<close> or
  the loop condition).
\<close>

record client_io =
  running_seen :: int
  recv_ret :: recv_result
  sendto_ret :: int

definition client_iter ::
  "globals \<Rightarrow> int \<Rightarrow> byte list \<Rightarrow> client_io \<Rightarrow> event list \<times> byte list \<times> bool" where
  "client_iter G client_fd buffer io =
     (if running_seen io = 0 then ([], buffer, False)
      else
        (case recv_into buffer BUFFER_SIZE (recv_ret io) of
           (n, errno, buffer') \<Rightarrow>
             if n < 0 then
               (if errno = EAGAIN \<or> errno = EWOULDBLOCK then ([], buffer', True)
                else ([], buffer', False))
             else if n = 0 then ([], buffer', False)
             else
               (Sendto (udp_socket G) (take (nat n) buffer') (udp_addr G) #
                  (if sendto_ret io < 0 then [Perror ''sendto (UDP forward)''] else []),
                buffer', True)))"

fun client_loop :: "globals \<Rightarrow> int \<Rightarrow> byte list \<Rightarrow> client_io list \<Rightarrow> event list \<times> bool" where
  "client_loop G client_fd buffer [] = ([], False)"
| "client_loop G client_fd buffer (io # ios) =
     (case client_iter G client_fd buffer io of
        (evs, buffer', go_on) \<Rightarrow>
          if go_on then
            (case client_loop G client_fd buffer' ios of (evs', left) \<Rightarrow> (evs @ evs', left))
          else (evs, True))"

text \<open>
  \<open>client_thread\<close>: set the receive timeout, run the loop, close the socket. \<open>buffer\<close> is
  the initial content of the uninitialised stack array. The boolean says that the thread
  function has returned.
\<close>

definition client_thread ::
  "globals \<Rightarrow> int \<Rightarrow> int \<Rightarrow> byte list \<Rightarrow> client_io list \<Rightarrow> event list \<times> bool" where
  "client_thread G client_fd setsockopt_ret buffer ios =
     (case client_loop G client_fd buffer ios of
        (evs, left) \<Rightarrow>
          (Setsockopt client_fd #
             (if setsockopt_ret < 0 then [Perror ''setsockopt failed in client thread''] else []) @
             evs @ (if left then [Close client_fd] else []),
           left))"

section \<open>\<open>tcp_server.c\<close> with graceful shutdown: the accept thread\<close>

text \<open>
  One iteration of \<open>while (running)\<close> in \<open>accept_thread_func\<close> sees \<open>running\<close> at the loop
  head, the results of \<open>setsockopt\<close>, \<open>malloc\<close> (\<open>True\<close> for a non-null pointer) and
  \<open>accept\<close> with its \<open>errno\<close>, \<open>running\<close> once more where the code reads it before
  \<open>perror("accept")\<close>, and the result of \<open>pthread_create\<close>. A handler thread that was
  created and detached is the event \<open>Pthread_create_client fd\<close>.
\<close>

record accept_io =
  a_running :: int
  a_setsockopt :: int
  a_malloc :: bool
  a_accept :: int
  a_errno :: int
  a_running_again :: int
  a_pthread_create :: int

definition accept_iter :: "globals \<Rightarrow> accept_io \<Rightarrow> event list \<times> bool" where
  "accept_iter G io =
     (if a_running io = 0 then ([], False)
      else
        (let pre = Setsockopt (listen_fd G) #
               (if a_setsockopt io < 0 then [Perror ''setsockopt failed in accept thread'']
                else [])
         in if \<not> a_malloc io then (pre @ [Perror ''malloc''], True)
            else if a_accept io < 0 then
              (if a_errno io = EAGAIN \<or> a_errno io = EWOULDBLOCK then (pre, True)
               else (pre @ (if a_running_again io \<noteq> 0 then [Perror ''accept''] else []), True))
            else if a_pthread_create io \<noteq> 0 then
              (pre @ [Close (a_accept io), Fprintf_stderr ''Failed to create client thread\<newline>''],
               True)
            else (pre @ [Pthread_create_client (a_accept io)], True)))"

fun accept_thread_func :: "globals \<Rightarrow> accept_io list \<Rightarrow> event list \<times> bool" where
  "accept_thread_func G [] = ([], False)"
| "accept_thread_func G (io # ios) =
     (case accept_iter G io of
        (evs, go_on) \<Rightarrow>
          if go_on then
            (case accept_thread_func G ios of (evs', left) \<Rightarrow> (evs @ evs', left))
          else (evs, True))"

section \<open>\<open>tcp_server.c\<close> with graceful shutdown: \<open>main\<close>\<close>

text \<open>
  \<open>atoi\<close> as the C library of the build (glibc) has it, \<open>(int) strtol(s, NULL, 10)\<close>:
  optional white space, an optional sign, then decimal digits; anything else ends the
  number. \<open>strtol\<close> returns a \<open>long\<close> (64 bits) and answers a value out of its range with
  \<open>LONG_MAX\<close> or \<open>LONG_MIN\<close>; the conversion to \<open>int\<close> keeps the low 32 bits, read as two's
  complement. \<open>htons\<close> takes the low 16 bits of its argument and stores them in network
  byte order: on the little-endian hosts the servers are built for, the two bytes are
  swapped.
\<close>

definition isspace :: "char \<Rightarrow> bool" where
  "isspace c = (c \<in> set [CHR '' '', CHR 0x09, CHR 0x0A, CHR 0x0B, CHR 0x0C, CHR 0x0D])"

definition isdigit :: "char \<Rightarrow> bool" where
  "isdigit c = (c \<in> set ''0123456789'')"

fun digits_value :: "int \<Rightarrow> string \<Rightarrow> int" where
  "digits_value acc [] = acc"
| "digits_value acc (c # cs) =
     (if isdigit c then digits_value (acc * 10 + (int (of_char c) - 48)) cs else acc)"

definition LONG_MAX :: int where
  "LONG_MAX = 9223372036854775807"

definition LONG_MIN :: int where
  "LONG_MIN = - 9223372036854775808"

definition strtol :: "string \<Rightarrow> int" where
  "strtol s =
     (let v = (case dropWhile isspace s of
                 [] \<Rightarrow> 0
               | c # cs \<Rightarrow>
                   if c = CHR ''-'' then - digits_value 0 cs
                   else if c = CHR ''+'' then digits_value 0 cs
                   else digits_value 0 (c # cs))
      in if v > LONG_MAX then LONG_MAX else if v < LONG_MIN then LONG_MIN else v)"

definition atoi :: "string \<Rightarrow> int" where
  "atoi s = sint (word_of_int (strtol s) :: 32 word)"

definition htons :: "int \<Rightarrow> 16 word" where
  "htons x = (let w = (word_of_int x :: 16 word) in or (push_bit 8 w) (drop_bit 8 w))"

text \<open>
  \<open>strncmp(a, b, n) == 0\<close> on strings without interior NUL characters, which is what
  \<open>fgets\<close> and a string literal give.
\<close>

definition strncmp_eq :: "string \<Rightarrow> string \<Rightarrow> nat \<Rightarrow> bool" where
  "strncmp_eq a b n = (take n a = take n b)"

text \<open>
  \<open>argv[0]\<close> as \<open>fprintf("%s")\<close> prints it, and the usage line of the two bridge servers.
\<close>

definition prog_name :: "string list \<Rightarrow> string" where
  "prog_name argv = (case argv of [] \<Rightarrow> ''(null)'' | a # as \<Rightarrow> a)"

definition usage_line :: "string list \<Rightarrow> event" where
  "usage_line argv =
     Fprintf_stderr (''Usage: '' @ prog_name argv @ '' <tcp_port> <udp_host> <udp_port>\<newline>'')"

text \<open>
  The answers \<open>main\<close> gets while it starts up: the two \<open>socket\<close> calls, \<open>inet_pton\<close>,
  \<open>setsockopt\<close>, \<open>bind\<close>, \<open>listen\<close>, \<open>pthread_create\<close> for the accept thread, and for the
  epoll server \<open>epoll_create1\<close>, the two \<open>fcntl\<close> calls of \<open>set_nonblocking\<close> and the
  \<open>epoll_ctl\<close> of \<open>add_to_epoll\<close>.
\<close>

record startup_io =
  socket_udp :: int
  inet_pton_ret :: int
  socket_tcp :: int
  setsockopt_ret :: int
  bind_ret :: int
  listen_ret :: int
  pthread_create_ret :: int
  epoll_create1_ret :: int
  getfl_ret :: int
  setfl_ret :: int
  epoll_ctl_ret :: int

text \<open>
  \<open>main\<close> of the threaded server up to and including the start of the accept thread:
  the events, and either the exit status of an early \<open>return\<close> (\<open>Inl\<close>) or the statics as
  they stand when the server is up (\<open>Inr\<close>).
\<close>

definition tcp_main_startup :: "string list \<Rightarrow> startup_io \<Rightarrow> event list \<times> (int + globals)" where
  "tcp_main_startup argv io =
     (if int (length argv) \<noteq> 4 then ([usage_line argv], Inl 1)
      else if socket_udp io < 0 then ([Socket_call SOCK_DGRAM, Perror ''UDP socket''], Inl 1)
      else if inet_pton_ret io \<le> 0 then
        ([Socket_call SOCK_DGRAM, Fprintf_stderr ''Invalid UDP host\<newline>'',
          Close (socket_udp io)], Inl 1)
      else if socket_tcp io < 0 then
        ([Socket_call SOCK_DGRAM, Socket_call SOCK_STREAM, Perror ''TCP socket'',
          Close (socket_udp io)], Inl 1)
      else if htons (atoi (argv ! 1)) = 0 then
        ([Socket_call SOCK_DGRAM, Socket_call SOCK_STREAM, usage_line argv,
          Close (socket_udp io), Close (socket_tcp io)], Inl 1)
      else
        (let up = [Socket_call SOCK_DGRAM, Socket_call SOCK_STREAM, Setsockopt (socket_tcp io),
                   Bind (socket_tcp io) (htons (atoi (argv ! 1)))];
             G = \<lparr>udp_socket = socket_udp io,
                  udp_addr = (argv ! 2, htons (atoi (argv ! 3))),
                  listen_fd = socket_tcp io, epoll_fd = - 1\<rparr>
         in if bind_ret io < 0 then
              (up @ [Perror ''bind'', Close (socket_udp io), Close (socket_tcp io)], Inl 1)
            else if listen_ret io < 0 then
              (up @ [Listen (socket_tcp io), Perror ''listen'',
                     Close (socket_udp io), Close (socket_tcp io)], Inl 1)
            else
              (let banner =
                 [Listen (socket_tcp io),
                  Printf (''TCP server listening on port '' @ argv ! 1 @ '', forwarding to UDP ''
                          @ argv ! 2 @ '':'' @ argv ! 3 @ ''\<newline>''),
                  Printf ''Type 'quit' and press Enter to exit the server gracefully.\<newline>'']
               in if pthread_create_ret io \<noteq> 0 then
                    (up @ banner @ [Perror ''pthread_create for accept thread'',
                                    Close (socket_udp io), Close (socket_tcp io)], Inl 1)
                  else (up @ banner @ [Pthread_create_accept], Inr G))))"

text \<open>
  One iteration of \<open>while (running)\<close> around \<open>fgets\<close> in \<open>main\<close>: from the value of
  \<open>running\<close> and the line read (\<open>None\<close> when \<open>fgets\<close> returns a null pointer) to the
  events, the value of \<open>running\<close> afterwards, and whether the loop goes on.
\<close>

definition main_input_iter :: "int \<Rightarrow> string option \<Rightarrow> event list \<times> int \<times> bool" where
  "main_input_iter running line =
     (if running = 0 then ([], running, False)
      else
        (case line of
           None \<Rightarrow> ([], running, True)
         | Some input \<Rightarrow>
             if strncmp_eq input ''quit'' 4 then
               ([Printf ''Shutting down TCP server...\<newline>''], 0, False)
             else ([], running, True)))"

text \<open>What \<open>main\<close> does after \<open>pthread_join\<close> has returned; its value is the exit status.\<close>

definition main_shutdown :: "globals \<Rightarrow> event list \<times> int" where
  "main_shutdown G =
     ((if listen_fd G \<ge> 0 then [Close (listen_fd G)] else []) @
      [Close (udp_socket G), Printf ''TCP server stopped.\<newline>''], 0)"

section \<open>\<open>tcp_server.c\<close> with graceful shutdown: the threads together\<close>

text \<open>
  The process after a successful start: the shared flag, where \<open>main\<close> stands, where the
  accept thread stands, the handler threads in the order of their creation, and the
  events so far, each with the thread that issued it.

  The accept thread is at the head of its loop, or past the loop condition (it read the
  flag as the value kept in \<open>In_accept\<close>) and on its way through \<open>setsockopt\<close>, \<open>malloc\<close>
  and the \<open>accept\<close> call that blocks for up to a second, or it has returned. A handler is
  \<open>Fresh\<close> before its \<open>setsockopt\<close>, \<open>Reading\<close> (with its buffer) at the head of its loop,
  \<open>In_recv\<close> when it has read the flag (as the value kept there) and is blocked in
  \<open>recv\<close>, and \<open>Returned\<close> after \<open>close\<close>.

  An action is one step of one thread together with the answers of the environment to
  that step. Reading the flag at a loop head and the rest of the iteration are two
  steps, so that \<open>main\<close> can clear the flag while a thread is blocked in \<open>accept\<close> or
  \<open>recv\<close>; what the thread then does when the call returns is decided by the value it
  read before. The accept thread reads the flag a second time right after a failed
  \<open>accept\<close>: that read sees the flag as it is when the call returns. \<open>main\<close> is the only
  thread that writes the flag, so one turn of its input loop is one step. Once \<open>main\<close>
  has returned the process is gone and no thread takes a step.
\<close>

datatype tid = Main_thread | Accept_thread | Client_thread nat

datatype main_pc = In_input_loop | In_join | Exited int

datatype accept_pc = At_accept_head | In_accept int | Accept_returned

datatype client_state =
  Fresh int | Reading int "byte list" | In_recv int "byte list" int | Returned int

record server =
  sv_running :: int
  sv_main :: main_pc
  sv_accept :: accept_pc
  sv_clients :: "client_state list"
  sv_trace :: "(tid \<times> event) list"

datatype action =
    Main_fgets "string option"
  | Main_join
  | Accept_head
  | Accept_return accept_io
  | Client_start nat int "byte list"
  | Client_head nat
  | Client_return nat client_io

fun spawned :: "event list \<Rightarrow> client_state list" where
  "spawned [] = []"
| "spawned (Pthread_create_client fd # evs) = Fresh fd # spawned evs"
| "spawned (ev # evs) = spawned evs"

fun is_exited :: "main_pc \<Rightarrow> bool" where
  "is_exited (Exited status) = True"
| "is_exited pc = False"

definition main_step :: "server \<Rightarrow> string option \<Rightarrow> server" where
  "main_step s line =
     (if sv_main s = In_input_loop then
        (case main_input_iter (sv_running s) line of
           (evs, running', go_on) \<Rightarrow>
             s\<lparr>sv_running := running',
               sv_main := (if go_on then In_input_loop else In_join),
               sv_trace := sv_trace s @ map (Pair Main_thread) evs\<rparr>)
      else s)"

definition join_step :: "globals \<Rightarrow> server \<Rightarrow> server" where
  "join_step G s =
     (if sv_main s = In_join \<and> sv_accept s = Accept_returned then
        (case main_shutdown G of
           (evs, status) \<Rightarrow>
             s\<lparr>sv_main := Exited status,
               sv_trace := sv_trace s @ map (Pair Main_thread) (Pthread_join_accept # evs)\<rparr>)
      else s)"

text \<open>
  \<open>while (running)\<close> of the accept thread: with the flag clear the loop is left and the
  thread returns, otherwise the thread enters the body with the value it read.
\<close>

definition accept_head :: "server \<Rightarrow> server" where
  "accept_head s =
     (if sv_accept s = At_accept_head \<and> \<not> is_exited (sv_main s) then
        s\<lparr>sv_accept := (if sv_running s = 0 then Accept_returned else In_accept (sv_running s))\<rparr>
      else s)"

text \<open>
  The body of the accept loop runs to its end with the answers \<open>io\<close>: this is
  \<open>accept_iter\<close> for the flag value read at the head and, after a failed \<open>accept\<close>, the
  flag as it is now.
\<close>

definition accept_return :: "globals \<Rightarrow> server \<Rightarrow> accept_io \<Rightarrow> server" where
  "accept_return G s io =
     (case sv_accept s of
        At_accept_head \<Rightarrow> s
      | In_accept r \<Rightarrow>
          if is_exited (sv_main s) then s
          else
            (case accept_iter G
                    (io\<lparr>a_running := r, a_running_again := sv_running s\<rparr>) of
               (evs, go_on) \<Rightarrow>
                 s\<lparr>sv_accept := (if go_on then At_accept_head else Accept_returned),
                   sv_clients := sv_clients s @ spawned evs,
                   sv_trace := sv_trace s @ map (Pair Accept_thread) evs\<rparr>)
      | Accept_returned \<Rightarrow> s)"

definition client_start :: "server \<Rightarrow> nat \<Rightarrow> int \<Rightarrow> byte list \<Rightarrow> server" where
  "client_start s i setsockopt_r buffer =
     (if i < length (sv_clients s) \<and> \<not> is_exited (sv_main s) then
        (case sv_clients s ! i of
           Fresh fd \<Rightarrow>
             s\<lparr>sv_clients := (sv_clients s)[i := Reading fd buffer],
               sv_trace := sv_trace s @ map (Pair (Client_thread i))
                 (Setsockopt fd #
                    (if setsockopt_r < 0 then [Perror ''setsockopt failed in client thread'']
                     else []))\<rparr>
         | Reading fd b \<Rightarrow> s
         | In_recv fd b r \<Rightarrow> s
         | Returned fd \<Rightarrow> s)
      else s)"

text \<open>
  \<open>while (running)\<close> of a handler: with the flag clear the loop is left, the socket is
  closed and the thread returns; otherwise the thread calls \<open>recv\<close> with the value it
  read. That is \<open>client_iter\<close> for a clear flag, and the first line of it otherwise.
\<close>

definition client_head :: "server \<Rightarrow> nat \<Rightarrow> server" where
  "client_head s i =
     (if i < length (sv_clients s) \<and> \<not> is_exited (sv_main s) then
        (case sv_clients s ! i of
           Fresh fd \<Rightarrow> s
         | Reading fd buffer \<Rightarrow>
             if sv_running s = 0 then
               s\<lparr>sv_clients := (sv_clients s)[i := Returned fd],
                 sv_trace := sv_trace s @ [(Client_thread i, Close fd)]\<rparr>
             else s\<lparr>sv_clients := (sv_clients s)[i := In_recv fd buffer (sv_running s)]\<rparr>
         | In_recv fd b r \<Rightarrow> s
         | Returned fd \<Rightarrow> s)
      else s)"

text \<open>
  \<open>recv\<close> returns and the body of the handler's loop runs to its end: this is
  \<open>client_iter\<close> for the flag value read at the head.
\<close>

definition client_return :: "globals \<Rightarrow> server \<Rightarrow> nat \<Rightarrow> client_io \<Rightarrow> server" where
  "client_return G s i io =
     (if i < length (sv_clients s) \<and> \<not> is_exited (sv_main s) then
        (case sv_clients s ! i of
           Fresh fd \<Rightarrow> s
         | Reading fd b \<Rightarrow> s
         | In_recv fd buffer r \<Rightarrow>
             (case client_iter G fd buffer (io\<lparr>running_seen := r\<rparr>) of
                (evs, buffer', go_on) \<Rightarrow>
                  s\<lparr>sv_clients :=
                      (sv_clients s)[i := (if go_on then Reading fd buffer' else Returned fd)],
                    sv_trace := sv_trace s @ map (Pair (Client_thread i))
                      (evs @ (if go_on then [] else [Close fd]))\<rparr>)
         | Returned fd \<Rightarrow> s)
      else s)"

fun step :: "globals \<Rightarrow> server \<Rightarrow> action \<Rightarrow> server" where
  "step G s (Main_fgets line) = main_step s line"
| "step G s Main_join = join_step G s"
| "step G s Accept_head = accept_head s"
| "step G s (Accept_return io) = accept_return G s io"
| "step G s (Client_start i r buffer) = client_start s i r buffer"
| "step G s (Client_head i) = client_head s i"
| "step G s (Client_return i io) = client_return G s i io"

definition run :: "globals \<Rightarrow> server \<Rightarrow> action list \<Rightarrow> server" where
  "run G s as = foldl (step G) s as"

definition started :: server where
  "started = \<lparr>sv_running = 1, sv_main = In_input_loop, sv_accept = At_accept_head,
              sv_clients = [], sv_trace = []\<rparr>"

text \<open>The events of one thread in a trace, and the forwarding calls among events.\<close>

definition events_of :: "tid \<Rightarrow> (tid \<times> event) list \<Rightarrow> event list" where
  "events_of t tr = map snd (filter (\<lambda>p. fst p = t) tr)"

fun is_sendto :: "event \<Rightarrow> bool" where
  "is_sendto (Sendto s bytes dst) = True"
| "is_sendto ev = False"

section \<open>\<open>epoll_server.c\<close>\<close>

text \<open>
  \<open>handle_client_data\<close>: read until the socket has no more data. The list gives, for
  each turn of \<open>while (1)\<close>, what \<open>recv\<close> finds and what \<open>sendto\<close> returns.
\<close>

fun handle_client_data ::
  "globals \<Rightarrow> int \<Rightarrow> byte list \<Rightarrow> (recv_result \<times> int) list \<Rightarrow> event list \<times> int option" where
  "handle_client_data G client_fd buffer [] = ([], None)"
| "handle_client_data G client_fd buffer ((r, sendto_r) # rest) =
     (case recv_into buffer BUFFER_SIZE r of
        (bytes_read, errno, buffer') \<Rightarrow>
          if bytes_read = - 1 then
            (if errno = EAGAIN \<or> errno = EWOULDBLOCK then ([], Some 0)
             else ([Perror ''recv from client''], Some (- 1)))
          else if bytes_read = 0 then
            ([Printf_d ''Client disconnected (fd: %d)\<newline>'' client_fd], Some (- 1))
          else
            (case handle_client_data G client_fd buffer' rest of
               (evs, ret) \<Rightarrow>
                 (Sendto (udp_socket G) (take (nat bytes_read) buffer') (udp_addr G) #
                    (if sendto_r < 0 then [Perror ''sendto (UDP forward)''] else []) @ evs,
                  ret)))"

definition set_nonblocking :: "int \<Rightarrow> int \<Rightarrow> int \<Rightarrow> event list \<times> int" where
  "set_nonblocking fd getfl setfl =
     (if getfl = - 1 then ([Fcntl fd, Perror ''fcntl F_GETFL''], - 1)
      else if setfl = - 1 then ([Fcntl fd, Fcntl fd, Perror ''fcntl F_SETFL''], - 1)
      else ([Fcntl fd, Fcntl fd], 0))"

definition add_to_epoll :: "int \<Rightarrow> int \<Rightarrow> event list \<times> int" where
  "add_to_epoll fd ctl =
     (if ctl = - 1 then ([Epoll_ctl_add fd, Perror ''epoll_ctl: add fd''], - 1)
      else ([Epoll_ctl_add fd], 0))"

definition remove_from_epoll :: "int \<Rightarrow> int \<Rightarrow> event list \<times> int" where
  "remove_from_epoll fd ctl =
     (if ctl = - 1 then ([Epoll_ctl_del fd, Perror ''epoll_ctl: remove fd''], - 1)
      else ([Epoll_ctl_del fd], 0))"

text \<open>
  One entry of the array \<open>epoll_wait\<close> fills: the descriptor that is ready, and the
  answers the body of the \<open>for\<close> loop gets while it serves the entry (\<open>accept\<close>, the two
  \<open>fcntl\<close> calls, \<open>epoll_ctl\<close> for a new connection; the reads, the initial content of
  the stack buffer and \<open>epoll_ctl\<close> for a client). The boolean of \<open>serve_ready\<close> says that
  the body has run to its end.
\<close>

record ready_io =
  ev_fd :: int
  conn_accept :: int
  conn_getfl :: int
  conn_setfl :: int
  conn_add :: int
  client_reads :: "(recv_result \<times> int) list"
  client_buffer :: "byte list"
  client_del :: int

definition serve_ready :: "globals \<Rightarrow> ready_io \<Rightarrow> event list \<times> bool" where
  "serve_ready G r =
     (if ev_fd r = listen_fd G then
        (let client_fd = conn_accept r
         in if client_fd = - 1 then ([Perror ''accept''], True)
            else
              (case set_nonblocking client_fd (conn_getfl r) (conn_setfl r) of
                 (evs1, rc1) \<Rightarrow>
                   if rc1 = - 1 then (evs1 @ [Close client_fd], True)
                   else
                     (case add_to_epoll client_fd (conn_add r) of
                        (evs2, rc2) \<Rightarrow>
                          if rc2 = - 1 then (evs1 @ evs2 @ [Close client_fd], True)
                          else
                            (evs1 @ evs2 @
                               [Printf_d ''New client connected (fd: %d)\<newline>'' client_fd],
                             True))))
      else
        (let client_fd = ev_fd r
         in case handle_client_data G client_fd (client_buffer r) (client_reads r) of
              (evs, None) \<Rightarrow> (evs, False)
            | (evs, Some rc) \<Rightarrow>
                if rc = - 1 then
                  (evs @ fst (remove_from_epoll client_fd (client_del r)) @ [Close client_fd],
                   True)
                else (evs, True)))"

fun serve_all :: "globals \<Rightarrow> ready_io list \<Rightarrow> event list \<times> bool" where
  "serve_all G [] = ([], True)"
| "serve_all G (r # rs) =
     (case serve_ready G r of
        (evs, finished) \<Rightarrow>
          if finished then (case serve_all G rs of (evs', f') \<Rightarrow> (evs @ evs', f'))
          else (evs, False))"

text \<open>
  One turn of \<open>while (running)\<close> in \<open>main\<close>: the answers of \<open>select\<close> on standard input,
  \<open>FD_ISSET\<close>, \<open>fgets\<close>, and \<open>epoll_wait\<close> (a failure with its \<open>errno\<close>, or the ready
  entries). The result says how the turn ends: the loop goes on, the loop is left, or a
  call inside the turn has not returned.
\<close>

datatype wait_result = Wait_fail int | Wait_ready "ready_io list"

record epoll_io =
  select_ret :: int
  stdin_isset :: bool
  fgets_ret :: "string option"
  wait_ret :: wait_result

datatype loop_next = Go_on | Left_loop | Pending

definition epoll_iter :: "globals \<Rightarrow> int \<Rightarrow> epoll_io \<Rightarrow> event list \<times> int \<times> loop_next" where
  "epoll_iter G running io =
     (if running = 0 then ([], running, Left_loop)
      else if select_ret io > 0 \<and> stdin_isset io \<and>
              (case fgets_ret io of None \<Rightarrow> False | Some input \<Rightarrow> strncmp_eq input ''quit'' 4)
      then ([Printf ''Shutting down epoll TCP server...\<newline>''], 0, Left_loop)
      else
        (case wait_ret io of
           Wait_fail errno \<Rightarrow>
             if errno = EINTR then ([], running, Go_on)
             else ([Perror ''epoll_wait''], running, Left_loop)
         | Wait_ready rs \<Rightarrow>
             (case serve_all G rs of
                (evs, finished) \<Rightarrow> (evs, running, if finished then Go_on else Pending))))"

fun epoll_loop :: "globals \<Rightarrow> int \<Rightarrow> epoll_io list \<Rightarrow> event list \<times> int \<times> bool" where
  "epoll_loop G running [] = ([], running, False)"
| "epoll_loop G running (io # ios) =
     (case epoll_iter G running io of
        (evs, running', Go_on) \<Rightarrow>
          (case epoll_loop G running' ios of (evs', r, left) \<Rightarrow> (evs @ evs', r, left))
      | (evs, running', Left_loop) \<Rightarrow> (evs, running', True)
      | (evs, running', Pending) \<Rightarrow> (evs, running', False))"

definition epoll_main_startup :: "string list \<Rightarrow> startup_io \<Rightarrow> event list \<times> (int + globals)" where
  "epoll_main_startup argv io =
     (let u = socket_udp io; e = epoll_create1_ret io; l = socket_tcp io
      in if int (length argv) \<noteq> 4 then ([usage_line argv], Inl 1)
      else if u < 0 then ([Socket_call SOCK_DGRAM, Perror ''UDP socket''], Inl 1)
      else if inet_pton_ret io \<le> 0 then
        ([Socket_call SOCK_DGRAM, Fprintf_stderr ''Invalid UDP host\<newline>'', Close u], Inl 1)
      else if e = - 1 then
        ([Socket_call SOCK_DGRAM, Epoll_create1, Perror ''epoll_create1'', Close u], Inl 1)
      else if l < 0 then
        ([Socket_call SOCK_DGRAM, Epoll_create1, Socket_call SOCK_STREAM, Perror ''TCP socket'',
          Close u, Close e], Inl 1)
      else
        (let up = [Socket_call SOCK_DGRAM, Epoll_create1, Socket_call SOCK_STREAM, Setsockopt l];
             bye = [Close u, Close e, Close l];
             G = \<lparr>udp_socket = u, udp_addr = (argv ! 2, htons (atoi (argv ! 3))),
                  listen_fd = l, epoll_fd = e\<rparr>
         in if setsockopt_ret io < 0 then (up @ Perror ''setsockopt SO_REUSEADDR'' # bye, Inl 1)
            else if htons (atoi (argv ! 1)) = 0 then (up @ usage_line argv # bye, Inl 1)
            else if bind_ret io < 0 then
              (up @ Bind l (htons (atoi (argv ! 1))) # Perror ''bind'' # bye, Inl 1)
            else if listen_ret io < 0 then
              (up @ Bind l (htons (atoi (argv ! 1))) # Listen l # Perror ''listen'' # bye, Inl 1)
            else
              (let up2 = up @ [Bind l (htons (atoi (argv ! 1))), Listen l]
               in case set_nonblocking l (getfl_ret io) (setfl_ret io) of
                    (evs1, rc1) \<Rightarrow>
                      if rc1 = - 1 then (up2 @ evs1 @ bye, Inl 1)
                      else
                        (case add_to_epoll l (epoll_ctl_ret io) of
                           (evs2, rc2) \<Rightarrow>
                             if rc2 = - 1 then (up2 @ evs1 @ evs2 @ bye, Inl 1)
                             else
                               (up2 @ evs1 @ evs2 @
                                  [Printf (''Epoll-based TCP server listening on port '' @ argv ! 1
                                           @ '', forwarding to UDP '' @ argv ! 2 @ '':'' @ argv ! 3
                                           @ ''\<newline>''),
                                   Printf ''Type 'quit' and press Enter to exit the server gracefully.\<newline>''],
                                Inr G)))))"

text \<open>
  \<open>main\<close> of the epoll server: start, loop, clean up. The status is \<open>None\<close> while \<open>main\<close>
  has not returned.
\<close>

definition epoll_main :: "string list \<Rightarrow> startup_io \<Rightarrow> epoll_io list \<Rightarrow> event list \<times> int option" where
  "epoll_main argv sio ios =
     (case epoll_main_startup argv sio of
        (evs, Inl status) \<Rightarrow> (evs, Some status)
      | (evs, Inr G) \<Rightarrow>
          (case epoll_loop G 1 ios of
             (evs', running', left) \<Rightarrow>
               if left then
                 (evs @ evs' @
                    [Close (listen_fd G), Close (udp_socket G), Close (epoll_fd G),
                     Printf ''Epoll-based TCP server stopped.\<newline>''], Some 0)
               else (evs @ evs', None)))"

section \<open>\<open>udp_server.c\<close>: the log sink\<close>









section \<open>Vocabulary of the statements\<close>

text \<open>
  \<open>chunk_of r\<close> is the byte sequence one read hands to its caller: the bytes found, cut to
  the size of the receive buffer, and nothing for a failed read. A read \<open>is_data\<close> when it
  returns \<open>n > 0\<close> bytes. \<open>transient e\<close> is the time-out condition of a read or an accept.
  \<open>reading_continues io\<close> describes the iterations after which a connection handler of
  the threaded server is still reading: the flag was seen set, and the read returned data
  or timed out. \<open>forward_events G r s\<close> is the single forwarding call for the read \<open>r\<close>,
  followed by the report of its failure when \<open>sendto\<close> returned \<open>s < 0\<close>.
\<close>

fun chunk_of :: "recv_result \<Rightarrow> byte list" where
  "chunk_of (Recv_data d) = take BUFFER_SIZE d"
| "chunk_of (Recv_fail e) = []"

definition is_data :: "recv_result \<Rightarrow> bool" where
  "is_data r = (chunk_of r \<noteq> [])"

definition transient :: "int \<Rightarrow> bool" where
  "transient e = (e = EAGAIN \<or> e = EWOULDBLOCK)"

fun read_goes_on :: "recv_result \<Rightarrow> bool" where
  "read_goes_on (Recv_data d) = (d \<noteq> [])"
| "read_goes_on (Recv_fail e) = transient e"

definition reading_continues :: "client_io \<Rightarrow> bool" where
  "reading_continues io = (running_seen io \<noteq> 0 \<and> read_goes_on (recv_ret io))"

definition forward_events :: "globals \<Rightarrow> recv_result \<Rightarrow> int \<Rightarrow> event list" where
  "forward_events G r s =
     (if is_data r then
        Sendto (udp_socket G) (chunk_of r) (udp_addr G) #
          (if s < 0 then [Perror ''sendto (UDP forward)''] else [])
      else [])"

text \<open>
  How one call of \<open>handle_client_data\<close> ends on a read that is not data: what it prints
  and what it returns.
\<close>

fun end_events :: "int \<Rightarrow> recv_result \<Rightarrow> event list" where
  "end_events fd (Recv_data d) = [Printf_d ''Client disconnected (fd: %d)\<newline>'' fd]"
| "end_events fd (Recv_fail e) = (if transient e then [] else [Perror ''recv from client''])"

fun end_code :: "recv_result \<Rightarrow> int" where
  "end_code (Recv_data d) = - 1"
| "end_code (Recv_fail e) = (if transient e then 0 else - 1)"

text \<open>
  In the epoll server: the operator's line that starts with \<open>quit\<close> is there to be read,
  and \<open>epoll_wait\<close> has failed with an error other than \<open>EINTR\<close>.
\<close>

definition quit_typed :: "epoll_io \<Rightarrow> bool" where
  "quit_typed io =
     (select_ret io > 0 \<and> stdin_isset io \<and>
      (case fgets_ret io of None \<Rightarrow> False | Some input \<Rightarrow> strncmp_eq input ''quit'' 4))"

fun wait_broken :: "wait_result \<Rightarrow> bool" where
  "wait_broken (Wait_fail e) = (e \<noteq> EINTR)"
| "wait_broken (Wait_ready rs) = False"




text \<open>
  Two invariants of the running threaded server. \<open>coherent\<close>: while \<open>main\<close> waits for
  input the flag is set and the accept thread has not returned; once \<open>main\<close> has left its
  loop the flag is clear; \<open>main\<close> exits only with status 0 and after the accept thread;
  the accept thread is past its loop condition only with a flag value other than 0.
  \<open>quitting G E\<close>: the flag is clear, and \<open>main\<close> has issued the events \<open>E\<close> and waits in
  \<open>pthread_join\<close>, or has gone on from there through its shutdown and exited.
\<close>

fun entered :: "accept_pc \<Rightarrow> bool" where
  "entered (In_accept r) = (r \<noteq> 0)"
| "entered pc = True"

fun in_accept :: "accept_pc \<Rightarrow> bool" where
  "in_accept (In_accept r) = True"
| "in_accept pc = False"

definition coherent :: "server \<Rightarrow> bool" where
  "coherent s =
     (entered (sv_accept s) \<and>
      (case sv_main s of
         In_input_loop \<Rightarrow> sv_running s \<noteq> 0 \<and> sv_accept s \<noteq> Accept_returned
       | In_join \<Rightarrow> sv_running s = 0
       | Exited status \<Rightarrow> sv_running s = 0 \<and> status = 0 \<and> sv_accept s = Accept_returned))"

definition quitting :: "globals \<Rightarrow> event list \<Rightarrow> server \<Rightarrow> bool" where
  "quitting G E s =
     (sv_running s = 0 \<and>
      ((sv_main s = In_join \<and> events_of Main_thread (sv_trace s) = E) \<or>
       (sv_main s = Exited 0 \<and> sv_accept s = Accept_returned \<and>
        events_of Main_thread (sv_trace s) = E @ Pthread_join_accept # fst (main_shutdown G))))"

section \<open>\<open>send_all\<close>: arithmetic of the loop\<close>

text \<open>
  While \<open>sent < len\<close> and \<open>send\<close> returns a positive count that does not exceed what it
  was asked to write, \<open>sent += (unsigned)n\<close> neither wraps nor passes \<open>len\<close>.
\<close>

lemma uint_advance:
  fixes sent len :: u32
  assumes "sent < len" "0 < n" "n \<le> uint (len - sent)"
  shows "uint (sent + word_of_int n) = uint sent + n"
proof -
  have le: "uint sent \<le> uint len" using assms(1) by (simp add: word_less_def)
  have sub: "uint (len - sent) = uint len - uint sent"
    using le by (simp add: uint_sub_lem)
  have lenb: "uint len < 2 ^ 32" using uint_bounded [of len] by simp
  have s0: "0 \<le> uint sent" by simp
  have nb: "n < 2 ^ 32" using assms(3) sub lenb s0 by linarith
  have wn: "uint (word_of_int n :: u32) = n"
    using assms(2) nb by (simp add: uint_word_of_int)
  have "uint sent + uint (word_of_int n :: u32) < 2 ^ LENGTH(32)"
    using wn assms(3) sub lenb by simp
  then have "uint (sent + word_of_int n) = uint sent + uint (word_of_int n :: u32)"
    by (simp only: uint_add_lem)
  then show ?thesis using wn by simp
qed

lemma uint_remaining:
  fixes sent len :: u32
  shows "sent \<le> len \<Longrightarrow> uint (len - sent) = uint len - uint sent"
  by (simp add: word_le_def uint_sub_lem)

lemma unat_remaining:
  fixes sent len :: u32
  shows "sent \<le> len \<Longrightarrow> unat (len - sent) = unat len - unat sent"
  by (simp add: unat_sub)

lemma uint_of_int_u32: "0 \<le> k \<Longrightarrow> k < 2 ^ 32 \<Longrightarrow> uint (word_of_int k :: u32) = k"
  by (simp add: uint_word_of_int)

lemma send_loop_done: "\<not> sent < len \<Longrightarrow> send_loop sockfd len sent ns = ([], Some 0)"
  by (cases ns) simp_all

lemma send_loop_prefix:
  assumes "\<forall>p \<in> set ps. 0 < p" and "uint sent + sum_list ps \<le> uint len"
  shows "send_loop sockfd len sent (ps @ rest) =
           (case send_loop sockfd len (word_of_int (uint sent + sum_list ps)) rest of
              (evs, r) \<Rightarrow> (send_calls sockfd (unat len) (unat sent) ps @ evs, r))"
  using assms
proof (induction ps arbitrary: sent)
  case Nil
  then show ?case by simp
next
  case (Cons p ps)
  have pos: "0 < p" and rest_pos: "\<forall>q \<in> set ps. 0 < q" using Cons.prems(1) by simp_all
  have "0 \<le> sum_list ps" using rest_pos by (simp add: sum_list_nonneg less_imp_le)
  then have room: "uint sent + p \<le> uint len" using Cons.prems(2) by simp
  then have lt: "sent < len" using pos by (simp add: word_less_def)
  have fits: "p \<le> uint (len - sent)"
    using room lt by (simp add: uint_remaining less_imp_le)
  have adv: "uint (sent + word_of_int p) = uint sent + p"
    using lt pos fits by (rule uint_advance)
  have advn: "unat (sent + word_of_int p) = unat sent + nat p"
  proof -
    have "unat (sent + word_of_int p) = nat (uint (sent + word_of_int p))" by (rule unat_eq_nat_uint)
    also have "\<dots> = nat (uint sent + p)" by (simp only: adv)
    also have "\<dots> = nat (uint sent) + nat p" using pos by (simp only: nat_add_distrib uint_ge_0 less_imp_le)
    also have "\<dots> = unat sent + nat p" by (simp only: unat_eq_nat_uint)
    finally show ?thesis .
  qed
  have sz: "unat (len - sent) = unat len - unat sent"
    using lt by (simp add: unat_remaining less_imp_le)
  have "uint (sent + word_of_int p) + sum_list ps \<le> uint len"
    using adv Cons.prems(2) by simp
  from Cons.IH [OF rest_pos this]
  have ih: "send_loop sockfd len (sent + word_of_int p) (ps @ rest) =
           (case send_loop sockfd len (word_of_int (uint sent + p + sum_list ps)) rest of
              (evs, r) \<Rightarrow> (send_calls sockfd (unat len) (unat sent + nat p) ps @ evs, r))"
    by (simp only: adv advn)
  obtain evs r where tl: "send_loop sockfd len (word_of_int (uint sent + p + sum_list ps)) rest = (evs, r)"
    by (cases "send_loop sockfd len (word_of_int (uint sent + p + sum_list ps)) rest")
  have step: "send_loop sockfd len sent (p # (ps @ rest)) =
      (case send_loop sockfd len (sent + word_of_int p) (ps @ rest) of
              (evs, r) \<Rightarrow> (Send sockfd (unat sent) (unat (len - sent)) # evs, r))"
    using lt pos by simp
  have sm: "uint sent + sum_list (p # ps) = uint sent + p + sum_list ps" by simp
  show ?case
    unfolding append_Cons step ih sm tl
    by (simp only: prod.case send_calls.simps sz append_Cons)
qed

lemma send_loop_success:
  assumes "\<forall>p \<in> set ps. 0 < p" and "uint sent + sum_list ps = uint len"
  shows "send_loop sockfd len sent (ps @ rest) = (send_calls sockfd (unat len) (unat sent) ps, Some 0)"
proof -
  have "word_of_int (uint sent + sum_list ps) = len" using assms(2) by simp
  then show ?thesis
    using send_loop_prefix [of ps sent len sockfd rest] assms
    by (simp add: send_loop_done)
qed

lemma send_loop_failure:
  assumes "\<forall>p \<in> set ps. 0 < p" and "uint sent + sum_list ps < uint len" and "n \<le> 0"
  shows "send_loop sockfd len sent (ps @ n # rest) =
           (send_calls sockfd (unat len) (unat sent) ps @
              [Send sockfd (nat (uint sent + sum_list ps)) (unat len - nat (uint sent + sum_list ps)),
               Perror ''send_all: send failed''], Some (- 1))"
proof -
  define s :: u32 where "s = word_of_int (uint sent + sum_list ps)"
  have nn: "0 \<le> sum_list ps" using assms(1) by (simp add: sum_list_nonneg less_imp_le)
  have lenb: "uint len < 2 ^ 32" using uint_bounded [of len] by simp
  have "0 \<le> uint sent + sum_list ps" "uint sent + sum_list ps < 2 ^ 32"
    using nn assms(2) lenb by simp_all
  then have us: "uint s = uint sent + sum_list ps"
    unfolding s_def by (rule uint_of_int_u32)
  have lt: "s < len" using us assms(2) by (simp add: word_less_def)
  have un: "unat s = nat (uint sent + sum_list ps)" by (simp only: unat_eq_nat_uint us)
  have sz: "unat (len - s) = unat len - unat s" using lt by (simp add: unat_remaining less_imp_le)
  have "send_loop sockfd len s (n # rest) =
      ([Send sockfd (unat s) (unat (len - s)), Perror ''send_all: send failed''], Some (- 1))"
    using lt assms(3) by simp
  then show ?thesis
    using send_loop_prefix [of ps sent len sockfd "n # rest"] assms(1,2)
    unfolding s_def [symmetric] by (simp add: un sz)
qed

lemma send_loop_pending:
  assumes "\<forall>p \<in> set ps. 0 < p" and "uint sent + sum_list ps < uint len"
  shows "send_loop sockfd len sent ps =
           (send_calls sockfd (unat len) (unat sent) ps @
              [Send sockfd (nat (uint sent + sum_list ps)) (unat len - nat (uint sent + sum_list ps))],
            None)"
proof -
  define s :: u32 where "s = word_of_int (uint sent + sum_list ps)"
  have nn: "0 \<le> sum_list ps" using assms(1) by (simp add: sum_list_nonneg less_imp_le)
  have lenb: "uint len < 2 ^ 32" using uint_bounded [of len] by simp
  have "0 \<le> uint sent + sum_list ps" "uint sent + sum_list ps < 2 ^ 32"
    using nn assms(2) lenb by simp_all
  then have us: "uint s = uint sent + sum_list ps"
    unfolding s_def by (rule uint_of_int_u32)
  have lt: "s < len" using us assms(2) by (simp add: word_less_def)
  have un: "unat s = nat (uint sent + sum_list ps)" by (simp only: unat_eq_nat_uint us)
  have sz: "unat (len - s) = unat len - unat s" using lt by (simp add: unat_remaining less_imp_le)
  have "send_loop sockfd len s [] = ([Send sockfd (unat s) (unat (len - s))], None)"
    using lt by simp
  then show ?thesis
    using send_loop_prefix [of ps sent len sockfd "[]"] assms(1,2)
    unfolding s_def [symmetric] by (simp add: un sz)
qed

lemma send_loop_calls_bound:
  "sent \<le> len \<Longrightarrow> send_conforms len sent ns \<Longrightarrow>
     length (filter is_send (fst (send_loop sockfd len sent ns))) \<le> unat len - unat sent"
proof (induction ns arbitrary: sent)
  case Nil
  then show ?case by (auto simp: word_less_nat_alt)
next
  case (Cons n ns)
  show ?case
  proof (cases "sent < len")
    case False
    then show ?thesis by simp
  next
    case lt: True
    show ?thesis
    proof (cases "n \<le> 0")
      case True
      then show ?thesis using lt by (auto simp: word_less_nat_alt)
    next
      case False
      then have pos: "0 < n" by simp
      have fits: "n \<le> uint (len - sent)" and conf: "send_conforms len (sent + word_of_int n) ns"
        using Cons.prems(2) lt False by simp_all
      have adv: "uint (sent + word_of_int n) = uint sent + n"
        using lt pos fits by (rule uint_advance)
      have "sent \<le> len" using lt by simp
      then have "uint (len - sent) = uint len - uint sent" by (rule uint_remaining)
      then have le': "sent + word_of_int n \<le> len"
        using adv fits by (simp add: word_le_def)
      have "unat (sent + word_of_int n) = nat (uint sent + n)"
        by (simp only: unat_eq_nat_uint adv)
      moreover have "unat sent = nat (uint sent)" by (rule unat_eq_nat_uint)
      moreover have "nat (uint sent) < nat (uint sent + n)"
        using pos uint_ge_0 [of sent] by arith
      ultimately have advn: "unat sent < unat (sent + word_of_int n)"
        by (simp only:)
      have "unat (sent + word_of_int n) \<le> unat len" using le' by (simp add: word_le_nat_alt)
      with Cons.IH [OF le' conf] advn show ?thesis
        using lt False by (auto split: prod.splits)
    qed
  qed
qed

lemma unat_advance_less:
  fixes sent len :: u32
  assumes "sent < len" "0 < n" "n \<le> uint (len - sent)"
  shows "unat sent < unat (sent + word_of_int n)"
proof -
  have adv: "uint (sent + word_of_int n) = uint sent + n"
    using assms by (rule uint_advance)
  have "unat (sent + word_of_int n) = nat (uint sent + n)"
    by (simp only: unat_eq_nat_uint adv)
  moreover have "unat sent = nat (uint sent)" by (rule unat_eq_nat_uint)
  moreover have "nat (uint sent) < nat (uint sent + n)"
    using assms(2) uint_ge_0 [of sent] by arith
  ultimately show ?thesis by (simp only:)
qed

lemma advance_le:
  fixes sent len :: u32
  assumes "sent < len" "0 < n" "n \<le> uint (len - sent)"
  shows "sent + word_of_int n \<le> len"
proof -
  have "sent \<le> len" using assms(1) by simp
  then have "uint (len - sent) = uint len - uint sent" by (rule uint_remaining)
  then show ?thesis
    using uint_advance [OF assms] assms(3) by (simp add: word_le_def)
qed

lemma send_loop_returns:
  "sent \<le> len \<Longrightarrow> send_conforms len sent ns \<Longrightarrow> unat len - unat sent \<le> length ns \<Longrightarrow>
     snd (send_loop sockfd len sent ns) \<noteq> None"
proof (induction ns arbitrary: sent)
  case Nil
  then have "\<not> sent < len" by (simp add: word_less_nat_alt word_le_nat_alt)
  then show ?case by simp
next
  case (Cons n ns)
  show ?case
  proof (cases "sent < len \<and> 0 < n")
    case False
    then show ?thesis by auto
  next
    case True
    then have lt: "sent < len" and pos: "0 < n" by simp_all
    have fits: "n \<le> uint (len - sent)" and conf: "send_conforms len (sent + word_of_int n) ns"
      using Cons.prems(2) lt pos by simp_all
    have le': "sent + word_of_int n \<le> len" using lt pos fits by (rule advance_le)
    have "unat sent < unat (sent + word_of_int n)" using lt pos fits by (rule unat_advance_less)
    then have "unat len - unat (sent + word_of_int n) \<le> length ns"
      using Cons.prems(3) by simp
    from Cons.IH [OF le' conf this] show ?thesis
      using lt pos by (auto split: prod.splits)
  qed
qed

lemma send_loop_pending_positive:
  "send_loop sockfd len sent ns = (evs, None) \<Longrightarrow> \<forall>n \<in> set ns. 0 < n"
proof (induction ns arbitrary: sent evs)
  case Nil
  then show ?case by simp
next
  case (Cons n ns)
  show ?case
  proof (cases "sent < len \<and> 0 < n")
    case False
    then show ?thesis using Cons.prems by (auto split: if_splits)
  next
    case True
    then obtain evs' where "send_loop sockfd len (sent + word_of_int n) ns = (evs', None)"
      using Cons.prems by (auto split: prod.splits)
    from Cons.IH [OF this] show ?thesis using True by simp
  qed
qed

section \<open>\<open>send_all\<close>: the claims\<close>

text \<open>
  Claim C3, as the code has it. For every length \<open>len > 0\<close>, \<open>send_all\<close> with a null
  buffer prints its invalid-argument message and returns \<open>-1\<close> at once: the trace holds
  no \<open>send\<close> call, whatever the transport would have answered. The value returned is the
  same \<open>-1\<close> that a failed \<open>send\<close> produces (second conjunct); the two failures differ in
  the diagnostic printed, not in what the caller receives.
\<close>

theorem send_all_null_buffer:
  assumes "len \<noteq> 0"
  shows "send_all sockfd None len ns =
           ([Printf ''send_all: invalid argument (NULL buffer with non-zero length)\<newline>''], Some (- 1))
         \<and> (n \<le> 0 \<longrightarrow>
              send_all sockfd (Some b) len (n # ns) =
                ([Send sockfd 0 (unat len), Perror ''send_all: send failed''], Some (- 1)))"
proof -
  have "0 < len" using assms by (simp add: word_gt_0)
  then show ?thesis using assms by (simp add: send_all_def)
qed

theorem send_all_null_buffer_witness:
  "(5 :: u32) \<noteq> 0 \<and> (- 1 :: int) \<le> 0 \<and>
   send_all 3 None 5 [4, 1] =
     ([Printf ''send_all: invalid argument (NULL buffer with non-zero length)\<newline>''], Some (- 1)) \<and>
   send_all 3 (Some [1, 2, 3, 4, 5]) 5 [- 1, 5] =
     ([Send 3 0 5, Perror ''send_all: send failed''], Some (- 1))"
  using send_all_null_buffer [of 5 3 "[4, 1]" "- 1" "[1, 2, 3, 4, 5]"]
        send_all_null_buffer [of 5 3 "[5]" "- 1" "[1, 2, 3, 4, 5]"] by simp

text \<open>
  Claim C3 as stated asks for a failure that can be told from a transport error. Both
  calls below return \<open>-1\<close>: a null buffer of declared length 1, and a one-byte buffer whose
  \<open>send\<close> fails.
\<close>

theorem send_all_null_indistinct_counterexample:
  "snd (send_all 3 None 1 []) = Some (- 1) \<and> snd (send_all 3 (Some [65]) 1 [- 1]) = Some (- 1)"
  by (simp add: send_all_def)

text \<open>
  Claim C4. Let the buffer be non-null and let \<open>ps\<close> be positive answers of the transport
  whose sum does not exceed \<open>len\<close>. The calls issued for them are \<open>send_calls\<close>: each at
  the offset of the bytes accepted so far, for the bytes that remain. If the answers add
  up to \<open>len\<close>, \<open>send_all\<close> returns 0 after exactly these calls, whatever the transport
  would answer next (with \<open>ps = []\<close>: a length of 0 succeeds with no call at all). If they
  add up to less and the next answer is \<open>n \<le> 0\<close>, the call for the remaining suffix is
  followed by the diagnostic and the return value \<open>-1\<close>, with no further call. If they add
  up to less and the transport has not answered yet, the call for the remaining suffix is
  the last event and \<open>send_all\<close> has not returned.
\<close>

theorem send_all_contract:
  assumes "\<forall>p \<in> set ps. 0 < p" and "sum_list ps \<le> uint len"
  shows "(sum_list ps = uint len \<longrightarrow>
            send_all sockfd (Some b) len (ps @ rest) = (send_calls sockfd (unat len) 0 ps, Some 0))
       \<and> (sum_list ps < uint len \<and> n \<le> 0 \<longrightarrow>
            send_all sockfd (Some b) len (ps @ n # rest) =
              (send_calls sockfd (unat len) 0 ps @
                 [Send sockfd (nat (sum_list ps)) (unat len - nat (sum_list ps)),
                  Perror ''send_all: send failed''], Some (- 1)))
       \<and> (sum_list ps < uint len \<longrightarrow>
            send_all sockfd (Some b) len ps =
              (send_calls sockfd (unat len) 0 ps @
                 [Send sockfd (nat (sum_list ps)) (unat len - nat (sum_list ps))], None))"
proof (intro conjI impI)
  assume eq: "sum_list ps = uint len"
  show "send_all sockfd (Some b) len (ps @ rest) = (send_calls sockfd (unat len) 0 ps, Some 0)"
  proof (cases "len = 0")
    case True
    then have "sum_list ps = 0" using eq by simp
    have "ps = []"
    proof (cases ps)
      case Nil
      then show ?thesis .
    next
      case (Cons a as)
      then have "0 < a" and "0 \<le> sum_list as"
        using assms(1) by (simp_all add: sum_list_nonneg less_imp_le)
      then show ?thesis using \<open>sum_list ps = 0\<close> Cons by simp
    qed
    then show ?thesis using True by (simp add: send_all_def)
  next
    case False
    then show ?thesis
      using send_loop_success [of ps 0 len sockfd rest] assms(1) eq
      by (simp add: send_all_def)
  qed
next
  assume h: "sum_list ps < uint len \<and> n \<le> 0"
  have nn: "0 \<le> sum_list ps" using assms(1) by (simp add: sum_list_nonneg less_imp_le)
  then have "len \<noteq> 0" using h by auto
  then show "send_all sockfd (Some b) len (ps @ n # rest) =
              (send_calls sockfd (unat len) 0 ps @
                 [Send sockfd (nat (sum_list ps)) (unat len - nat (sum_list ps)),
                  Perror ''send_all: send failed''], Some (- 1))"
    using send_loop_failure [of ps 0 len n sockfd rest] assms(1) h
    by (simp add: send_all_def)
next
  assume h: "sum_list ps < uint len"
  have nn: "0 \<le> sum_list ps" using assms(1) by (simp add: sum_list_nonneg less_imp_le)
  then have "len \<noteq> 0" using h by auto
  then show "send_all sockfd (Some b) len ps =
              (send_calls sockfd (unat len) 0 ps @
                 [Send sockfd (nat (sum_list ps)) (unat len - nat (sum_list ps))], None)"
    using send_loop_pending [of ps 0 len sockfd] assms(1) h
    by (simp add: send_all_def)
qed

theorem send_all_contract_witness:
  "list_all (\<lambda>p. 0 < p) [2, 1 :: int] \<and> sum_list [2, 1 :: int] = uint (3 :: u32) \<and>
   send_all 7 (Some [10, 20, 30]) 3 [2, 1, 9] = ([Send 7 0 3, Send 7 2 1], Some 0) \<and>
   send_all 7 (Some []) 0 [5] = ([], Some 0) \<and>
   list_all (\<lambda>p. 0 < p) [2 :: int] \<and> sum_list [2 :: int] < uint (3 :: u32) \<and> (0 :: int) \<le> 0 \<and>
   send_all 7 (Some [10, 20, 30]) 3 [2, 0, 9] =
     ([Send 7 0 3, Send 7 2 1, Perror ''send_all: send failed''], Some (- 1)) \<and>
   send_all 7 (Some [10, 20, 30]) 3 [2] = ([Send 7 0 3, Send 7 2 1], None)"
  using send_all_contract [of "[2, 1]" 3 7 "[10, 20, 30]" "[9]" 0]
        send_all_contract [of "[]" 0 7 "[]" "[5]" 0]
        send_all_contract [of "[2]" 3 7 "[10, 20, 30]" "[9]" 0]
  by simp

text \<open>
  Claim C10. Suppose every \<open>send\<close> returns at most the count it was asked to write. Then
  \<open>send_all\<close> issues at most \<open>len\<close> calls; it has returned as soon as the transport has
  answered \<open>len\<close> calls; and while it has not returned, every answer so far was positive.
  An answer \<open>n \<le> 0\<close> (a zero-byte write included) ends the call at once with the failure
  return: after positive answers \<open>ps\<close> that add up to less than \<open>len\<close>, \<open>send_all\<close> with a
  non-null buffer issues the call for the remaining suffix, prints its diagnostic and
  returns \<open>-1\<close>, whatever the transport would answer next; and one turn of the loop that
  gets such an answer is that call, the diagnostic and \<open>-1\<close>. One turn of the loop that
  gets a positive answer issues its call and goes on with \<open>sent\<close> strictly higher and not
  beyond \<open>len\<close>.
\<close>

theorem send_all_terminates:
  assumes "send_conforms len 0 ns"
  shows "length (filter is_send (fst (send_all sockfd buf len ns))) \<le> unat len
       \<and> (unat len \<le> length ns \<longrightarrow> snd (send_all sockfd buf len ns) \<noteq> None)
       \<and> (snd (send_all sockfd buf len ns) = None \<longrightarrow> (\<forall>n \<in> set ns. 0 < n))
       \<and> ((\<forall>p \<in> set ps. 0 < p) \<and> sum_list ps < uint len \<and> n \<le> 0 \<longrightarrow>
            send_all sockfd (Some b) len (ps @ n # rest) =
              (send_calls sockfd (unat len) 0 ps @
                 [Send sockfd (nat (sum_list ps)) (unat len - nat (sum_list ps)),
                  Perror ''send_all: send failed''], Some (- 1)))
       \<and> (sent < len \<and> n \<le> 0 \<longrightarrow>
            send_loop sockfd len sent (n # rest) =
              ([Send sockfd (unat sent) (unat (len - sent)), Perror ''send_all: send failed''],
               Some (- 1)))
       \<and> (sent < len \<and> 0 < n \<and> n \<le> uint (len - sent) \<longrightarrow>
            send_loop sockfd len sent (n # rest) =
              (Send sockfd (unat sent) (unat (len - sent)) #
                 fst (send_loop sockfd len (sent + word_of_int n) rest),
               snd (send_loop sockfd len (sent + word_of_int n) rest))
          \<and> unat sent < unat (sent + word_of_int n) \<and> sent + word_of_int n \<le> len)"
proof -
  have main: "length (filter is_send (fst (send_all sockfd buf len ns))) \<le> unat len
       \<and> (unat len \<le> length ns \<longrightarrow> snd (send_all sockfd buf len ns) \<noteq> None)
       \<and> (snd (send_all sockfd buf len ns) = None \<longrightarrow> (\<forall>n \<in> set ns. 0 < n))"
  proof (cases "(buf = None \<and> len \<noteq> 0) \<or> len = 0")
    case True
    then show ?thesis by (auto simp: send_all_def)
  next
    case False
    then have eq: "send_all sockfd buf len ns = send_loop sockfd len 0 ns"
      by (auto simp: send_all_def)
    have "snd (send_loop sockfd len 0 ns) = None \<longrightarrow> (\<forall>n \<in> set ns. 0 < n)"
      using send_loop_pending_positive [of sockfd len 0 ns]
      by (cases "send_loop sockfd len 0 ns") simp
    then show ?thesis
      unfolding eq
      using send_loop_calls_bound [of 0 len ns sockfd] send_loop_returns [of 0 len ns sockfd] assms
      by simp
  qed
  have fail: "(\<forall>p \<in> set ps. 0 < p) \<and> sum_list ps < uint len \<and> n \<le> 0 \<longrightarrow>
            send_all sockfd (Some b) len (ps @ n # rest) =
              (send_calls sockfd (unat len) 0 ps @
                 [Send sockfd (nat (sum_list ps)) (unat len - nat (sum_list ps)),
                  Perror ''send_all: send failed''], Some (- 1))"
  proof
    assume h: "(\<forall>p \<in> set ps. 0 < p) \<and> sum_list ps < uint len \<and> n \<le> 0"
    then have "0 \<le> sum_list ps" by (simp add: sum_list_nonneg less_imp_le)
    then have "len \<noteq> 0" using h by auto
    then show "send_all sockfd (Some b) len (ps @ n # rest) =
              (send_calls sockfd (unat len) 0 ps @
                 [Send sockfd (nat (sum_list ps)) (unat len - nat (sum_list ps)),
                  Perror ''send_all: send failed''], Some (- 1))"
      using send_loop_failure [of ps 0 len n sockfd rest] h
      by (simp add: send_all_def)
  qed
  have turn_fail: "sent < len \<and> n \<le> 0 \<longrightarrow>
            send_loop sockfd len sent (n # rest) =
              ([Send sockfd (unat sent) (unat (len - sent)), Perror ''send_all: send failed''],
               Some (- 1))"
    by simp
  have turn: "sent < len \<and> 0 < n \<and> n \<le> uint (len - sent) \<longrightarrow>
            send_loop sockfd len sent (n # rest) =
              (Send sockfd (unat sent) (unat (len - sent)) #
                 fst (send_loop sockfd len (sent + word_of_int n) rest),
               snd (send_loop sockfd len (sent + word_of_int n) rest))
          \<and> unat sent < unat (sent + word_of_int n) \<and> sent + word_of_int n \<le> len"
  proof
    assume h: "sent < len \<and> 0 < n \<and> n \<le> uint (len - sent)"
    then have a: "sent < len" and b: "0 < n" and c: "n \<le> uint (len - sent)" by simp_all
    have "send_loop sockfd len sent (n # rest) =
              (Send sockfd (unat sent) (unat (len - sent)) #
                 fst (send_loop sockfd len (sent + word_of_int n) rest),
               snd (send_loop sockfd len (sent + word_of_int n) rest))"
      using a b by (simp split: prod.splits)
    moreover have "unat sent < unat (sent + word_of_int n)"
      using a b c by (rule unat_advance_less)
    moreover have "sent + word_of_int n \<le> len"
      using a b c by (rule advance_le)
    ultimately show "send_loop sockfd len sent (n # rest) =
              (Send sockfd (unat sent) (unat (len - sent)) #
                 fst (send_loop sockfd len (sent + word_of_int n) rest),
               snd (send_loop sockfd len (sent + word_of_int n) rest))
          \<and> unat sent < unat (sent + word_of_int n) \<and> sent + word_of_int n \<le> len"
      by simp
  qed
  from main have m1: "length (filter is_send (fst (send_all sockfd buf len ns))) \<le> unat len"
    and m2: "unat len \<le> length ns \<longrightarrow> snd (send_all sockfd buf len ns) \<noteq> None"
    and m3: "snd (send_all sockfd buf len ns) = None \<longrightarrow> (\<forall>n \<in> set ns. 0 < n)"
    by simp_all
  show ?thesis by (intro conjI) (rule m1 m2 m3 fail turn_fail turn)+
qed

theorem send_all_terminates_witness:
  "send_conforms 3 0 [1, 1, 1] \<and>
   length (filter is_send (fst (send_all 7 (Some [10, 20, 30]) 3 [1, 1, 1]))) \<le> unat (3 :: u32) \<and>
   unat (3 :: u32) \<le> length [1, 1, 1 :: int] \<and>
   snd (send_all 7 (Some [10, 20, 30]) 3 [1, 1, 1]) = Some 0 \<and>
   snd (send_all 7 (Some [10, 20, 30]) 3 [1, 1]) = None \<and> list_all (\<lambda>n. 0 < n) [1, 1 :: int] \<and>
   list_all (\<lambda>p. 0 < p) [2 :: int] \<and> sum_list [2 :: int] < uint (3 :: u32) \<and> (0 :: int) \<le> 0 \<and>
   send_all 7 (Some [10, 20, 30]) 3 [2, 0, 9] =
     ([Send 7 0 3, Send 7 2 1, Perror ''send_all: send failed''], Some (- 1)) \<and>
   (1 :: u32) < 3 \<and>
   send_loop 7 3 1 [0, 9] = ([Send 7 1 2, Perror ''send_all: send failed''], Some (- 1)) \<and>
   (0 :: int) < 2 \<and> (2 :: int) \<le> uint (3 - 1 :: u32) \<and>
   send_loop 7 3 1 [2, 9] = ([Send 7 1 2], Some 0) \<and>
   unat (1 :: u32) < unat (1 + word_of_int 2 :: u32) \<and> (1 + word_of_int 2 :: u32) \<le> 3"
  using send_all_terminates [of 3 "[1, 1, 1]" 7 "Some [10, 20, 30]" "[2]" 0 "[10, 20, 30]" "[9]" 1]
        send_all_terminates [of 3 "[1, 1]" 7 "Some [10, 20, 30]" "[2]" 2 "[10, 20, 30]" "[9]" 1]
  by (simp add: send_all_def)

section \<open>Connection handlers: what the loops compute\<close>

text \<open>
  Both handlers forward while the reads go on. The threaded handler's loop is left at the
  first iteration that does not satisfy \<open>reading_continues\<close>; one call of
  \<open>handle_client_data\<close> ends at the first read that is not data.
\<close>

lemma take_min_length: "take (min (length d) sz) d = take sz d"
  by (cases "length d \<le> sz") (simp_all add: min_def)

lemma min_length_0: "min (length d) sz = 0 \<longleftrightarrow> d = [] \<or> sz = 0"
  by (cases d) (auto simp: min_def)

lemma BUFFER_SIZE_pos: "0 < BUFFER_SIZE"
  by (simp add: BUFFER_SIZE_def)

lemma chunk_empty_iff: "chunk_of (Recv_data d) = [] \<longleftrightarrow> d = []"
  using BUFFER_SIZE_pos by (cases d) (auto simp: take_Cons')

lemma client_iter_events:
  "fst (client_iter G fd buffer io) =
     (if reading_continues io then forward_events G (recv_ret io) (sendto_ret io) else [])"
proof (cases "recv_ret io")
  case (Recv_data d)
  then show ?thesis
    using BUFFER_SIZE_pos
    by (auto simp: client_iter_def reading_continues_def forward_events_def is_data_def
          take_min_length min_length_0)
next
  case (Recv_fail e)
  then show ?thesis
    by (simp add: client_iter_def reading_continues_def forward_events_def is_data_def transient_def)
qed

lemma client_iter_goes_on:
  "snd (snd (client_iter G fd buffer io)) = reading_continues io"
proof (cases "recv_ret io")
  case (Recv_data d)
  then show ?thesis
    using BUFFER_SIZE_pos
    by (auto simp: client_iter_def reading_continues_def min_length_0)
next
  case (Recv_fail e)
  then show ?thesis
    by (simp add: client_iter_def reading_continues_def transient_def)
qed

lemma client_loop_eq:
  "client_loop G fd buffer ios =
     (concat (map (\<lambda>io. forward_events G (recv_ret io) (sendto_ret io))
                (takeWhile reading_continues ios)),
      \<exists>io \<in> set ios. \<not> reading_continues io)"
proof (induction ios arbitrary: buffer)
  case Nil
  then show ?case by simp
next
  case (Cons io ios)
  obtain evs buffer' go_on where it: "client_iter G fd buffer io = (evs, buffer', go_on)"
    by (cases "client_iter G fd buffer io")
  have e: "evs = (if reading_continues io then forward_events G (recv_ret io) (sendto_ret io) else [])"
    using client_iter_events [of G fd buffer io] it by simp
  have g: "go_on = reading_continues io"
    using client_iter_goes_on [of G fd buffer io] it by simp
  show ?case
  proof (cases "reading_continues io")
    case True
    then show ?thesis using it e g Cons.IH [of buffer'] by simp
  next
    case False
    then show ?thesis using it e g by auto
  qed
qed

lemma handle_client_data_eq:
  "handle_client_data G fd buffer rs =
     (concat (map (\<lambda>p. forward_events G (fst p) (snd p)) (takeWhile (\<lambda>p. is_data (fst p)) rs)) @
        (case dropWhile (\<lambda>p. is_data (fst p)) rs of [] \<Rightarrow> [] | p # ps \<Rightarrow> end_events fd (fst p)),
      case dropWhile (\<lambda>p. is_data (fst p)) rs of [] \<Rightarrow> None | p # ps \<Rightarrow> Some (end_code (fst p)))"
proof (induction rs arbitrary: buffer)
  case Nil
  then show ?case by simp
next
  case (Cons p rs)
  obtain r s where p: "p = (r, s)" by (cases p)
  show ?case
  proof (cases r)
    case (Recv_fail e)
    then show ?thesis using p
      by (simp add: is_data_def transient_def)
  next
    case (Recv_data d)
    show ?thesis
    proof (cases "d = []")
      case True
      then show ?thesis using p Recv_data by (simp add: is_data_def)
    next
      case False
      then have dat: "is_data r" using Recv_data chunk_empty_iff [of d] by (simp add: is_data_def)
      have len: "int (length (take BUFFER_SIZE d)) \<noteq> 0" "int (length (take BUFFER_SIZE d)) \<noteq> - 1"
        using False BUFFER_SIZE_pos by (simp_all add: min_length_0)
      show ?thesis
        using p Recv_data dat len
          Cons.IH [of "take BUFFER_SIZE d @ drop (length (take BUFFER_SIZE d)) buffer"]
        by (simp add: forward_events_def take_min_length split: prod.splits)
    qed
  qed
qed

lemma sendto_of_forwards:
  "filter is_sendto (concat (map (\<lambda>x. forward_events G (f x) (g x)) xs)) =
     map (\<lambda>x. Sendto (udp_socket G) (chunk_of (f x)) (udp_addr G)) (filter (\<lambda>x. is_data (f x)) xs)"
  by (induction xs) (simp_all add: forward_events_def)

lemma no_close_in_forwards:
  "Close fd \<notin> set (concat (map (\<lambda>x. forward_events G (f x) (g x)) xs))"
  by (induction xs) (simp_all add: forward_events_def)

lemma forwards_of_data:
  "\<forall>x \<in> set xs. is_data (f x) \<Longrightarrow>
     concat (map (\<lambda>x. forward_events G (f x) (g x)) xs) =
     concat (map (\<lambda>x. Sendto (udp_socket G) (chunk_of (f x)) (udp_addr G) #
                        (if g x < 0 then [Perror ''sendto (UDP forward)''] else [])) xs)"
  by (induction xs) (simp_all add: forward_events_def)

lemma no_sendto_in_end: "filter is_sendto (end_events fd r) = []"
  by (cases r) simp_all

lemma recv_into_chunk:
  "is_data r \<Longrightarrow>
     fst (recv_into buffer BUFFER_SIZE r) = int (length (chunk_of r)) \<and>
     take (length (chunk_of r)) (snd (snd (recv_into buffer BUFFER_SIZE r))) = chunk_of r"
  by (cases r) (simp_all add: is_data_def take_min_length)

lemma reading_continues_sendto:
  "reading_continues (io\<lparr>sendto_ret := s\<rparr>) = reading_continues io"
  by (simp add: reading_continues_def)

lemma forward_events_unreported:
  "filter (\<lambda>e. e \<noteq> Perror ''sendto (UDP forward)'') (forward_events G r s) = forward_events G r 0"
  by (simp add: forward_events_def)

lemma forwards_unreported:
  "filter (\<lambda>e. e \<noteq> Perror ''sendto (UDP forward)'')
     (concat (map (\<lambda>x. forward_events G (f x) (g x)) xs)) =
   concat (map (\<lambda>x. forward_events G (f x) 0) xs)"
  by (induction xs) (simp_all add: forward_events_unreported)

lemma end_events_unreported:
  "filter (\<lambda>e. e \<noteq> Perror ''sendto (UDP forward)'') (end_events fd r) = end_events fd r"
  by (cases r) simp_all

lemma takeWhile_continues_succeed:
  "takeWhile reading_continues (map (\<lambda>io. io\<lparr>sendto_ret := 0\<rparr>) ios) =
     map (\<lambda>io. io\<lparr>sendto_ret := 0\<rparr>) (takeWhile reading_continues ios)"
  by (induction ios) (simp_all add: reading_continues_sendto)

lemma takeWhile_data_succeed:
  "takeWhile (\<lambda>p. is_data (fst p)) (map (\<lambda>p. (fst p, 0)) rs) =
     map (\<lambda>p. (fst p, 0)) (takeWhile (\<lambda>p. is_data (fst p)) rs)"
  by (induction rs) simp_all

lemma dropWhile_data_succeed:
  "dropWhile (\<lambda>p. is_data (fst p)) (map (\<lambda>p. (fst p, 0)) rs) =
     map (\<lambda>p. (fst p, 0)) (dropWhile (\<lambda>p. is_data (fst p)) rs)"
  by (induction rs) simp_all

lemma client_thread_eq:
  "client_thread G fd so buffer ios =
     (Setsockopt fd #
        (if so < 0 then [Perror ''setsockopt failed in client thread''] else []) @
        concat (map (\<lambda>io. forward_events G (recv_ret io) (sendto_ret io))
                  (takeWhile reading_continues ios)) @
        (if list_ex (\<lambda>io. \<not> reading_continues io) ios then [Close fd] else []),
      list_ex (\<lambda>io. \<not> reading_continues io) ios)"
  by (simp add: client_thread_def client_loop_eq list_ex_iff)

lemma client_thread_unreported:
  "filter (\<lambda>e. e \<noteq> Perror ''sendto (UDP forward)'') (fst (client_thread G fd so buffer ios)) =
     fst (client_thread G fd so buffer (map (\<lambda>io. io\<lparr>sendto_ret := 0\<rparr>) ios))
   \<and> snd (client_thread G fd so buffer ios) =
     snd (client_thread G fd so buffer (map (\<lambda>io. io\<lparr>sendto_ret := 0\<rparr>) ios))"
proof -
  have ex: "list_ex (\<lambda>io. \<not> reading_continues io) (map (\<lambda>io. io\<lparr>sendto_ret := 0\<rparr>) ios) =
              list_ex (\<lambda>io. \<not> reading_continues io) ios"
    by (induction ios) (simp_all add: reading_continues_sendto)
  show ?thesis
    by (simp add: client_thread_eq ex takeWhile_continues_succeed comp_def
          forwards_unreported [of G recv_ret sendto_ret])
qed

lemma handle_client_data_unreported:
  "filter (\<lambda>e. e \<noteq> Perror ''sendto (UDP forward)'') (fst (handle_client_data G fd buffer rs)) =
     fst (handle_client_data G fd buffer (map (\<lambda>p. (fst p, 0)) rs))
   \<and> snd (handle_client_data G fd buffer rs) =
     snd (handle_client_data G fd buffer (map (\<lambda>p. (fst p, 0)) rs))"
proof (cases "dropWhile (\<lambda>p. is_data (fst p)) rs")
  case Nil
  show ?thesis
    unfolding handle_client_data_eq takeWhile_data_succeed dropWhile_data_succeed Nil
    by (simp add: comp_def forwards_unreported [of G fst snd])
next
  case (Cons p ps)
  show ?thesis
    unfolding handle_client_data_eq takeWhile_data_succeed dropWhile_data_succeed Cons
    by (simp add: comp_def forwards_unreported [of G fst snd] end_events_unreported)
qed

lemma serve_ready_unreported:
  "filter (\<lambda>e. e \<noteq> Perror ''sendto (UDP forward)'') (fst (serve_ready G r)) =
     fst (serve_ready G (r\<lparr>client_reads := map (\<lambda>p. (fst p, 0)) (client_reads r)\<rparr>))
   \<and> snd (serve_ready G r) =
     snd (serve_ready G (r\<lparr>client_reads := map (\<lambda>p. (fst p, 0)) (client_reads r)\<rparr>))"
proof (cases "ev_fd r = listen_fd G")
  case True
  then show ?thesis
    by (simp add: serve_ready_def Let_def set_nonblocking_def add_to_epoll_def)
next
  case False
  obtain evs rc where h: "handle_client_data G (ev_fd r) (client_buffer r) (client_reads r) = (evs, rc)"
    by (cases "handle_client_data G (ev_fd r) (client_buffer r) (client_reads r)")
  obtain evs' rc' where h': "handle_client_data G (ev_fd r) (client_buffer r)
       (map (\<lambda>p. (fst p, 0)) (client_reads r)) = (evs', rc')"
    by (cases "handle_client_data G (ev_fd r) (client_buffer r) (map (\<lambda>p. (fst p, 0)) (client_reads r))")
  have e: "filter (\<lambda>e. e \<noteq> Perror ''sendto (UDP forward)'') evs = evs'" and c: "rc = rc'"
    using handle_client_data_unreported [of G "ev_fd r" "client_buffer r" "client_reads r"] h h'
    by simp_all
  show ?thesis
    using False h h' e c
    by (cases rc') (simp_all add: serve_ready_def Let_def remove_from_epoll_def)
qed

section \<open>Connection handlers: the claims\<close>

text \<open>
  Claim C1. Whatever the environment answers, the \<open>sendto\<close> calls of a handler are, in
  order, one call per read that returned \<open>n > 0\<close> bytes while the handler was reading,
  each to the socket and address fixed at start-up, each carrying \<open>chunk_of\<close> that read:
  no call joins two reads, splits one, or adds a byte. This holds for \<open>client_thread\<close>
  of the threaded server and for every call of \<open>handle_client_data\<close> of the epoll
  server. The last conjunct ties \<open>chunk_of\<close> to the code: for a read with data, its
  length is the value \<open>recv\<close> returned and its bytes are the first \<open>n\<close> bytes of the
  buffer after the call, whatever the buffer held before.
\<close>

theorem forwards_each_read_once:
  "filter is_sendto (fst (client_thread G fd so buffer ios)) =
     map (\<lambda>io. Sendto (udp_socket G) (chunk_of (recv_ret io)) (udp_addr G))
       (filter (\<lambda>io. is_data (recv_ret io)) (takeWhile reading_continues ios))
   \<and> filter is_sendto (fst (handle_client_data G fd buffer rs)) =
     map (\<lambda>p. Sendto (udp_socket G) (chunk_of (fst p)) (udp_addr G))
       (takeWhile (\<lambda>p. is_data (fst p)) rs)
   \<and> (is_data r \<longrightarrow>
        fst (recv_into buffer BUFFER_SIZE r) = int (length (chunk_of r)) \<and>
        take (length (chunk_of r)) (snd (snd (recv_into buffer BUFFER_SIZE r))) = chunk_of r)"
proof (intro conjI impI)
  show "filter is_sendto (fst (client_thread G fd so buffer ios)) =
     map (\<lambda>io. Sendto (udp_socket G) (chunk_of (recv_ret io)) (udp_addr G))
       (filter (\<lambda>io. is_data (recv_ret io)) (takeWhile reading_continues ios))"
    by (simp add: client_thread_def client_loop_eq sendto_of_forwards)
next
  have "filter (\<lambda>p. is_data (fst p)) (takeWhile (\<lambda>p. is_data (fst p)) rs) =
          takeWhile (\<lambda>p. is_data (fst p)) rs"
    by (rule filter_True) (auto dest: set_takeWhileD)
  moreover have "filter is_sendto
      (case dropWhile (\<lambda>p. is_data (fst p)) rs of [] \<Rightarrow> [] | p # ps \<Rightarrow> end_events fd (fst p)) = []"
    by (simp add: no_sendto_in_end split: list.splits)
  ultimately show "filter is_sendto (fst (handle_client_data G fd buffer rs)) =
     map (\<lambda>p. Sendto (udp_socket G) (chunk_of (fst p)) (udp_addr G))
       (takeWhile (\<lambda>p. is_data (fst p)) rs)"
    by (simp add: handle_client_data_eq sendto_of_forwards)
next
  assume "is_data r"
  then show "fst (recv_into buffer BUFFER_SIZE r) = int (length (chunk_of r))"
    by (simp add: recv_into_chunk)
next
  assume "is_data r"
  then show "take (length (chunk_of r)) (snd (snd (recv_into buffer BUFFER_SIZE r))) = chunk_of r"
    by (simp add: recv_into_chunk)
qed

theorem forwards_each_read_once_witness:
  "filter is_sendto (fst (client_thread
      \<lparr>udp_socket = 3, udp_addr = (''127.0.0.1'', 5140), listen_fd = 4, epoll_fd = 5\<rparr> 7 0 []
      [\<lparr>running_seen = 1, recv_ret = Recv_data [1, 2], sendto_ret = 2\<rparr>,
       \<lparr>running_seen = 1, recv_ret = Recv_fail 11, sendto_ret = 0\<rparr>,
       \<lparr>running_seen = 1, recv_ret = Recv_data [3], sendto_ret = - 1\<rparr>,
       \<lparr>running_seen = 1, recv_ret = Recv_data [], sendto_ret = 0\<rparr>,
       \<lparr>running_seen = 1, recv_ret = Recv_data [4], sendto_ret = 1\<rparr>])) =
     [Sendto 3 [1, 2] (''127.0.0.1'', 5140), Sendto 3 [3] (''127.0.0.1'', 5140)] \<and>
   filter is_sendto (fst (handle_client_data
      \<lparr>udp_socket = 3, udp_addr = (''127.0.0.1'', 5140), listen_fd = 4, epoll_fd = 5\<rparr> 7 []
      [(Recv_data [9], 1), (Recv_fail 11, 0), (Recv_data [8], 1)])) =
     [Sendto 3 [9] (''127.0.0.1'', 5140)] \<and>
   is_data (Recv_data [1, 2]) \<and>
   fst (recv_into [] BUFFER_SIZE (Recv_data [1, 2])) = 2 \<and>
   take 2 (snd (snd (recv_into [] BUFFER_SIZE (Recv_data [1, 2])))) = [1, 2]"
  using forwards_each_read_once
    [of "\<lparr>udp_socket = 3, udp_addr = (''127.0.0.1'', 5140), listen_fd = 4, epoll_fd = 5\<rparr>" 7 0 "[]"
      "[\<lparr>running_seen = 1, recv_ret = Recv_data [1, 2], sendto_ret = 2\<rparr>,
        \<lparr>running_seen = 1, recv_ret = Recv_fail 11, sendto_ret = 0\<rparr>,
        \<lparr>running_seen = 1, recv_ret = Recv_data [3], sendto_ret = - 1\<rparr>,
        \<lparr>running_seen = 1, recv_ret = Recv_data [], sendto_ret = 0\<rparr>,
        \<lparr>running_seen = 1, recv_ret = Recv_data [4], sendto_ret = 1\<rparr>]"
      "[(Recv_data [9], 1), (Recv_fail 11, 0), (Recv_data [8], 1)]" "Recv_data [1, 2]"]
  by (simp add: reading_continues_def is_data_def transient_def EAGAIN_def EWOULDBLOCK_def
        BUFFER_SIZE_def)

text \<open>
  Claim C2, for every run of a handler, whatever the environment answers and in whatever
  order. The trace of \<open>client_thread\<close> is: \<open>setsockopt\<close>, then for every iteration before
  the first one that does not satisfy \<open>reading_continues\<close> the forwarding call of its
  read (if it returned data), followed by \<open>perror\<close> exactly when \<open>sendto\<close> returned a
  negative value, then \<open>close\<close> if there was such a first iteration; and the thread has
  returned exactly in that case. Whether an iteration satisfies \<open>reading_continues\<close>,
  and what \<open>client_iter\<close> leaves in the buffer and decides about the loop, do not depend
  on what \<open>sendto\<close> returned. So a run in which forwards fail is, once the \<open>perror\<close>
  lines of the failed forwards are taken out, event for event the run that gets the same
  flag values and the same reads and in which every \<open>sendto\<close> succeeds, and it has
  returned exactly when that one has: the same reads are forwarded after a failed
  forward as after a successful one, and \<open>close\<close> comes at the same place. The same is
  stated for one call of \<open>handle_client_data\<close> of the epoll server, with its return
  value, and for the dispatcher \<open>serve_ready\<close> that removes and closes the connection
  depending on that value.
\<close>

theorem forward_failure_not_fatal:
  "client_thread G fd so buffer ios =
     (Setsockopt fd #
        (if so < 0 then [Perror ''setsockopt failed in client thread''] else []) @
        concat (map (\<lambda>io. if is_data (recv_ret io) then
                             Sendto (udp_socket G) (chunk_of (recv_ret io)) (udp_addr G) #
                               (if sendto_ret io < 0 then [Perror ''sendto (UDP forward)'']
                                else [])
                           else [])
                  (takeWhile reading_continues ios)) @
        (if list_ex (\<lambda>io. \<not> reading_continues io) ios then [Close fd] else []),
      list_ex (\<lambda>io. \<not> reading_continues io) ios)
   \<and> reading_continues (io\<lparr>sendto_ret := s\<rparr>) = reading_continues io
   \<and> snd (client_iter G fd b (io\<lparr>sendto_ret := s\<rparr>)) = snd (client_iter G fd b io)
   \<and> filter (\<lambda>e. e \<noteq> Perror ''sendto (UDP forward)'') (fst (client_thread G fd so buffer ios)) =
       fst (client_thread G fd so buffer (map (\<lambda>io. io\<lparr>sendto_ret := 0\<rparr>) ios))
   \<and> snd (client_thread G fd so buffer ios) =
       snd (client_thread G fd so buffer (map (\<lambda>io. io\<lparr>sendto_ret := 0\<rparr>) ios))
   \<and> handle_client_data G fd buffer rs =
       (concat (map (\<lambda>p. if is_data (fst p) then
                            Sendto (udp_socket G) (chunk_of (fst p)) (udp_addr G) #
                              (if snd p < 0 then [Perror ''sendto (UDP forward)''] else [])
                          else [])
                  (takeWhile (\<lambda>p. is_data (fst p)) rs)) @
          (case dropWhile (\<lambda>p. is_data (fst p)) rs of
             [] \<Rightarrow> [] | p # ps \<Rightarrow> end_events fd (fst p)),
        case dropWhile (\<lambda>p. is_data (fst p)) rs of
          [] \<Rightarrow> None | p # ps \<Rightarrow> Some (end_code (fst p)))
   \<and> filter (\<lambda>e. e \<noteq> Perror ''sendto (UDP forward)'') (fst (handle_client_data G fd buffer rs)) =
       fst (handle_client_data G fd buffer (map (\<lambda>p. (fst p, 0)) rs))
   \<and> snd (handle_client_data G fd buffer rs) =
       snd (handle_client_data G fd buffer (map (\<lambda>p. (fst p, 0)) rs))
   \<and> filter (\<lambda>e. e \<noteq> Perror ''sendto (UDP forward)'') (fst (serve_ready G r)) =
       fst (serve_ready G (r\<lparr>client_reads := map (\<lambda>p. (fst p, 0)) (client_reads r)\<rparr>))
   \<and> snd (serve_ready G r) =
       snd (serve_ready G (r\<lparr>client_reads := map (\<lambda>p. (fst p, 0)) (client_reads r)\<rparr>))"
proof -
  have fe: "(\<lambda>io. if is_data (recv_ret io) then
                    Sendto (udp_socket G) (chunk_of (recv_ret io)) (udp_addr G) #
                      (if sendto_ret io < 0 then [Perror ''sendto (UDP forward)''] else [])
                  else []) = (\<lambda>io. forward_events G (recv_ret io) (sendto_ret io))"
    by (rule ext) (simp add: forward_events_def)
  have fp: "(\<lambda>p :: recv_result \<times> int. if is_data (fst p) then
                    Sendto (udp_socket G) (chunk_of (fst p)) (udp_addr G) #
                      (if snd p < 0 then [Perror ''sendto (UDP forward)''] else [])
                  else []) = (\<lambda>p. forward_events G (fst p) (snd p))"
    by (rule ext) (simp add: forward_events_def)
  have c1: "client_thread G fd so buffer ios =
     (Setsockopt fd #
        (if so < 0 then [Perror ''setsockopt failed in client thread''] else []) @
        concat (map (\<lambda>io. if is_data (recv_ret io) then
                             Sendto (udp_socket G) (chunk_of (recv_ret io)) (udp_addr G) #
                               (if sendto_ret io < 0 then [Perror ''sendto (UDP forward)'']
                                else [])
                           else [])
                  (takeWhile reading_continues ios)) @
        (if list_ex (\<lambda>io. \<not> reading_continues io) ios then [Close fd] else []),
      list_ex (\<lambda>io. \<not> reading_continues io) ios)"
    unfolding fe by (rule client_thread_eq)
  have c2: "reading_continues (io\<lparr>sendto_ret := s\<rparr>) = reading_continues io"
    by (rule reading_continues_sendto)
  have c3: "snd (client_iter G fd b (io\<lparr>sendto_ret := s\<rparr>)) = snd (client_iter G fd b io)"
    by (simp add: client_iter_def split: prod.splits)
  have c6: "handle_client_data G fd buffer rs =
       (concat (map (\<lambda>p. if is_data (fst p) then
                            Sendto (udp_socket G) (chunk_of (fst p)) (udp_addr G) #
                              (if snd p < 0 then [Perror ''sendto (UDP forward)''] else [])
                          else [])
                  (takeWhile (\<lambda>p. is_data (fst p)) rs)) @
          (case dropWhile (\<lambda>p. is_data (fst p)) rs of
             [] \<Rightarrow> [] | p # ps \<Rightarrow> end_events fd (fst p)),
        case dropWhile (\<lambda>p. is_data (fst p)) rs of
          [] \<Rightarrow> None | p # ps \<Rightarrow> Some (end_code (fst p)))"
    unfolding fp by (rule handle_client_data_eq)
  note c45 = client_thread_unreported [of G fd so buffer ios]
  note c78 = handle_client_data_unreported [of G fd buffer rs]
  note c9 = serve_ready_unreported [of G r]
  show ?thesis
    by (intro conjI)
       (rule c1 c2 c3 c6 c45 [THEN conjunct1] c45 [THEN conjunct2] c78 [THEN conjunct1]
          c78 [THEN conjunct2] c9 [THEN conjunct1] c9 [THEN conjunct2])+
qed

theorem forward_failure_not_fatal_witness:
  "client_thread \<lparr>udp_socket = 3, udp_addr = (''127.0.0.1'', 5140), listen_fd = 4, epoll_fd = 5\<rparr>
      7 0 []
      [\<lparr>running_seen = 1, recv_ret = Recv_data [1, 2], sendto_ret = - 1\<rparr>,
       \<lparr>running_seen = 1, recv_ret = Recv_fail EAGAIN, sendto_ret = 0\<rparr>,
       \<lparr>running_seen = 1, recv_ret = Recv_data [3], sendto_ret = 1\<rparr>,
       \<lparr>running_seen = 1, recv_ret = Recv_data [], sendto_ret = 0\<rparr>] =
     ([Setsockopt 7,
       Sendto 3 [1, 2] (''127.0.0.1'', 5140), Perror ''sendto (UDP forward)'',
       Sendto 3 [3] (''127.0.0.1'', 5140), Close 7], True) \<and>
   client_thread \<lparr>udp_socket = 3, udp_addr = (''127.0.0.1'', 5140), listen_fd = 4, epoll_fd = 5\<rparr>
      7 0 []
      [\<lparr>running_seen = 1, recv_ret = Recv_data [1, 2], sendto_ret = 0\<rparr>,
       \<lparr>running_seen = 1, recv_ret = Recv_fail EAGAIN, sendto_ret = 0\<rparr>,
       \<lparr>running_seen = 1, recv_ret = Recv_data [3], sendto_ret = 0\<rparr>,
       \<lparr>running_seen = 1, recv_ret = Recv_data [], sendto_ret = 0\<rparr>] =
     ([Setsockopt 7, Sendto 3 [1, 2] (''127.0.0.1'', 5140),
       Sendto 3 [3] (''127.0.0.1'', 5140), Close 7], True) \<and>
   handle_client_data \<lparr>udp_socket = 3, udp_addr = (''127.0.0.1'', 5140), listen_fd = 4, epoll_fd = 5\<rparr>
      7 [] [(Recv_data [9], - 1), (Recv_data [8], 1), (Recv_fail EAGAIN, 0)] =
     ([Sendto 3 [9] (''127.0.0.1'', 5140), Perror ''sendto (UDP forward)'',
       Sendto 3 [8] (''127.0.0.1'', 5140)], Some 0) \<and>
   serve_ready \<lparr>udp_socket = 3, udp_addr = (''127.0.0.1'', 5140), listen_fd = 4, epoll_fd = 5\<rparr>
      \<lparr>ev_fd = 7, conn_accept = 0, conn_getfl = 0, conn_setfl = 0, conn_add = 0,
        client_reads = [(Recv_data [9], - 1), (Recv_data [8], 1), (Recv_fail EAGAIN, 0)],
        client_buffer = [], client_del = 0\<rparr> =
     ([Sendto 3 [9] (''127.0.0.1'', 5140), Perror ''sendto (UDP forward)'',
       Sendto 3 [8] (''127.0.0.1'', 5140)], True)"
  using forward_failure_not_fatal
    [of "\<lparr>udp_socket = 3, udp_addr = (''127.0.0.1'', 5140), listen_fd = 4, epoll_fd = 5\<rparr>"
        7 0 "[]"
        "[\<lparr>running_seen = 1, recv_ret = Recv_data [1, 2], sendto_ret = - 1\<rparr>,
          \<lparr>running_seen = 1, recv_ret = Recv_fail EAGAIN, sendto_ret = 0\<rparr>,
          \<lparr>running_seen = 1, recv_ret = Recv_data [3], sendto_ret = 1\<rparr>,
          \<lparr>running_seen = 1, recv_ret = Recv_data [], sendto_ret = 0\<rparr>]"
        0 "\<lparr>running_seen = 1, recv_ret = Recv_data [1, 2], sendto_ret = - 1\<rparr>" "[]"
        "[(Recv_data [9], - 1), (Recv_data [8], 1), (Recv_fail EAGAIN, 0)]"
        "\<lparr>ev_fd = 7, conn_accept = 0, conn_getfl = 0, conn_setfl = 0, conn_add = 0,
          client_reads = [(Recv_data [9], - 1), (Recv_data [8], 1), (Recv_fail EAGAIN, 0)],
          client_buffer = [], client_del = 0\<rparr>"]
  by (simp add: reading_continues_def is_data_def transient_def EAGAIN_def EWOULDBLOCK_def
        BUFFER_SIZE_def serve_ready_def client_thread_def client_iter_def)

section \<open>The accept loops\<close>

lemma accept_iter_goes_on: "snd (accept_iter G io) = (a_running io \<noteq> 0)"
  by (simp add: accept_iter_def Let_def)

lemma accept_thread_func_left:
  "snd (accept_thread_func G ios) = (\<exists>io \<in> set ios. a_running io = 0)"
proof (induction ios)
  case Nil
  then show ?case by simp
next
  case (Cons io ios)
  obtain evs go_on where it: "accept_iter G io = (evs, go_on)" by (cases "accept_iter G io")
  then have "go_on = (a_running io \<noteq> 0)" using accept_iter_goes_on [of G io] by simp
  then show ?case using it Cons.IH by (auto split: prod.splits)
qed

lemma serve_ready_finishes:
  "snd (serve_ready G r) =
     (ev_fd r = listen_fd G \<or>
      snd (handle_client_data G (ev_fd r) (client_buffer r) (client_reads r)) \<noteq> None)"
  by (auto simp: serve_ready_def Let_def split: prod.splits option.splits)

lemma epoll_iter_left:
  "(snd (snd (epoll_iter G running io)) = Left_loop) =
     (running = 0 \<or> quit_typed io \<or> wait_broken (wait_ret io))"
  by (cases "wait_ret io")
     (auto simp: epoll_iter_def quit_typed_def split: prod.splits option.splits)

lemma client_start_frame:
  "sv_running (client_start s i r b) = sv_running s \<and>
   sv_main (client_start s i r b) = sv_main s \<and>
   sv_accept (client_start s i r b) = sv_accept s \<and>
   length (sv_clients (client_start s i r b)) = length (sv_clients s)"
  by (auto simp: client_start_def split: client_state.splits)

lemma client_start_events:
  "t \<noteq> Client_thread i \<Longrightarrow>
     events_of t (sv_trace (client_start s i r b)) = events_of t (sv_trace s)"
  by (auto simp: client_start_def events_of_def split: client_state.splits)

lemma client_head_frame:
  "sv_running (client_head s i) = sv_running s \<and>
   sv_main (client_head s i) = sv_main s \<and>
   sv_accept (client_head s i) = sv_accept s \<and>
   length (sv_clients (client_head s i)) = length (sv_clients s)"
  by (auto simp: client_head_def split: client_state.splits)

lemma client_head_events:
  "t \<noteq> Client_thread i \<Longrightarrow>
     events_of t (sv_trace (client_head s i)) = events_of t (sv_trace s)"
  by (auto simp: client_head_def events_of_def split: client_state.splits)

lemma client_return_frame:
  "sv_running (client_return G s i io) = sv_running s \<and>
   sv_main (client_return G s i io) = sv_main s \<and>
   sv_accept (client_return G s i io) = sv_accept s \<and>
   length (sv_clients (client_return G s i io)) = length (sv_clients s)"
  by (auto simp: client_return_def split: client_state.splits prod.splits)

lemma client_return_events:
  "t \<noteq> Client_thread i \<Longrightarrow>
     events_of t (sv_trace (client_return G s i io)) = events_of t (sv_trace s)"
  by (auto simp: client_return_def events_of_def split: client_state.splits prod.splits)

text \<open>
  Claim C7, as the code has it. An iteration of the accept thread goes on exactly when it
  read \<open>running\<close> set at the loop head, so \<open>accept_thread_func\<close> returns exactly when some
  iteration read it clear: no result of \<open>setsockopt\<close>, \<open>malloc\<close>, \<open>accept\<close> or
  \<open>pthread_create\<close> ends the loop. A failed \<open>accept\<close> is passed over in silence when it
  timed out (or when the flag is clear on the second read) and reported by \<open>perror\<close>
  otherwise. In the epoll server a failed \<open>accept\<close> is reported and the \<open>for\<close> loop goes
  to the next entry; serving an entry runs to its end whatever fails in it, unless a read
  has not returned. In the threaded server no step of a handler thread, whatever its
  reads and forwards return, changes where the accept thread stands. But
  \<open>while (running)\<close> of the epoll server is left in three ways: the flag is clear at the
  loop head, the operator typed \<open>quit\<close>, or \<open>epoll_wait\<close> failed with an error other
  than \<open>EINTR\<close>, in which case the flag is still set.
\<close>

theorem acceptor_leaves_loop:
  "snd (accept_iter G io) = (a_running io \<noteq> 0)
   \<and> snd (accept_thread_func G ios) = (\<exists>io \<in> set ios. a_running io = 0)
   \<and> (a_running io \<noteq> 0 \<and> a_malloc io \<and> a_accept io < 0 \<longrightarrow>
        accept_iter G io =
          (Setsockopt (listen_fd G) #
             (if a_setsockopt io < 0 then [Perror ''setsockopt failed in accept thread''] else []) @
             (if transient (a_errno io) \<or> a_running_again io = 0 then [] else [Perror ''accept'']),
           True))
   \<and> (ev_fd r = listen_fd G \<and> conn_accept r = - 1 \<longrightarrow> serve_ready G r = ([Perror ''accept''], True))
   \<and> snd (serve_ready G r) =
        (ev_fd r = listen_fd G \<or>
         snd (handle_client_data G (ev_fd r) (client_buffer r) (client_reads r)) \<noteq> None)
   \<and> (snd (snd (epoll_iter G running eio)) = Left_loop) =
        (running = 0 \<or> quit_typed eio \<or> wait_broken (wait_ret eio))
   \<and> sv_accept (step G s (Client_start i so b)) = sv_accept s
   \<and> sv_accept (step G s (Client_head i)) = sv_accept s
   \<and> sv_accept (step G s (Client_return i cio)) = sv_accept s"
proof (intro conjI impI)
  show "sv_accept (step G s (Client_start i so b)) = sv_accept s"
    using client_start_frame [of s i so b] by simp
  show "sv_accept (step G s (Client_head i)) = sv_accept s"
    using client_head_frame [of s i] by simp
  show "sv_accept (step G s (Client_return i cio)) = sv_accept s"
    using client_return_frame [of G s i cio] by simp
  show "snd (accept_iter G io) = (a_running io \<noteq> 0)" by (rule accept_iter_goes_on)
  show "snd (accept_thread_func G ios) = (\<exists>io \<in> set ios. a_running io = 0)"
    by (rule accept_thread_func_left)
  show "a_running io \<noteq> 0 \<and> a_malloc io \<and> a_accept io < 0 \<Longrightarrow>
        accept_iter G io =
          (Setsockopt (listen_fd G) #
             (if a_setsockopt io < 0 then [Perror ''setsockopt failed in accept thread''] else []) @
             (if transient (a_errno io) \<or> a_running_again io = 0 then [] else [Perror ''accept'']),
           True)"
    by (simp add: accept_iter_def Let_def transient_def)
  show "ev_fd r = listen_fd G \<and> conn_accept r = - 1 \<Longrightarrow> serve_ready G r = ([Perror ''accept''], True)"
    by (simp add: serve_ready_def)
  show "snd (serve_ready G r) =
        (ev_fd r = listen_fd G \<or>
         snd (handle_client_data G (ev_fd r) (client_buffer r) (client_reads r)) \<noteq> None)"
    by (rule serve_ready_finishes)
  show "(snd (snd (epoll_iter G running eio)) = Left_loop) =
        (running = 0 \<or> quit_typed eio \<or> wait_broken (wait_ret eio))"
    by (rule epoll_iter_left)
qed

theorem acceptor_leaves_loop_witness:
  "accept_thread_func \<lparr>udp_socket = 3, udp_addr = (''127.0.0.1'', 5140), listen_fd = 4, epoll_fd = 5\<rparr>
     [\<lparr>a_running = 1, a_setsockopt = 0, a_malloc = True, a_accept = - 1, a_errno = 24,
       a_running_again = 1, a_pthread_create = 0\<rparr>,
      \<lparr>a_running = 1, a_setsockopt = 0, a_malloc = True, a_accept = - 1, a_errno = EAGAIN,
       a_running_again = 1, a_pthread_create = 0\<rparr>,
      \<lparr>a_running = 1, a_setsockopt = 0, a_malloc = True, a_accept = 8, a_errno = 0,
       a_running_again = 1, a_pthread_create = 0\<rparr>] =
     ([Setsockopt 4, Perror ''accept'', Setsockopt 4, Setsockopt 4, Pthread_create_client 8], False) \<and>
   serve_ready \<lparr>udp_socket = 3, udp_addr = (''127.0.0.1'', 5140), listen_fd = 4, epoll_fd = 5\<rparr>
      \<lparr>ev_fd = 4, conn_accept = - 1, conn_getfl = 0, conn_setfl = 0, conn_add = 0,
        client_reads = [], client_buffer = [], client_del = 0\<rparr> = ([Perror ''accept''], True) \<and>
   snd (snd (epoll_iter \<lparr>udp_socket = 3, udp_addr = (''127.0.0.1'', 5140), listen_fd = 4, epoll_fd = 5\<rparr>
      1 \<lparr>select_ret = 1, stdin_isset = True, fgets_ret = Some ''quit\<newline>'', wait_ret = Wait_ready []\<rparr>))
     = Left_loop"
  using acceptor_leaves_loop
    [of "\<lparr>udp_socket = 3, udp_addr = (''127.0.0.1'', 5140), listen_fd = 4, epoll_fd = 5\<rparr>"
        "\<lparr>a_running = 1, a_setsockopt = 0, a_malloc = True, a_accept = - 1, a_errno = 24,
          a_running_again = 1, a_pthread_create = 0\<rparr>"
        "[\<lparr>a_running = 1, a_setsockopt = 0, a_malloc = True, a_accept = - 1, a_errno = 24,
       a_running_again = 1, a_pthread_create = 0\<rparr>,
      \<lparr>a_running = 1, a_setsockopt = 0, a_malloc = True, a_accept = - 1, a_errno = EAGAIN,
       a_running_again = 1, a_pthread_create = 0\<rparr>,
      \<lparr>a_running = 1, a_setsockopt = 0, a_malloc = True, a_accept = 8, a_errno = 0,
       a_running_again = 1, a_pthread_create = 0\<rparr>]"
        "\<lparr>ev_fd = 4, conn_accept = - 1, conn_getfl = 0, conn_setfl = 0, conn_add = 0,
          client_reads = [], client_buffer = [], client_del = 0\<rparr>"
        1 "\<lparr>select_ret = 1, stdin_isset = True, fgets_ret = Some ''quit\<newline>'', wait_ret = Wait_ready []\<rparr>"]
  by (simp add: accept_iter_def Let_def quit_typed_def strncmp_eq_def EAGAIN_def EWOULDBLOCK_def)

text \<open>
  Claim C7 as stated says that the loop exits only on the shutdown flag. In the epoll
  server \<open>epoll_wait\<close> fails with \<open>EBADF\<close> (9): the loop is left after \<open>perror\<close>, with
  \<open>running\<close> still 1 and the next turn never taken.
\<close>

theorem acceptor_leaves_loop_counterexample:
  "epoll_loop \<lparr>udp_socket = 3, udp_addr = (''127.0.0.1'', 5140), listen_fd = 4, epoll_fd = 5\<rparr> 1
     [\<lparr>select_ret = 0, stdin_isset = False, fgets_ret = None, wait_ret = Wait_fail 9\<rparr>,
      \<lparr>select_ret = 0, stdin_isset = False, fgets_ret = None, wait_ret = Wait_ready []\<rparr>] =
     ([Perror ''epoll_wait''], 1, True)"
  by (simp add: epoll_iter_def EINTR_def)

section \<open>Start-up\<close>

lemma htons_zero: "htons x = 0 \<longleftrightarrow> (word_of_int x :: 16 word) = 0"
proof
  assume z: "htons x = 0"
  define w :: "16 word" where "w = word_of_int x"
  have o: "or (push_bit 8 w) (drop_bit 8 w) = 0"
    using z by (simp add: htons_def Let_def w_def)
  have "\<not> bit w m" for m
  proof (cases "m < 8")
    case True
    have "\<not> bit (or (push_bit 8 w) (drop_bit 8 w)) (m + 8)" by (simp only: o bit_0_eq) simp
    then show ?thesis using True by (simp add: bit_or_iff bit_push_bit_iff)
  next
    case False
    have "\<not> bit (or (push_bit 8 w) (drop_bit 8 w)) (m - 8)" by (simp only: o bit_0_eq) simp
    then show ?thesis using False by (simp add: bit_or_iff bit_drop_bit_eq)
  qed
  then have "w = 0" by (simp add: bit_eq_iff)
  then show "(word_of_int x :: 16 word) = 0" by (simp add: w_def)
next
  assume "(word_of_int x :: 16 word) = 0"
  then show "htons x = 0" by (simp add: htons_def Let_def)
qed

lemma htons_zero_mod: "htons x = 0 \<longleftrightarrow> x mod 65536 = 0"
proof -
  have "(word_of_int x :: 16 word) = 0 \<longleftrightarrow> x mod 2 ^ 16 = 0"
    by (simp add: word_of_int_eq_0_iff mod_eq_0_iff_dvd)
  then show ?thesis by (simp add: htons_zero)
qed

lemma atoi_0: "atoi ''0'' = 0"
  by (simp add: atoi_def strtol_def LONG_MAX_def LONG_MIN_def isspace_def isdigit_def)

lemma atoi_9999: "atoi ''9999'' = 9999"
  by (simp add: atoi_def strtol_def LONG_MAX_def LONG_MIN_def isspace_def isdigit_def)

lemma atoi_5140: "atoi ''5140'' = 5140"
  by (simp add: atoi_def strtol_def LONG_MAX_def LONG_MIN_def isspace_def isdigit_def)

lemma atoi_65536: "atoi ''65536'' = 65536"
  by (simp add: atoi_def strtol_def LONG_MAX_def LONG_MIN_def isspace_def isdigit_def)

text \<open>
  Numerals outside the range of \<open>long\<close>: \<open>strtol\<close> answers \<open>LONG_MAX\<close>, whose low 32 bits
  are all set, or \<open>LONG_MIN\<close>, whose low 32 bits are all clear.
\<close>

lemma atoi_above_long: "atoi ''9223372036854775808'' = - 1"
  by (simp add: atoi_def strtol_def LONG_MAX_def LONG_MIN_def isspace_def isdigit_def)

lemma atoi_below_long: "atoi ''-9223372036854775809'' = 0"
  by (simp add: atoi_def strtol_def LONG_MAX_def LONG_MIN_def isspace_def isdigit_def)

lemma tcp_startup_bad_argc:
  "int (length argv) \<noteq> 4 \<Longrightarrow> tcp_main_startup argv io = ([usage_line argv], Inl 1)"
  by (simp add: tcp_main_startup_def)

lemma epoll_startup_bad_argc:
  "int (length argv) \<noteq> 4 \<Longrightarrow> epoll_main_startup argv io = ([usage_line argv], Inl 1)"
  by (simp add: epoll_main_startup_def Let_def)

lemma tcp_startup_zero_port_status:
  "htons (atoi (argv ! 1)) = 0 \<Longrightarrow> snd (tcp_main_startup argv io) = Inl 1"
  by (simp add: tcp_main_startup_def)

lemma epoll_startup_zero_port_status:
  "htons (atoi (argv ! 1)) = 0 \<Longrightarrow> snd (epoll_main_startup argv io) = Inl 1"
  by (simp add: epoll_main_startup_def Let_def)

lemma tcp_startup_zero_port:
  "length argv = 4 \<Longrightarrow> htons (atoi (argv ! 1)) = 0 \<Longrightarrow>
   0 \<le> socket_udp io \<Longrightarrow> 0 < inet_pton_ret io \<Longrightarrow> 0 \<le> socket_tcp io \<Longrightarrow>
     tcp_main_startup argv io =
       ([Socket_call SOCK_DGRAM, Socket_call SOCK_STREAM, usage_line argv,
         Close (socket_udp io), Close (socket_tcp io)], Inl 1)"
  by (simp add: tcp_main_startup_def)

lemma epoll_startup_zero_port:
  "length argv = 4 \<Longrightarrow> htons (atoi (argv ! 1)) = 0 \<Longrightarrow>
   0 \<le> socket_udp io \<Longrightarrow> 0 < inet_pton_ret io \<Longrightarrow> epoll_create1_ret io \<noteq> - 1 \<Longrightarrow>
   0 \<le> socket_tcp io \<Longrightarrow> 0 \<le> setsockopt_ret io \<Longrightarrow>
     epoll_main_startup argv io =
       ([Socket_call SOCK_DGRAM, Epoll_create1, Socket_call SOCK_STREAM, Setsockopt (socket_tcp io),
         usage_line argv,
         Close (socket_udp io), Close (epoll_create1_ret io), Close (socket_tcp io)], Inl 1)"
  by (simp add: epoll_main_startup_def Let_def)

lemma tcp_startup_up:
  "length argv = 4 \<Longrightarrow> htons (atoi (argv ! 1)) \<noteq> 0 \<Longrightarrow>
   0 \<le> socket_udp io \<Longrightarrow> 0 < inet_pton_ret io \<Longrightarrow> 0 \<le> socket_tcp io \<Longrightarrow>
   0 \<le> bind_ret io \<Longrightarrow> 0 \<le> listen_ret io \<Longrightarrow> pthread_create_ret io = 0 \<Longrightarrow>
     snd (tcp_main_startup argv io) =
       Inr \<lparr>udp_socket = socket_udp io, udp_addr = (argv ! 2, htons (atoi (argv ! 3))),
            listen_fd = socket_tcp io, epoll_fd = - 1\<rparr>"
  by (simp add: tcp_main_startup_def Let_def)

lemma epoll_startup_up:
  "length argv = 4 \<Longrightarrow> htons (atoi (argv ! 1)) \<noteq> 0 \<Longrightarrow>
   0 \<le> socket_udp io \<Longrightarrow> 0 < inet_pton_ret io \<Longrightarrow> epoll_create1_ret io \<noteq> - 1 \<Longrightarrow>
   0 \<le> socket_tcp io \<Longrightarrow> 0 \<le> setsockopt_ret io \<Longrightarrow>
   0 \<le> bind_ret io \<Longrightarrow> 0 \<le> listen_ret io \<Longrightarrow>
   getfl_ret io \<noteq> - 1 \<Longrightarrow> setfl_ret io \<noteq> - 1 \<Longrightarrow> epoll_ctl_ret io \<noteq> - 1 \<Longrightarrow>
     snd (epoll_main_startup argv io) =
       Inr \<lparr>udp_socket = socket_udp io, udp_addr = (argv ! 2, htons (atoi (argv ! 3))),
            listen_fd = socket_tcp io, epoll_fd = epoll_create1_ret io\<rparr>"
  by (simp add: epoll_main_startup_def Let_def set_nonblocking_def add_to_epoll_def)

text \<open>
  Claim C9 as stated puts every configuration failure before any socket work. With the
  listen port \<open>0\<close> the threaded server creates the UDP socket and the listening socket,
  then prints the usage line, closes both and returns 1. With the destination port \<open>0\<close>
  it starts up: that port is not checked.
\<close>

theorem startup_rejects_bad_arguments_counterexample:
  "tcp_main_startup [''tcp_server'', ''0'', ''127.0.0.1'', ''5140'']
     \<lparr>socket_udp = 3, inet_pton_ret = 1, socket_tcp = 4, setsockopt_ret = 0, bind_ret = 0,
      listen_ret = 0, pthread_create_ret = 0, epoll_create1_ret = 5, getfl_ret = 0, setfl_ret = 0,
      epoll_ctl_ret = 0\<rparr> =
     ([Socket_call SOCK_DGRAM, Socket_call SOCK_STREAM,
       Fprintf_stderr ''Usage: tcp_server <tcp_port> <udp_host> <udp_port>\<newline>'',
       Close 3, Close 4], Inl 1) \<and>
   snd (tcp_main_startup [''tcp_server'', ''9999'', ''127.0.0.1'', ''0'']
     \<lparr>socket_udp = 3, inet_pton_ret = 1, socket_tcp = 4, setsockopt_ret = 0, bind_ret = 0,
      listen_ret = 0, pthread_create_ret = 0, epoll_create1_ret = 5, getfl_ret = 0, setfl_ret = 0,
      epoll_ctl_ret = 0\<rparr>) =
     Inr \<lparr>udp_socket = 3, udp_addr = (''127.0.0.1'', 0), listen_fd = 4, epoll_fd = - 1\<rparr>"
proof -
  have z: "htons 0 = 0" by (simp add: htons_zero)
  have nz: "htons 9999 \<noteq> 0" by (simp add: htons_zero_mod)
  show ?thesis
    by (simp add: tcp_main_startup_def atoi_0 atoi_9999 z nz usage_line_def prog_name_def Let_def)
qed

text \<open>
  Claim C9, as the code has it. With an argument count other than 4 both bridge servers
  print the usage line and return 1, and that is all they do: no socket exists yet. When
  the listen port evaluates to zero they return 1 in every case. When moreover the
  argument count is 4, the sockets could be created and the host was accepted (and, in
  the epoll server, the epoll instance could be created and \<open>SO_REUSEADDR\<close> could be
  set), they do so by printing the usage line after the UDP socket and the listening
  socket (in the epoll server also the epoll instance) have been created, closing them
  again, with no \<open>bind\<close> and no \<open>listen\<close>. The port evaluates to zero exactly when the
  value of \<open>atoi\<close> is a multiple of 65536, \<open>atoi\<close> being the C library's: the value of a
  numeral outside the range of \<open>long\<close> is \<open>LONG_MAX\<close> or \<open>LONG_MIN\<close>, cut to 32 bits. The
  destination port is never tested: with a listen port other than zero and every call
  succeeding, the server is up with \<open>htons(atoi(argv[3]))\<close> as the port of \<open>udp_addr\<close>,
  whatever \<open>argv[3]\<close> is.
\<close>

theorem startup_rejects_bad_arguments:
  "(int (length argv) \<noteq> 4 \<longrightarrow>
      tcp_main_startup argv io = ([usage_line argv], Inl 1) \<and>
      epoll_main_startup argv io = ([usage_line argv], Inl 1))
   \<and> (htons (atoi (argv ! 1)) = 0 \<longrightarrow>
        snd (tcp_main_startup argv io) = Inl 1 \<and> snd (epoll_main_startup argv io) = Inl 1)
   \<and> (length argv = 4 \<and> htons (atoi (argv ! 1)) = 0 \<and>
        0 \<le> socket_udp io \<and> 0 < inet_pton_ret io \<and> 0 \<le> socket_tcp io \<longrightarrow>
        tcp_main_startup argv io =
          ([Socket_call SOCK_DGRAM, Socket_call SOCK_STREAM, usage_line argv,
            Close (socket_udp io), Close (socket_tcp io)], Inl 1))
   \<and> (length argv = 4 \<and> htons (atoi (argv ! 1)) = 0 \<and>
        0 \<le> socket_udp io \<and> 0 < inet_pton_ret io \<and> epoll_create1_ret io \<noteq> - 1 \<and>
        0 \<le> socket_tcp io \<and> 0 \<le> setsockopt_ret io \<longrightarrow>
        epoll_main_startup argv io =
          ([Socket_call SOCK_DGRAM, Epoll_create1, Socket_call SOCK_STREAM,
            Setsockopt (socket_tcp io), usage_line argv,
            Close (socket_udp io), Close (epoll_create1_ret io), Close (socket_tcp io)], Inl 1))
   \<and> (htons (atoi a) = 0) = (atoi a mod 65536 = 0)
   \<and> (length argv = 4 \<and> htons (atoi (argv ! 1)) \<noteq> 0 \<and>
        0 \<le> socket_udp io \<and> 0 < inet_pton_ret io \<and> 0 \<le> socket_tcp io \<and>
        0 \<le> bind_ret io \<and> 0 \<le> listen_ret io \<and> pthread_create_ret io = 0 \<longrightarrow>
        snd (tcp_main_startup argv io) =
          Inr \<lparr>udp_socket = socket_udp io, udp_addr = (argv ! 2, htons (atoi (argv ! 3))),
               listen_fd = socket_tcp io, epoll_fd = - 1\<rparr>)
   \<and> (length argv = 4 \<and> htons (atoi (argv ! 1)) \<noteq> 0 \<and>
        0 \<le> socket_udp io \<and> 0 < inet_pton_ret io \<and> epoll_create1_ret io \<noteq> - 1 \<and>
        0 \<le> socket_tcp io \<and> 0 \<le> setsockopt_ret io \<and> 0 \<le> bind_ret io \<and>
        0 \<le> listen_ret io \<and> getfl_ret io \<noteq> - 1 \<and> setfl_ret io \<noteq> - 1 \<and>
        epoll_ctl_ret io \<noteq> - 1 \<longrightarrow>
        snd (epoll_main_startup argv io) =
          Inr \<lparr>udp_socket = socket_udp io, udp_addr = (argv ! 2, htons (atoi (argv ! 3))),
               listen_fd = socket_tcp io, epoll_fd = epoll_create1_ret io\<rparr>)"
  using tcp_startup_bad_argc [of argv io] epoll_startup_bad_argc [of argv io]
    tcp_startup_zero_port_status [of argv io] epoll_startup_zero_port_status [of argv io]
    tcp_startup_zero_port [of argv io] epoll_startup_zero_port [of argv io]
    htons_zero_mod [of "atoi a"] tcp_startup_up [of argv io] epoll_startup_up [of argv io]
  by blast

theorem startup_rejects_bad_arguments_witness:
  "tcp_main_startup [''tcp_server'', ''9999'']
     \<lparr>socket_udp = 3, inet_pton_ret = 1, socket_tcp = 4, setsockopt_ret = 0, bind_ret = 0,
      listen_ret = 0, pthread_create_ret = 0, epoll_create1_ret = 5, getfl_ret = 0, setfl_ret = 0,
      epoll_ctl_ret = 0\<rparr> =
     ([Fprintf_stderr ''Usage: tcp_server <tcp_port> <udp_host> <udp_port>\<newline>''], Inl 1) \<and>
   epoll_main_startup [''tcp_server'', ''9999'']
     \<lparr>socket_udp = 3, inet_pton_ret = 1, socket_tcp = 4, setsockopt_ret = 0, bind_ret = 0,
      listen_ret = 0, pthread_create_ret = 0, epoll_create1_ret = 5, getfl_ret = 0, setfl_ret = 0,
      epoll_ctl_ret = 0\<rparr> =
     ([Fprintf_stderr ''Usage: tcp_server <tcp_port> <udp_host> <udp_port>\<newline>''], Inl 1) \<and>
   htons (atoi ''65536'') = 0 \<and>
   tcp_main_startup [''tcp_server'', ''65536'', ''127.0.0.1'', ''5140'']
     \<lparr>socket_udp = 3, inet_pton_ret = 1, socket_tcp = 4, setsockopt_ret = 0, bind_ret = 0,
      listen_ret = 0, pthread_create_ret = 0, epoll_create1_ret = 5, getfl_ret = 0, setfl_ret = 0,
      epoll_ctl_ret = 0\<rparr> =
     ([Socket_call SOCK_DGRAM, Socket_call SOCK_STREAM,
       Fprintf_stderr ''Usage: tcp_server <tcp_port> <udp_host> <udp_port>\<newline>'',
       Close 3, Close 4], Inl 1) \<and>
   epoll_main_startup [''tcp_server'', ''65536'', ''127.0.0.1'', ''5140'']
     \<lparr>socket_udp = 3, inet_pton_ret = 1, socket_tcp = 4, setsockopt_ret = 0, bind_ret = 0,
      listen_ret = 0, pthread_create_ret = 0, epoll_create1_ret = 5, getfl_ret = 0, setfl_ret = 0,
      epoll_ctl_ret = 0\<rparr> =
     ([Socket_call SOCK_DGRAM, Epoll_create1, Socket_call SOCK_STREAM, Setsockopt 4,
       Fprintf_stderr ''Usage: tcp_server <tcp_port> <udp_host> <udp_port>\<newline>'',
       Close 3, Close 5, Close 4], Inl 1) \<and>
   htons (atoi ''-9223372036854775809'') = 0 \<and>
   tcp_main_startup [''tcp_server'', ''-9223372036854775809'', ''127.0.0.1'', ''5140'']
     \<lparr>socket_udp = 3, inet_pton_ret = 1, socket_tcp = 4, setsockopt_ret = 0, bind_ret = 0,
      listen_ret = 0, pthread_create_ret = 0, epoll_create1_ret = 5, getfl_ret = 0, setfl_ret = 0,
      epoll_ctl_ret = 0\<rparr> =
     ([Socket_call SOCK_DGRAM, Socket_call SOCK_STREAM,
       Fprintf_stderr ''Usage: tcp_server <tcp_port> <udp_host> <udp_port>\<newline>'',
       Close 3, Close 4], Inl 1) \<and>
   htons (atoi ''9223372036854775808'') \<noteq> 0 \<and>
   snd (tcp_main_startup [''tcp_server'', ''9223372036854775808'', ''127.0.0.1'', ''5140'']
     \<lparr>socket_udp = 3, inet_pton_ret = 1, socket_tcp = 4, setsockopt_ret = 0, bind_ret = 0,
      listen_ret = 0, pthread_create_ret = 0, epoll_create1_ret = 5, getfl_ret = 0, setfl_ret = 0,
      epoll_ctl_ret = 0\<rparr>) =
     Inr \<lparr>udp_socket = 3, udp_addr = (''127.0.0.1'', htons (atoi ''5140'')), listen_fd = 4,
          epoll_fd = - 1\<rparr> \<and>
   snd (tcp_main_startup [''tcp_server'', ''9999'', ''127.0.0.1'', ''0'']
     \<lparr>socket_udp = 3, inet_pton_ret = 1, socket_tcp = 4, setsockopt_ret = 0, bind_ret = 0,
      listen_ret = 0, pthread_create_ret = 0, epoll_create1_ret = 5, getfl_ret = 0, setfl_ret = 0,
      epoll_ctl_ret = 0\<rparr>) =
     Inr \<lparr>udp_socket = 3, udp_addr = (''127.0.0.1'', htons (atoi ''0'')), listen_fd = 4,
          epoll_fd = - 1\<rparr>"
  using startup_rejects_bad_arguments
    [of "[''tcp_server'', ''9999'', ''127.0.0.1'', ''0'']"
        "\<lparr>socket_udp = 3, inet_pton_ret = 1, socket_tcp = 4, setsockopt_ret = 0, bind_ret = 0,
      listen_ret = 0, pthread_create_ret = 0, epoll_create1_ret = 5, getfl_ret = 0, setfl_ret = 0,
      epoll_ctl_ret = 0\<rparr>" "''65536''"]
    startup_rejects_bad_arguments
    [of "[''tcp_server'', ''9999'']"
        "\<lparr>socket_udp = 3, inet_pton_ret = 1, socket_tcp = 4, setsockopt_ret = 0, bind_ret = 0,
      listen_ret = 0, pthread_create_ret = 0, epoll_create1_ret = 5, getfl_ret = 0, setfl_ret = 0,
      epoll_ctl_ret = 0\<rparr>" "''65536''"]
    startup_rejects_bad_arguments
    [of "[''tcp_server'', ''65536'', ''127.0.0.1'', ''5140'']"
        "\<lparr>socket_udp = 3, inet_pton_ret = 1, socket_tcp = 4, setsockopt_ret = 0, bind_ret = 0,
      listen_ret = 0, pthread_create_ret = 0, epoll_create1_ret = 5, getfl_ret = 0, setfl_ret = 0,
      epoll_ctl_ret = 0\<rparr>" "''-9223372036854775809''"]
    startup_rejects_bad_arguments
    [of "[''tcp_server'', ''-9223372036854775809'', ''127.0.0.1'', ''5140'']"
        "\<lparr>socket_udp = 3, inet_pton_ret = 1, socket_tcp = 4, setsockopt_ret = 0, bind_ret = 0,
      listen_ret = 0, pthread_create_ret = 0, epoll_create1_ret = 5, getfl_ret = 0, setfl_ret = 0,
      epoll_ctl_ret = 0\<rparr>" "''9223372036854775808''"]
    startup_rejects_bad_arguments
    [of "[''tcp_server'', ''9223372036854775808'', ''127.0.0.1'', ''5140'']"
        "\<lparr>socket_udp = 3, inet_pton_ret = 1, socket_tcp = 4, setsockopt_ret = 0, bind_ret = 0,
      listen_ret = 0, pthread_create_ret = 0, epoll_create1_ret = 5, getfl_ret = 0, setfl_ret = 0,
      epoll_ctl_ret = 0\<rparr>" "''9223372036854775808''"]
  by (simp add: atoi_65536 atoi_9999 atoi_above_long atoi_below_long htons_zero_mod
        usage_line_def prog_name_def)

section \<open>The log sink\<close>




























section \<open>Shutdown\<close>

lemma main_input_iter_flag:
  "fst (snd (main_input_iter running line)) = running \<or> fst (snd (main_input_iter running line)) = 0"
  by (simp add: main_input_iter_def split: option.splits)

lemma accept_head_frame:
  "sv_running (accept_head s) = sv_running s \<and> sv_main (accept_head s) = sv_main s \<and>
   sv_clients (accept_head s) = sv_clients s \<and> sv_trace (accept_head s) = sv_trace s"
  by (simp add: accept_head_def)

lemma accept_return_frame:
  "sv_running (accept_return G s io) = sv_running s \<and> sv_main (accept_return G s io) = sv_main s"
  by (simp add: accept_return_def split: accept_pc.splits prod.splits)

lemma accept_return_events:
  "t \<noteq> Accept_thread \<Longrightarrow>
     events_of t (sv_trace (accept_return G s io)) = events_of t (sv_trace s)"
  by (auto simp: accept_return_def events_of_def split: accept_pc.splits prod.splits)

lemma accept_return_clients:
  "\<exists>cs. sv_clients (accept_return G s io) = sv_clients s @ cs"
  by (auto simp: accept_return_def split: accept_pc.splits prod.splits)

lemma step_flag: "sv_running (step G s a) = sv_running s \<or> sv_running (step G s a) = 0"
proof (cases a)
  case (Main_fgets line)
  then show ?thesis
    using main_input_iter_flag [of "sv_running s" line]
    by (auto simp: main_step_def split: prod.splits)
next
  case Main_join
  then show ?thesis by (simp add: join_step_def split: prod.splits)
next
  case Accept_head
  then show ?thesis by (simp add: accept_head_frame)
next
  case (Accept_return io)
  then show ?thesis by (simp add: accept_return_frame)
next
  case (Client_start i r b)
  then show ?thesis by (simp add: client_start_frame)
next
  case (Client_head i)
  then show ?thesis by (simp add: client_head_frame)
next
  case (Client_return i io)
  then show ?thesis by (simp add: client_return_frame)
qed

lemma run_Nil: "run G s [] = s"
  by (simp add: run_def)

lemma run_Cons: "run G s (a # as) = run G (step G s a) as"
  by (simp add: run_def)

lemma run_append: "run G s (as @ bs) = run G (run G s as) bs"
  by (simp add: run_def)

lemma run_flag_stays: "sv_running s = 0 \<Longrightarrow> sv_running (run G s as) = 0"
proof (induction as arbitrary: s)
  case Nil
  then show ?case by (simp add: run_Nil)
next
  case (Cons a as)
  have "sv_running (step G s a) = 0" using step_flag [of G s a] Cons.prems by simp
  then show ?case using Cons.IH by (simp add: run_Cons)
qed

lemma run_flag_range: "sv_running s \<in> {0, 1} \<Longrightarrow> sv_running (run G s as) \<in> {0, 1}"
proof (induction as arbitrary: s)
  case Nil
  then show ?case by (simp add: run_Nil)
next
  case (Cons a as)
  have "sv_running (step G s a) \<in> {0, 1}" using step_flag [of G s a] Cons.prems by auto
  then show ?case using Cons.IH by (simp add: run_Cons)
qed

lemma accept_return_goes_on:
  assumes "sv_accept s = In_accept r" and "r \<noteq> 0" and "\<not> is_exited (sv_main s)"
  shows "sv_accept (accept_return G s io) = At_accept_head"
proof -
  define io' where "io' = io\<lparr>a_running := r, a_running_again := sv_running s\<rparr>"
  obtain evs go_on where it: "accept_iter G io' = (evs, go_on)" by (cases "accept_iter G io'")
  have "go_on" using accept_iter_goes_on [of G io'] it assms(2) by (simp add: io'_def)
  then show ?thesis using assms(1,3) it by (simp add: accept_return_def io'_def)
qed

lemma step_coherent:
  assumes c: "coherent s"
  shows "coherent (step G s a)"
proof (cases a)
  case (Main_fgets line)
  then show ?thesis using c
    by (auto simp: coherent_def main_step_def main_input_iter_def
             split: main_pc.splits option.splits if_splits)
next
  case Main_join
  then show ?thesis using c
    by (auto simp: coherent_def join_step_def main_shutdown_def split: main_pc.splits)
next
  case Accept_head
  then show ?thesis using c
    by (auto simp: coherent_def accept_head_def split: main_pc.splits)
next
  case (Accept_return io)
  show ?thesis
  proof (cases "sv_accept s")
    case At_accept_head
    then have "accept_return G s io = s" by (simp add: accept_return_def)
    then show ?thesis using c Accept_return by simp
  next
    case Accept_returned
    then have "accept_return G s io = s" by (simp add: accept_return_def)
    then show ?thesis using c Accept_return by simp
  next
    case (In_accept r)
    show ?thesis
    proof (cases "is_exited (sv_main s)")
      case True
      then have "accept_return G s io = s" using In_accept by (simp add: accept_return_def)
      then show ?thesis using c Accept_return by simp
    next
      case False
      have "r \<noteq> 0" using c In_accept by (simp add: coherent_def)
      then have "sv_accept (accept_return G s io) = At_accept_head"
        using In_accept False by (intro accept_return_goes_on) simp_all
      then show ?thesis
        using c Accept_return False accept_return_frame [of G s io]
        by (auto simp: coherent_def split: main_pc.splits)
    qed
  qed
next
  case (Client_start i r b)
  then show ?thesis using c
    by (auto simp: coherent_def client_start_frame split: main_pc.splits)
next
  case (Client_head i)
  then show ?thesis using c
    by (auto simp: coherent_def client_head_frame split: main_pc.splits)
next
  case (Client_return i io)
  then show ?thesis using c
    by (auto simp: coherent_def client_return_frame split: main_pc.splits)
qed

lemma run_coherent: "coherent s \<Longrightarrow> coherent (run G s as)"
  by (induction as arbitrary: s) (simp_all add: run_Nil run_Cons step_coherent)

lemma started_coherent: "coherent started"
  by (simp add: coherent_def started_def)

lemma coherent_exited:
  "coherent s \<Longrightarrow> is_exited (sv_main s) \<Longrightarrow>
     sv_main s = Exited 0 \<and> sv_running s = 0 \<and> sv_accept s = Accept_returned"
  by (cases "sv_main s") (simp_all add: coherent_def)

lemma events_of_append: "events_of t (xs @ ys) = events_of t xs @ events_of t ys"
  by (simp add: events_of_def)

lemma events_of_same: "events_of t (map (Pair t) evs) = evs"
  by (induction evs) (simp_all add: events_of_def)

lemma accept_iter_stopped: "a_running io = 0 \<Longrightarrow> accept_iter G io = ([], False)"
  by (simp add: accept_iter_def)

lemma accept_head_stopped:
  "sv_accept s = At_accept_head \<Longrightarrow> sv_running s = 0 \<Longrightarrow> \<not> is_exited (sv_main s) \<Longrightarrow>
     accept_head s = s\<lparr>sv_accept := Accept_returned\<rparr>"
  by (simp add: accept_head_def)

lemma step_quitting:
  assumes q: "quitting G E s"
  shows "quitting G E (step G s a)"
proof (cases a)
  case (Main_fgets line)
  have "sv_main s \<noteq> In_input_loop" using q by (auto simp: quitting_def)
  then show ?thesis using q Main_fgets by (simp add: main_step_def)
next
  case Main_join
  then show ?thesis using q
    by (auto simp: quitting_def join_step_def main_shutdown_def events_of_def)
next
  case Accept_head
  have "sv_main s = Exited 0 \<Longrightarrow> accept_head s = s" by (simp add: accept_head_def)
  then show ?thesis using q Accept_head accept_head_frame [of s]
    by (auto simp: quitting_def)
next
  case (Accept_return io)
  have "sv_main s = Exited 0 \<Longrightarrow> accept_return G s io = s"
    by (simp add: accept_return_def split: accept_pc.splits)
  then show ?thesis using q Accept_return accept_return_frame [of G s io]
    by (auto simp: quitting_def accept_return_events)
next
  case (Client_start i r b)
  then show ?thesis using q client_start_frame [of s i r b]
    by (simp add: quitting_def client_start_events)
next
  case (Client_head i)
  then show ?thesis using q client_head_frame [of s i]
    by (simp add: quitting_def client_head_events)
next
  case (Client_return i io)
  then show ?thesis using q client_return_frame [of G s i io]
    by (simp add: quitting_def client_return_events)
qed

lemma run_quitting: "quitting G E s \<Longrightarrow> quitting G E (run G s as)"
  by (induction as arbitrary: s) (simp_all add: run_Nil run_Cons step_quitting)

text \<open>
  With the flag clear the accept thread does not enter the body of its loop again, and a
  thread that has returned stays so.
\<close>

lemma step_not_in_accept:
  assumes "sv_running s = 0" and "\<not> in_accept (sv_accept s)"
  shows "\<not> in_accept (sv_accept (step G s a))"
proof (cases a)
  case (Main_fgets line)
  then show ?thesis using assms by (simp add: main_step_def split: prod.splits)
next
  case Main_join
  then show ?thesis using assms by (simp add: join_step_def split: prod.splits)
next
  case Accept_head
  then show ?thesis using assms by (simp add: accept_head_def)
next
  case (Accept_return io)
  have "accept_return G s io = s"
    using assms(2) by (cases "sv_accept s") (simp_all add: accept_return_def)
  then show ?thesis using assms Accept_return by simp
next
  case (Client_start i r b)
  then show ?thesis using assms client_start_frame [of s i r b] by simp
next
  case (Client_head i)
  then show ?thesis using assms client_head_frame [of s i] by simp
next
  case (Client_return i io)
  then show ?thesis using assms client_return_frame [of G s i io] by simp
qed

lemma run_not_in_accept:
  "sv_running s = 0 \<Longrightarrow> \<not> in_accept (sv_accept s) \<Longrightarrow> \<not> in_accept (sv_accept (run G s as))"
proof (induction as arbitrary: s)
  case Nil
  then show ?case by (simp add: run_Nil)
next
  case (Cons a as)
  have "sv_running (step G s a) = 0" using step_flag [of G s a] Cons.prems(1) by simp
  moreover have "\<not> in_accept (sv_accept (step G s a))"
    using Cons.prems by (rule step_not_in_accept)
  ultimately show ?case using Cons.IH by (simp add: run_Cons)
qed

lemma accept_return_leaves_body:
  assumes "coherent s" and "\<not> is_exited (sv_main s)"
  shows "\<not> in_accept (sv_accept (accept_return G s io))"
proof (cases "sv_accept s")
  case At_accept_head
  then show ?thesis by (simp add: accept_return_def)
next
  case Accept_returned
  then show ?thesis by (simp add: accept_return_def)
next
  case (In_accept r)
  have "r \<noteq> 0" using assms(1) In_accept by (simp add: coherent_def)
  then have "sv_accept (accept_return G s io) = At_accept_head"
    using In_accept assms(2) by (intro accept_return_goes_on) simp_all
  then show ?thesis by simp
qed

lemma step_acceptor_returned:
  assumes "sv_accept s = Accept_returned"
  shows "sv_accept (step G s a) = Accept_returned"
proof (cases a)
  case (Main_fgets line)
  then show ?thesis using assms by (simp add: main_step_def split: prod.splits)
next
  case Main_join
  then show ?thesis using assms by (simp add: join_step_def split: prod.splits)
next
  case Accept_head
  then show ?thesis using assms by (simp add: accept_head_def)
next
  case (Accept_return io)
  then show ?thesis using assms by (simp add: accept_return_def)
next
  case (Client_start i r b)
  then show ?thesis using assms client_start_frame [of s i r b] by simp
next
  case (Client_head i)
  then show ?thesis using assms client_head_frame [of s i] by simp
next
  case (Client_return i io)
  then show ?thesis using assms client_return_frame [of G s i io] by simp
qed

lemma run_acceptor_returned:
  "sv_accept s = Accept_returned \<Longrightarrow> sv_accept (run G s as) = Accept_returned"
  by (induction as arbitrary: s) (simp_all add: run_Nil run_Cons step_acceptor_returned)

lemma quit_step:
  assumes "coherent s" and "sv_main s = In_input_loop" and "strncmp_eq line ''quit'' 4"
  shows "quitting G (events_of Main_thread (sv_trace s) @ [Printf ''Shutting down TCP server...\<newline>''])
           (step G s (Main_fgets (Some line)))"
proof -
  have "sv_running s \<noteq> 0" using assms(1,2) by (simp add: coherent_def)
  then show ?thesis using assms(2,3)
    by (simp add: quitting_def main_step_def main_input_iter_def events_of_append events_of_same
          events_of_def)
qed

lemma quitting_not_exited:
  "quitting G E s \<Longrightarrow> sv_accept s \<noteq> Accept_returned \<Longrightarrow> \<not> is_exited (sv_main s)"
  by (auto simp: quitting_def)

lemma join_after_quit:
  assumes "quitting G E s" and "sv_accept s = Accept_returned"
  shows "sv_main (step G s Main_join) = Exited 0 \<and>
         events_of Main_thread (sv_trace (step G s Main_join)) =
           E @ Pthread_join_accept # fst (main_shutdown G)"
  using assms
  by (auto simp: quitting_def join_step_def main_shutdown_def events_of_def)

lemma shutdown_sequence:
  fixes G s line as1 aio as2 as3
  assumes "coherent s" and "sv_main s = In_input_loop" and "strncmp_eq line ''quit'' 4"
  defines "fin \<equiv> run G s (Main_fgets (Some line) # as1 @ Accept_return aio # as2 @
                            Accept_head # as3 @ [Main_join])"
  shows "sv_running fin = 0 \<and> sv_main fin = Exited 0 \<and> sv_accept fin = Accept_returned \<and>
         events_of Main_thread (sv_trace fin) =
           events_of Main_thread (sv_trace s) @
             Printf ''Shutting down TCP server...\<newline>'' # Pthread_join_accept # fst (main_shutdown G)"
proof -
  define E where "E = events_of Main_thread (sv_trace s) @ [Printf ''Shutting down TCP server...\<newline>'']"
  define s0 where "s0 = step G s (Main_fgets (Some line))"
  define s1 where "s1 = run G s0 as1"
  define s2 where "s2 = run G (step G s1 (Accept_return aio)) as2"
  define s3 where "s3 = run G (step G s2 Accept_head) as3"
  have c1: "coherent s1"
    unfolding s1_def s0_def using assms(1) by (intro run_coherent step_coherent)
  have q1: "quitting G E s1"
    unfolding s1_def s0_def E_def using quit_step [OF assms(1-3)] by (rule run_quitting)
  have f1: "sv_running s1 = 0" using q1 by (simp add: quitting_def)
  have a1: "\<not> in_accept (sv_accept (step G s1 (Accept_return aio)))"
  proof (cases "is_exited (sv_main s1)")
    case True
    then have "sv_accept s1 = Accept_returned" using q1 by (auto simp: quitting_def)
    then show ?thesis by (simp add: accept_return_def)
  next
    case False
    then show ?thesis using accept_return_leaves_body [OF c1] by simp
  qed
  have q1': "quitting G E (step G s1 (Accept_return aio))" using q1 by (rule step_quitting)
  then have f1': "sv_running (step G s1 (Accept_return aio)) = 0" by (simp add: quitting_def)
  have q2: "quitting G E s2" unfolding s2_def using q1' by (rule run_quitting)
  have f2: "sv_running s2 = 0" using q2 by (simp add: quitting_def)
  have a2: "\<not> in_accept (sv_accept s2)"
    unfolding s2_def using f1' a1 by (rule run_not_in_accept)
  have r2: "sv_accept (step G s2 Accept_head) = Accept_returned"
  proof (cases "sv_accept s2")
    case At_accept_head
    then have "\<not> is_exited (sv_main s2)" using q2 by (intro quitting_not_exited) simp_all
    then show ?thesis using At_accept_head f2 by (simp add: accept_head_def)
  next
    case (In_accept r)
    then show ?thesis using a2 by simp
  next
    case Accept_returned
    then show ?thesis by (simp add: accept_head_def)
  qed
  have q3: "quitting G E s3"
    unfolding s3_def using q2 by (intro run_quitting step_quitting)
  have r3: "sv_accept s3 = Accept_returned"
    unfolding s3_def using r2 by (rule run_acceptor_returned)
  have fin: "fin = step G s3 Main_join"
    unfolding fin_def s3_def s2_def s1_def s0_def by (simp add: run_Cons run_append run_Nil)
  have q4: "quitting G E fin" unfolding fin using q3 by (rule step_quitting)
  have r4: "sv_accept fin = Accept_returned" unfolding fin using r3 by (rule step_acceptor_returned)
  show ?thesis
    using join_after_quit [OF q3 r3] q4 r4
    unfolding fin [symmetric] by (simp add: quitting_def E_def)
qed

lemma client_iter_stopped: "running_seen io = 0 \<Longrightarrow> client_iter G fd b io = ([], b, False)"
  by (simp add: client_iter_def)

lemma client_head_closes:
  assumes "i < length (sv_clients s)" and "sv_clients s ! i = Reading fd b"
    and "sv_running s = 0" and "\<not> is_exited (sv_main s)"
  shows "client_head s i =
           s\<lparr>sv_clients := (sv_clients s)[i := Returned fd],
             sv_trace := sv_trace s @ [(Client_thread i, Close fd)]\<rparr>"
  using assms by (simp add: client_head_def)

lemma step_returned:
  assumes "i < length (sv_clients s)" and "sv_clients s ! i = Returned fd"
  shows "i < length (sv_clients (step G s a)) \<and> sv_clients (step G s a) ! i = Returned fd \<and>
         events_of (Client_thread i) (sv_trace (step G s a)) =
           events_of (Client_thread i) (sv_trace s)"
proof (cases a)
  case (Main_fgets line)
  then show ?thesis using assms
    by (auto simp: main_step_def events_of_def split: prod.splits)
next
  case Main_join
  then show ?thesis using assms
    by (auto simp: join_step_def events_of_def split: prod.splits)
next
  case Accept_head
  then show ?thesis using assms by (simp add: accept_head_frame)
next
  case (Accept_return io)
  obtain cs where "sv_clients (accept_return G s io) = sv_clients s @ cs"
    using accept_return_clients [of G s io] by auto
  then show ?thesis using assms Accept_return
    by (simp add: nth_append accept_return_events)
next
  case (Client_start j r b)
  show ?thesis
  proof (cases "j = i")
    case True
    then have "client_start s j r b = s" using assms by (simp add: client_start_def)
    then show ?thesis using assms Client_start by simp
  next
    case False
    then have "events_of (Client_thread i) (sv_trace (client_start s j r b)) =
                 events_of (Client_thread i) (sv_trace s)"
      by (simp add: client_start_events)
    moreover have "sv_clients (client_start s j r b) ! i = Returned fd"
      using assms False by (auto simp: client_start_def split: client_state.splits)
    ultimately show ?thesis using assms Client_start client_start_frame [of s j r b] by simp
  qed
next
  case (Client_head j)
  show ?thesis
  proof (cases "j = i")
    case True
    then have "client_head s j = s" using assms by (simp add: client_head_def)
    then show ?thesis using assms Client_head by simp
  next
    case False
    then have "events_of (Client_thread i) (sv_trace (client_head s j)) =
                 events_of (Client_thread i) (sv_trace s)"
      by (simp add: client_head_events)
    moreover have "sv_clients (client_head s j) ! i = Returned fd"
      using assms False by (auto simp: client_head_def split: client_state.splits)
    ultimately show ?thesis using assms Client_head client_head_frame [of s j] by simp
  qed
next
  case (Client_return j io)
  show ?thesis
  proof (cases "j = i")
    case True
    then have "client_return G s j io = s" using assms by (simp add: client_return_def)
    then show ?thesis using assms Client_return by simp
  next
    case False
    then have "events_of (Client_thread i) (sv_trace (client_return G s j io)) =
                 events_of (Client_thread i) (sv_trace s)"
      by (simp add: client_return_events)
    moreover have "sv_clients (client_return G s j io) ! i = Returned fd"
      using assms False by (auto simp: client_return_def split: client_state.splits prod.splits)
    ultimately show ?thesis using assms Client_return client_return_frame [of G s j io] by simp
  qed
qed

lemma run_returned:
  "i < length (sv_clients s) \<Longrightarrow> sv_clients s ! i = Returned fd \<Longrightarrow>
     events_of (Client_thread i) (sv_trace (run G s as)) = events_of (Client_thread i) (sv_trace s)"
proof (induction as arbitrary: s)
  case Nil
  then show ?case by (simp add: run_Nil)
next
  case (Cons a as)
  from step_returned [OF Cons.prems, of G a] Cons.IH [of "step G s a"]
  show ?case by (simp add: run_Cons)
qed

lemma main_step_idle: "sv_main s \<noteq> In_input_loop \<Longrightarrow> step G s (Main_fgets line) = s"
  by (simp add: main_step_def)

lemma epoll_iter_flag:
  "fst (snd (epoll_iter G r io)) = r \<or> fst (snd (epoll_iter G r io)) = 0"
  by (simp add: epoll_iter_def split: wait_result.splits prod.splits)

lemma epoll_iter_go_on:
  "epoll_iter G r io = (evs, r', Go_on) \<Longrightarrow> r' = r"
  by (auto simp: epoll_iter_def split: wait_result.splits prod.splits if_splits)

lemma epoll_loop_flag:
  "fst (snd (epoll_loop G r ios)) = r \<or> fst (snd (epoll_loop G r ios)) = 0"
proof (induction ios arbitrary: r)
  case Nil
  then show ?case by simp
next
  case (Cons io ios)
  obtain evs r' nxt where it: "epoll_iter G r io = (evs, r', nxt)"
    by (cases "epoll_iter G r io")
  have r': "r' = r \<or> r' = 0" using epoll_iter_flag [of G r io] it by simp
  show ?case
  proof (cases nxt)
    case Go_on
    then show ?thesis using it r' Cons.IH [of r'] by (auto split: prod.splits)
  next
    case Left_loop
    then show ?thesis using it r' by simp
  next
    case Pending
    then show ?thesis using it r' by simp
  qed
qed

lemma epoll_iter_quit:
  "r \<noteq> 0 \<Longrightarrow> quit_typed io \<Longrightarrow>
     epoll_iter G r io = ([Printf ''Shutting down epoll TCP server...\<newline>''], 0, Left_loop)"
  by (simp add: epoll_iter_def quit_typed_def)

lemma epoll_loop_quit:
  assumes "\<forall>io \<in> set pre. snd (snd (epoll_iter G r io)) = Go_on" and "r \<noteq> 0" and "quit_typed qio"
  shows "epoll_loop G r (pre @ qio # rest) =
           (fst (epoll_loop G r pre) @ [Printf ''Shutting down epoll TCP server...\<newline>''], 0, True)"
  using assms(1)
proof (induction pre)
  case Nil
  then show ?case using epoll_iter_quit [OF assms(2,3), of G] by simp
next
  case (Cons io pre)
  obtain evs r' where it: "epoll_iter G r io = (evs, r', Go_on)"
    using Cons.prems by (cases "epoll_iter G r io") auto
  then have "r' = r" by (rule epoll_iter_go_on)
  then show ?case using it Cons by (simp split: prod.splits)
qed

lemma epoll_main_quit:
  assumes "epoll_main_startup argv sio = (evs0, Inr G)"
    and "\<forall>io \<in> set pre. snd (snd (epoll_iter G 1 io)) = Go_on" and "quit_typed qio"
  shows "epoll_main argv sio (pre @ qio # rest) =
           (evs0 @ fst (epoll_loop G 1 pre) @
              [Printf ''Shutting down epoll TCP server...\<newline>'',
               Close (listen_fd G), Close (udp_socket G), Close (epoll_fd G),
               Printf ''Epoll-based TCP server stopped.\<newline>''], Some 0)"
  using assms(1) epoll_loop_quit [OF assms(2) _ assms(3), of rest]
  by (simp add: epoll_main_def)

section \<open>The handler's state machine\<close>

lemma example_epoll_up:
  "epoll_main_startup [''epoll_server'', ''9999'', ''127.0.0.1'', ''5140'']
      \<lparr>socket_udp = 3, inet_pton_ret = 1, socket_tcp = 4, setsockopt_ret = 0, bind_ret = 0,
        listen_ret = 0, pthread_create_ret = 0, epoll_create1_ret = 5, getfl_ret = 0,
        setfl_ret = 0, epoll_ctl_ret = 0\<rparr> =
   ([Socket_call SOCK_DGRAM, Epoll_create1, Socket_call SOCK_STREAM, Setsockopt 4,
     Bind 4 (htons 9999), Listen 4, Fcntl 4, Fcntl 4, Epoll_ctl_add 4,
     Printf ''Epoll-based TCP server listening on port 9999, forwarding to UDP 127.0.0.1:5140\<newline>'',
     Printf ''Type 'quit' and press Enter to exit the server gracefully.\<newline>''],
    Inr \<lparr>udp_socket = 3, udp_addr = (''127.0.0.1'', htons 5140), listen_fd = 4, epoll_fd = 5\<rparr>)"
proof -
  have nz: "htons 9999 \<noteq> 0" by (simp add: htons_zero_mod)
  show ?thesis
    by (simp add: epoll_main_startup_def Let_def set_nonblocking_def add_to_epoll_def
          atoi_9999 atoi_5140 nz)
qed

lemma example_epoll_accept_turn:
  "epoll_iter \<lparr>udp_socket = 3, udp_addr = (''127.0.0.1'', htons 5140), listen_fd = 4, epoll_fd = 5\<rparr> 1
     \<lparr>select_ret = 0, stdin_isset = False, fgets_ret = None,
      wait_ret = Wait_ready
        [\<lparr>ev_fd = 4, conn_accept = 7, conn_getfl = 0, conn_setfl = 0, conn_add = 0,
          client_reads = [], client_buffer = [], client_del = 0\<rparr>]\<rparr> =
   ([Fcntl 7, Fcntl 7, Epoll_ctl_add 7, Printf_d ''New client connected (fd: %d)\<newline>'' 7],
    1, Go_on)"
  by (simp add: epoll_iter_def serve_ready_def set_nonblocking_def add_to_epoll_def)

text \<open>
  Claim C5 as stated has every handler move to Closing, and close its connection, when
  the shutdown flag is seen clear. In the epoll server a connection is accepted (it gets
  descriptor 7), then the operator types \<open>quit\<close>: \<open>main\<close> leaves its loop, closes the
  listening socket, the UDP socket and the epoll instance and returns 0. The connection
  is never closed.
\<close>

theorem handler_state_machine_counterexample:
  "epoll_main [''epoll_server'', ''9999'', ''127.0.0.1'', ''5140'']
     \<lparr>socket_udp = 3, inet_pton_ret = 1, socket_tcp = 4, setsockopt_ret = 0, bind_ret = 0,
       listen_ret = 0, pthread_create_ret = 0, epoll_create1_ret = 5, getfl_ret = 0,
       setfl_ret = 0, epoll_ctl_ret = 0\<rparr>
     [\<lparr>select_ret = 0, stdin_isset = False, fgets_ret = None,
       wait_ret = Wait_ready
         [\<lparr>ev_fd = 4, conn_accept = 7, conn_getfl = 0, conn_setfl = 0, conn_add = 0,
           client_reads = [], client_buffer = [], client_del = 0\<rparr>]\<rparr>,
      \<lparr>select_ret = 1, stdin_isset = True, fgets_ret = Some ''quit\<newline>'',
       wait_ret = Wait_ready []\<rparr>] =
   ([Socket_call SOCK_DGRAM, Epoll_create1, Socket_call SOCK_STREAM, Setsockopt 4,
     Bind 4 (htons 9999), Listen 4, Fcntl 4, Fcntl 4, Epoll_ctl_add 4,
     Printf ''Epoll-based TCP server listening on port 9999, forwarding to UDP 127.0.0.1:5140\<newline>'',
     Printf ''Type 'quit' and press Enter to exit the server gracefully.\<newline>'',
     Fcntl 7, Fcntl 7, Epoll_ctl_add 7, Printf_d ''New client connected (fd: %d)\<newline>'' 7,
     Printf ''Shutting down epoll TCP server...\<newline>'',
     Close 4, Close 3, Close 5, Printf ''Epoll-based TCP server stopped.\<newline>''],
    Some 0)"
proof -
  have qt: "epoll_iter \<lparr>udp_socket = 3, udp_addr = (''127.0.0.1'', htons 5140), listen_fd = 4, epoll_fd = 5\<rparr> 1
      \<lparr>select_ret = 1, stdin_isset = True, fgets_ret = Some ''quit\<newline>'',
       wait_ret = Wait_ready []\<rparr> =
    ([Printf ''Shutting down epoll TCP server...\<newline>''], 0, Left_loop)"
    by (simp add: epoll_iter_def strncmp_eq_def)
  show ?thesis
    by (simp add: epoll_main_def example_epoll_up example_epoll_accept_turn qt)
qed

text \<open>
  Claim C5, as the code has it. In the threaded server the handler is the state machine
  of the claim. One iteration of \<open>client_thread\<close> goes on exactly when
  \<open>reading_continues\<close> holds: the flag was seen set and the read returned data or
  timed out. An iteration that does not go on (flag seen clear, end of stream, any other
  read error) issues no event of its own, and with the flag clear it does not even read.
  While every iteration goes on, the thread has not returned and has not closed its
  socket; at the first iteration that does not, \<open>close(client_fd)\<close> is the next and
  last event, the thread returns, and nothing the environment offers afterwards matters.
  In the epoll server, a ready connection whose reads end on end of stream or on an
  error other than \<open>EAGAIN\<close> is removed from the epoll set and closed right after the
  diagnostic, with no forwarding after the last data read; if they end on \<open>EAGAIN\<close> the
  connection stays as it is. But the handler of the epoll server never reads the flag,
  and the flag does not close a connection: a turn of \<open>main\<close>'s loop that finds the flag
  clear, or in which the operator types \<open>quit\<close>, leaves the loop without serving or
  closing any connection, whatever is ready; and after \<open>quit\<close> \<open>main\<close> closes the
  listening socket, the UDP socket and the epoll instance, nothing else, and returns 0.
\<close>

theorem handler_state_machine:
  assumes "\<forall>io \<in> set ios. reading_continues io" and "\<not> reading_continues io"
    and "\<forall>p \<in> set rs. is_data (fst p)" and "\<not> is_data (fst t)"
    and "ev_fd r \<noteq> listen_fd G" and "client_reads r = rs @ t # rest'"
  shows "snd (snd (client_iter G fd b io')) = reading_continues io'
       \<and> (\<not> reading_continues io' \<longrightarrow> fst (client_iter G fd b io') = [])
       \<and> (running_seen io' = 0 \<longrightarrow> client_iter G fd b io' = ([], b, False))
       \<and> snd (client_thread G fd so buffer ios) = False
       \<and> Close fd \<notin> set (fst (client_thread G fd so buffer ios))
       \<and> client_thread G fd so buffer (ios @ io # rest) =
           (fst (client_thread G fd so buffer ios) @ [Close fd], True)
       \<and> serve_ready G r =
           (concat (map (\<lambda>p. forward_events G (fst p) (snd p)) rs) @
              (if end_code (fst t) = - 1 then
                 end_events (ev_fd r) (fst t) @ fst (remove_from_epoll (ev_fd r) (client_del r)) @
                   [Close (ev_fd r)]
               else []),
            True)
       \<and> epoll_iter G 0 eio = ([], 0, Left_loop)
       \<and> (rn \<noteq> 0 \<and> quit_typed qio \<longrightarrow>
            epoll_iter G rn qio =
              ([Printf ''Shutting down epoll TCP server...\<newline>''], 0, Left_loop))
       \<and> (epoll_main_startup argv sio = (evs0, Inr G) \<and>
            (\<forall>eio \<in> set pre. snd (snd (epoll_iter G 1 eio)) = Go_on) \<and> quit_typed qio \<longrightarrow>
            epoll_main argv sio (pre @ qio # post) =
              (evs0 @ fst (epoll_loop G 1 pre) @
                 [Printf ''Shutting down epoll TCP server...\<newline>'',
                  Close (listen_fd G), Close (udp_socket G), Close (epoll_fd G),
                  Printf ''Epoll-based TCP server stopped.\<newline>''], Some 0))"
proof (intro conjI impI)
  show "epoll_iter G 0 eio = ([], 0, Left_loop)" by (simp add: epoll_iter_def)
  show "rn \<noteq> 0 \<and> quit_typed qio \<Longrightarrow>
          epoll_iter G rn qio =
            ([Printf ''Shutting down epoll TCP server...\<newline>''], 0, Left_loop)"
    using epoll_iter_quit [of rn qio G] by simp
  show "epoll_main_startup argv sio = (evs0, Inr G) \<and>
            (\<forall>eio \<in> set pre. snd (snd (epoll_iter G 1 eio)) = Go_on) \<and> quit_typed qio \<Longrightarrow>
          epoll_main argv sio (pre @ qio # post) =
            (evs0 @ fst (epoll_loop G 1 pre) @
               [Printf ''Shutting down epoll TCP server...\<newline>'',
                Close (listen_fd G), Close (udp_socket G), Close (epoll_fd G),
                Printf ''Epoll-based TCP server stopped.\<newline>''], Some 0)"
    using epoll_main_quit [of argv sio evs0 G pre qio post] by simp
  show "snd (snd (client_iter G fd b io')) = reading_continues io'"
    by (rule client_iter_goes_on)
  show "\<not> reading_continues io' \<Longrightarrow> fst (client_iter G fd b io') = []"
    by (simp add: client_iter_events)
  show "running_seen io' = 0 \<Longrightarrow> client_iter G fd b io' = ([], b, False)"
    by (simp add: client_iter_def)
  have tw: "takeWhile reading_continues ios = ios" using assms(1) by simp
  show "snd (client_thread G fd so buffer ios) = False"
    using assms(1) by (simp add: client_thread_def client_loop_eq)
  show "Close fd \<notin> set (fst (client_thread G fd so buffer ios))"
    using assms(1) no_close_in_forwards [of fd G recv_ret sendto_ret ios]
    by (simp add: client_thread_def client_loop_eq tw)
  have tw2: "takeWhile reading_continues (ios @ io # rest) = ios"
    using assms(1,2) by simp
  show "client_thread G fd so buffer (ios @ io # rest) =
           (fst (client_thread G fd so buffer ios) @ [Close fd], True)"
    using assms(1,2) by (simp add: client_thread_def client_loop_eq tw tw2)
  have tw3: "takeWhile (\<lambda>p. is_data (fst p)) (rs @ t # rest') = rs"
    and dw3: "dropWhile (\<lambda>p. is_data (fst p)) (rs @ t # rest') = t # rest'"
    using assms(3,4) by simp_all
  have ec: "end_code (fst t) = 0 \<or> end_code (fst t) = - 1"
    by (cases "fst t") simp_all
  have ee: "end_code (fst t) \<noteq> - 1 \<Longrightarrow> end_events (ev_fd r) (fst t) = []"
    by (cases "fst t") (simp_all split: if_splits)
  show "serve_ready G r =
           (concat (map (\<lambda>p. forward_events G (fst p) (snd p)) rs) @
              (if end_code (fst t) = - 1 then
                 end_events (ev_fd r) (fst t) @ fst (remove_from_epoll (ev_fd r) (client_del r)) @
                   [Close (ev_fd r)]
               else []),
            True)"
    using assms(5,6) ec ee
    by (auto simp: serve_ready_def Let_def handle_client_data_eq tw3 dw3)
qed

theorem handler_state_machine_witness:
  "list_all reading_continues
     [\<lparr>running_seen = 1, recv_ret = Recv_data [1, 2], sendto_ret = 2\<rparr>,
      \<lparr>running_seen = 1, recv_ret = Recv_fail EAGAIN, sendto_ret = 0\<rparr>] \<and>
   \<not> reading_continues \<lparr>running_seen = 0, recv_ret = Recv_data [3], sendto_ret = 1\<rparr> \<and>
   client_thread \<lparr>udp_socket = 3, udp_addr = (''127.0.0.1'', 5140), listen_fd = 4, epoll_fd = 5\<rparr>
      7 0 []
      [\<lparr>running_seen = 1, recv_ret = Recv_data [1, 2], sendto_ret = 2\<rparr>,
       \<lparr>running_seen = 1, recv_ret = Recv_fail EAGAIN, sendto_ret = 0\<rparr>,
       \<lparr>running_seen = 0, recv_ret = Recv_data [3], sendto_ret = 1\<rparr>,
       \<lparr>running_seen = 1, recv_ret = Recv_data [4], sendto_ret = 1\<rparr>] =
     ([Setsockopt 7, Sendto 3 [1, 2] (''127.0.0.1'', 5140), Close 7], True) \<and>
   serve_ready \<lparr>udp_socket = 3, udp_addr = (''127.0.0.1'', 5140), listen_fd = 4, epoll_fd = 5\<rparr>
      \<lparr>ev_fd = 7, conn_accept = 0, conn_getfl = 0, conn_setfl = 0, conn_add = 0,
        client_reads = [(Recv_data [9], 1), (Recv_data [], 0), (Recv_data [8], 1)],
        client_buffer = [], client_del = 0\<rparr> =
     ([Sendto 3 [9] (''127.0.0.1'', 5140),
       Printf_d ''Client disconnected (fd: %d)\<newline>'' 7, Epoll_ctl_del 7, Close 7], True) \<and>
   quit_typed \<lparr>select_ret = 1, stdin_isset = True, fgets_ret = Some ''quit\<newline>'',
     wait_ret = Wait_ready
       [\<lparr>ev_fd = 7, conn_accept = 0, conn_getfl = 0, conn_setfl = 0, conn_add = 0,
         client_reads = [(Recv_data [9], 1), (Recv_data [], 0)], client_buffer = [],
         client_del = 0\<rparr>]\<rparr> \<and>
   epoll_iter \<lparr>udp_socket = 3, udp_addr = (''127.0.0.1'', 5140), listen_fd = 4, epoll_fd = 5\<rparr> 1
     \<lparr>select_ret = 1, stdin_isset = True, fgets_ret = Some ''quit\<newline>'',
       wait_ret = Wait_ready
         [\<lparr>ev_fd = 7, conn_accept = 0, conn_getfl = 0, conn_setfl = 0, conn_add = 0,
           client_reads = [(Recv_data [9], 1), (Recv_data [], 0)], client_buffer = [],
           client_del = 0\<rparr>]\<rparr> =
     ([Printf ''Shutting down epoll TCP server...\<newline>''], 0, Left_loop) \<and>
   epoll_main [''epoll_server'', ''9999'', ''127.0.0.1'', ''5140'']
     \<lparr>socket_udp = 3, inet_pton_ret = 1, socket_tcp = 4, setsockopt_ret = 0, bind_ret = 0,
       listen_ret = 0, pthread_create_ret = 0, epoll_create1_ret = 5, getfl_ret = 0,
       setfl_ret = 0, epoll_ctl_ret = 0\<rparr>
     [\<lparr>select_ret = 0, stdin_isset = False, fgets_ret = None,
       wait_ret = Wait_ready
         [\<lparr>ev_fd = 4, conn_accept = 7, conn_getfl = 0, conn_setfl = 0, conn_add = 0,
           client_reads = [], client_buffer = [], client_del = 0\<rparr>]\<rparr>,
      \<lparr>select_ret = 1, stdin_isset = True, fgets_ret = Some ''quit\<newline>'',
       wait_ret = Wait_ready []\<rparr>] =
     (fst (epoll_main_startup [''epoll_server'', ''9999'', ''127.0.0.1'', ''5140'']
        \<lparr>socket_udp = 3, inet_pton_ret = 1, socket_tcp = 4, setsockopt_ret = 0, bind_ret = 0,
          listen_ret = 0, pthread_create_ret = 0, epoll_create1_ret = 5, getfl_ret = 0,
          setfl_ret = 0, epoll_ctl_ret = 0\<rparr>) @
      [Fcntl 7, Fcntl 7, Epoll_ctl_add 7, Printf_d ''New client connected (fd: %d)\<newline>'' 7,
       Printf ''Shutting down epoll TCP server...\<newline>'',
       Close 4, Close 3, Close 5, Printf ''Epoll-based TCP server stopped.\<newline>''],
      Some 0)"
proof -
  have q: "quit_typed \<lparr>select_ret = 1, stdin_isset = True, fgets_ret = Some ''quit\<newline>'',
     wait_ret = Wait_ready
       [\<lparr>ev_fd = 7, conn_accept = 0, conn_getfl = 0, conn_setfl = 0, conn_add = 0,
         client_reads = [(Recv_data [9], 1), (Recv_data [], 0)], client_buffer = [],
         client_del = 0\<rparr>]\<rparr>"
    by (simp add: quit_typed_def strncmp_eq_def)
  note t = handler_state_machine
    [where ios = "[\<lparr>running_seen = 1, recv_ret = Recv_data [1, 2], sendto_ret = 2\<rparr>,
          \<lparr>running_seen = 1, recv_ret = Recv_fail EAGAIN, sendto_ret = 0\<rparr>]"
       and io = "\<lparr>running_seen = 0, recv_ret = Recv_data [3], sendto_ret = 1\<rparr>"
       and rs = "[(Recv_data [9], 1)]" and t = "(Recv_data [], 0)"
       and r = "\<lparr>ev_fd = 7, conn_accept = 0, conn_getfl = 0, conn_setfl = 0, conn_add = 0,
          client_reads = [(Recv_data [9], 1), (Recv_data [], 0), (Recv_data [8], 1)],
          client_buffer = [], client_del = 0\<rparr>"
       and G = "\<lparr>udp_socket = 3, udp_addr = (''127.0.0.1'', 5140), listen_fd = 4, epoll_fd = 5\<rparr>"
       and rest' = "[(Recv_data [8], 1)]" and fd = 7 and b = "[]"
       and io' = "\<lparr>running_seen = 0, recv_ret = Recv_data [3], sendto_ret = 1\<rparr>" and so = 0
       and buffer = "[]"
       and rest = "[\<lparr>running_seen = 1, recv_ret = Recv_data [4], sendto_ret = 1\<rparr>]"
       and rn = 1
       and qio = "\<lparr>select_ret = 1, stdin_isset = True, fgets_ret = Some ''quit\<newline>'',
         wait_ret = Wait_ready
           [\<lparr>ev_fd = 7, conn_accept = 0, conn_getfl = 0, conn_setfl = 0, conn_add = 0,
             client_reads = [(Recv_data [9], 1), (Recv_data [], 0)], client_buffer = [],
             client_del = 0\<rparr>]\<rparr>"]
  have a: "list_all reading_continues
     [\<lparr>running_seen = 1, recv_ret = Recv_data [1, 2], sendto_ret = 2\<rparr>,
      \<lparr>running_seen = 1, recv_ret = Recv_fail EAGAIN, sendto_ret = 0\<rparr>] \<and>
   \<not> reading_continues \<lparr>running_seen = 0, recv_ret = Recv_data [3], sendto_ret = 1\<rparr> \<and>
   client_thread \<lparr>udp_socket = 3, udp_addr = (''127.0.0.1'', 5140), listen_fd = 4, epoll_fd = 5\<rparr>
      7 0 []
      [\<lparr>running_seen = 1, recv_ret = Recv_data [1, 2], sendto_ret = 2\<rparr>,
       \<lparr>running_seen = 1, recv_ret = Recv_fail EAGAIN, sendto_ret = 0\<rparr>,
       \<lparr>running_seen = 0, recv_ret = Recv_data [3], sendto_ret = 1\<rparr>,
       \<lparr>running_seen = 1, recv_ret = Recv_data [4], sendto_ret = 1\<rparr>] =
     ([Setsockopt 7, Sendto 3 [1, 2] (''127.0.0.1'', 5140), Close 7], True) \<and>
   serve_ready \<lparr>udp_socket = 3, udp_addr = (''127.0.0.1'', 5140), listen_fd = 4, epoll_fd = 5\<rparr>
      \<lparr>ev_fd = 7, conn_accept = 0, conn_getfl = 0, conn_setfl = 0, conn_add = 0,
        client_reads = [(Recv_data [9], 1), (Recv_data [], 0), (Recv_data [8], 1)],
        client_buffer = [], client_del = 0\<rparr> =
     ([Sendto 3 [9] (''127.0.0.1'', 5140),
       Printf_d ''Client disconnected (fd: %d)\<newline>'' 7, Epoll_ctl_del 7, Close 7], True) \<and>
   epoll_iter \<lparr>udp_socket = 3, udp_addr = (''127.0.0.1'', 5140), listen_fd = 4, epoll_fd = 5\<rparr> 1
     \<lparr>select_ret = 1, stdin_isset = True, fgets_ret = Some ''quit\<newline>'',
       wait_ret = Wait_ready
         [\<lparr>ev_fd = 7, conn_accept = 0, conn_getfl = 0, conn_setfl = 0, conn_add = 0,
           client_reads = [(Recv_data [9], 1), (Recv_data [], 0)], client_buffer = [],
           client_del = 0\<rparr>]\<rparr> =
     ([Printf ''Shutting down epoll TCP server...\<newline>''], 0, Left_loop)"
    using t q
    by (simp add: reading_continues_def is_data_def transient_def BUFFER_SIZE_def
          client_thread_def client_loop_eq forward_events_def remove_from_epoll_def)
  have q0: "quit_typed \<lparr>select_ret = 1, stdin_isset = True, fgets_ret = Some ''quit\<newline>'',
       wait_ret = Wait_ready []\<rparr>"
    by (simp add: quit_typed_def strncmp_eq_def)
  have h: "list_all reading_continues ([] :: client_io list)"
       "\<not> reading_continues \<lparr>running_seen = 0, recv_ret = Recv_data [3], sendto_ret = 1\<rparr>"
       "list_all (\<lambda>p. is_data (fst p)) ([] :: (recv_result \<times> int) list)"
       "\<not> is_data (fst (Recv_data [], 0 :: int))"
    by (simp_all add: reading_continues_def is_data_def)
  note e = handler_state_machine
    [where ios = "[]"
       and io = "\<lparr>running_seen = 0, recv_ret = Recv_data [3], sendto_ret = 1\<rparr>"
       and rs = "[]" and t = "(Recv_data [], 0)"
       and r = "\<lparr>ev_fd = 7, conn_accept = 0, conn_getfl = 0, conn_setfl = 0, conn_add = 0,
          client_reads = [(Recv_data [], 0)], client_buffer = [], client_del = 0\<rparr>"
       and G = "\<lparr>udp_socket = 3, udp_addr = (''127.0.0.1'', htons 5140), listen_fd = 4, epoll_fd = 5\<rparr>"
       and rest' = "[]"
       and argv = "[''epoll_server'', ''9999'', ''127.0.0.1'', ''5140'']"
       and sio = "\<lparr>socket_udp = 3, inet_pton_ret = 1, socket_tcp = 4, setsockopt_ret = 0, bind_ret = 0,
          listen_ret = 0, pthread_create_ret = 0, epoll_create1_ret = 5, getfl_ret = 0,
          setfl_ret = 0, epoll_ctl_ret = 0\<rparr>"
       and ?evs0.0 = "fst (epoll_main_startup [''epoll_server'', ''9999'', ''127.0.0.1'', ''5140'']
          \<lparr>socket_udp = 3, inet_pton_ret = 1, socket_tcp = 4, setsockopt_ret = 0, bind_ret = 0,
            listen_ret = 0, pthread_create_ret = 0, epoll_create1_ret = 5, getfl_ret = 0,
            setfl_ret = 0, epoll_ctl_ret = 0\<rparr>)"
       and pre = "[\<lparr>select_ret = 0, stdin_isset = False, fgets_ret = None,
          wait_ret = Wait_ready
            [\<lparr>ev_fd = 4, conn_accept = 7, conn_getfl = 0, conn_setfl = 0, conn_add = 0,
              client_reads = [], client_buffer = [], client_del = 0\<rparr>]\<rparr>]"
       and qio = "\<lparr>select_ret = 1, stdin_isset = True, fgets_ret = Some ''quit\<newline>'',
          wait_ret = Wait_ready []\<rparr>"
       and post = "[]",
     THEN conjunct2, THEN conjunct2, THEN conjunct2, THEN conjunct2, THEN conjunct2,
     THEN conjunct2, THEN conjunct2, THEN conjunct2, THEN conjunct2]
  have b: "epoll_main [''epoll_server'', ''9999'', ''127.0.0.1'', ''5140'']
     \<lparr>socket_udp = 3, inet_pton_ret = 1, socket_tcp = 4, setsockopt_ret = 0, bind_ret = 0,
       listen_ret = 0, pthread_create_ret = 0, epoll_create1_ret = 5, getfl_ret = 0,
       setfl_ret = 0, epoll_ctl_ret = 0\<rparr>
     [\<lparr>select_ret = 0, stdin_isset = False, fgets_ret = None,
       wait_ret = Wait_ready
         [\<lparr>ev_fd = 4, conn_accept = 7, conn_getfl = 0, conn_setfl = 0, conn_add = 0,
           client_reads = [], client_buffer = [], client_del = 0\<rparr>]\<rparr>,
      \<lparr>select_ret = 1, stdin_isset = True, fgets_ret = Some ''quit\<newline>'',
       wait_ret = Wait_ready []\<rparr>] =
     (fst (epoll_main_startup [''epoll_server'', ''9999'', ''127.0.0.1'', ''5140'']
        \<lparr>socket_udp = 3, inet_pton_ret = 1, socket_tcp = 4, setsockopt_ret = 0, bind_ret = 0,
          listen_ret = 0, pthread_create_ret = 0, epoll_create1_ret = 5, getfl_ret = 0,
          setfl_ret = 0, epoll_ctl_ret = 0\<rparr>) @
      [Fcntl 7, Fcntl 7, Epoll_ctl_add 7, Printf_d ''New client connected (fd: %d)\<newline>'' 7,
       Printf ''Shutting down epoll TCP server...\<newline>'',
       Close 4, Close 3, Close 5, Printf ''Epoll-based TCP server stopped.\<newline>''],
      Some 0)"
    using e q0 h by (simp add: example_epoll_up example_epoll_accept_turn)
  show ?thesis using a q b by simp
qed

section \<open>Graceful shutdown\<close>

text \<open>
  Claim C6. Let \<open>s\<close> be any state the threaded server reaches from its start, by any
  interleaving of steps of its threads and any answers of the environment; a thread may
  be blocked in \<open>accept\<close> or \<open>recv\<close> with the flag value it read before.
  \<^item> The flag is 0 or 1, and once it is 0 it is 0 in every later state: it changes at most
    once, from set to clear.
  \<^item> \<open>main\<close> has exited only with status 0, with the flag clear and after the accept
    thread has returned.
  \<^item> If \<open>main\<close> is in its input loop and reads a line that starts with \<open>quit\<close>, then after
    any further steps \<open>as1\<close>, the return of the accept thread from the body of its loop
    (if it was there), any further steps \<open>as2\<close>, the accept thread's next read of the flag,
    any further steps \<open>as3\<close> and the return of \<open>pthread_join\<close>: the flag is clear, the
    accept thread has returned, \<open>main\<close> has exited with status 0, and what \<open>main\<close> did
    since is the shutdown message, the join, and its shutdown, which closes the listening
    socket and the UDP socket.
  \<^item> The accept thread that reads the flag clear at the head of its loop returns, with
    no event.
  \<^item> A second trigger finds \<open>main\<close> outside its input loop and changes nothing.
  \<^item> A handler that reads the flag clear at the head of its loop closes its socket and
    does nothing else, and a handler that has returned adds no event in any later state.
  \<^item> In the epoll server the flag after the loop is its initial value or 0, and when the
    operator types \<open>quit\<close> after turns that went on, \<open>main\<close> prints the shutdown message,
    closes the listening socket, the UDP socket and the epoll instance, and returns 0.
\<close>

theorem graceful_shutdown:
  fixes G :: globals and as bs as1 as2 as3 :: "action list"
  defines "s \<equiv> run G started as"
  shows "sv_running s \<in> {0, 1}
       \<and> (sv_running s = 0 \<longrightarrow> sv_running (run G s bs) = 0)
       \<and> (is_exited (sv_main s) \<longrightarrow>
            sv_main s = Exited 0 \<and> sv_running s = 0 \<and> sv_accept s = Accept_returned)
       \<and> (sv_main s = In_input_loop \<and> strncmp_eq line ''quit'' 4 \<longrightarrow>
            (let fin = run G s (Main_fgets (Some line) # as1 @ Accept_return aio # as2 @
                                  Accept_head # as3 @ [Main_join])
             in sv_running fin = 0 \<and> sv_main fin = Exited 0 \<and> sv_accept fin = Accept_returned \<and>
                events_of Main_thread (sv_trace fin) =
                  events_of Main_thread (sv_trace s) @
                    Printf ''Shutting down TCP server...\<newline>'' # Pthread_join_accept #
                    fst (main_shutdown G)))
       \<and> (0 \<le> listen_fd G \<longrightarrow>
            main_shutdown G =
              ([Close (listen_fd G), Close (udp_socket G), Printf ''TCP server stopped.\<newline>''], 0))
       \<and> (sv_accept s = At_accept_head \<and> sv_running s = 0 \<and> \<not> is_exited (sv_main s) \<longrightarrow>
            step G s Accept_head = s\<lparr>sv_accept := Accept_returned\<rparr>)
       \<and> (sv_main s \<noteq> In_input_loop \<longrightarrow> step G s (Main_fgets line') = s)
       \<and> (i < length (sv_clients s) \<and> sv_clients s ! i = Reading fd b \<and> sv_running s = 0 \<and>
            \<not> is_exited (sv_main s) \<longrightarrow>
            step G s (Client_head i) =
              s\<lparr>sv_clients := (sv_clients s)[i := Returned fd],
                sv_trace := sv_trace s @ [(Client_thread i, Close fd)]\<rparr>)
       \<and> (i < length (sv_clients s) \<and> sv_clients s ! i = Returned fd \<longrightarrow>
            events_of (Client_thread i) (sv_trace (run G s bs)) =
              events_of (Client_thread i) (sv_trace s))
       \<and> (fst (snd (epoll_loop G r ios)) = r \<or> fst (snd (epoll_loop G r ios)) = 0)
       \<and> (epoll_main_startup argv sio = (evs0, Inr G) \<and>
            (\<forall>eio \<in> set pre. snd (snd (epoll_iter G 1 eio)) = Go_on) \<and> quit_typed qio \<longrightarrow>
            epoll_main argv sio (pre @ qio # rest) =
              (evs0 @ fst (epoll_loop G 1 pre) @
                 [Printf ''Shutting down epoll TCP server...\<newline>'',
                  Close (listen_fd G), Close (udp_socket G), Close (epoll_fd G),
                  Printf ''Epoll-based TCP server stopped.\<newline>''], Some 0))"
proof (intro conjI impI)
  have coh: "coherent s" unfolding s_def using started_coherent by (rule run_coherent)
  show "sv_running s \<in> {0, 1}"
    unfolding s_def by (rule run_flag_range) (simp add: started_def)
  show "sv_running s = 0 \<Longrightarrow> sv_running (run G s bs) = 0" by (rule run_flag_stays)
  show "is_exited (sv_main s) \<Longrightarrow> sv_main s = Exited 0"
    using coherent_exited [OF coh] by simp
  show "is_exited (sv_main s) \<Longrightarrow> sv_running s = 0"
    using coherent_exited [OF coh] by simp
  show "is_exited (sv_main s) \<Longrightarrow> sv_accept s = Accept_returned"
    using coherent_exited [OF coh] by simp
  show "sv_main s = In_input_loop \<and> strncmp_eq line ''quit'' 4 \<Longrightarrow>
         (let fin = run G s (Main_fgets (Some line) # as1 @ Accept_return aio # as2 @
                                  Accept_head # as3 @ [Main_join])
             in sv_running fin = 0 \<and> sv_main fin = Exited 0 \<and> sv_accept fin = Accept_returned \<and>
                events_of Main_thread (sv_trace fin) =
                  events_of Main_thread (sv_trace s) @
                    Printf ''Shutting down TCP server...\<newline>'' # Pthread_join_accept #
                    fst (main_shutdown G))"
    using shutdown_sequence [OF coh, of line G as1 aio as2 as3] by (simp add: Let_def)
  show "0 \<le> listen_fd G \<Longrightarrow>
          main_shutdown G =
            ([Close (listen_fd G), Close (udp_socket G), Printf ''TCP server stopped.\<newline>''], 0)"
    by (simp add: main_shutdown_def)
  show "sv_accept s = At_accept_head \<and> sv_running s = 0 \<and> \<not> is_exited (sv_main s) \<Longrightarrow>
          step G s Accept_head = s\<lparr>sv_accept := Accept_returned\<rparr>"
    using accept_head_stopped [of s] by simp
  show "sv_main s \<noteq> In_input_loop \<Longrightarrow> step G s (Main_fgets line') = s"
    by (rule main_step_idle)
  show "i < length (sv_clients s) \<and> sv_clients s ! i = Reading fd b \<and> sv_running s = 0 \<and>
            \<not> is_exited (sv_main s) \<Longrightarrow>
          step G s (Client_head i) =
            s\<lparr>sv_clients := (sv_clients s)[i := Returned fd],
              sv_trace := sv_trace s @ [(Client_thread i, Close fd)]\<rparr>"
    using client_head_closes [of i s fd b] by simp
  show "i < length (sv_clients s) \<and> sv_clients s ! i = Returned fd \<Longrightarrow>
          events_of (Client_thread i) (sv_trace (run G s bs)) =
            events_of (Client_thread i) (sv_trace s)"
    using run_returned [of i s fd G bs] by simp
  show "fst (snd (epoll_loop G r ios)) = r \<or> fst (snd (epoll_loop G r ios)) = 0"
    by (rule epoll_loop_flag)
  show "epoll_main_startup argv sio = (evs0, Inr G) \<and>
            (\<forall>eio \<in> set pre. snd (snd (epoll_iter G 1 eio)) = Go_on) \<and> quit_typed qio \<Longrightarrow>
          epoll_main argv sio (pre @ qio # rest) =
            (evs0 @ fst (epoll_loop G 1 pre) @
               [Printf ''Shutting down epoll TCP server...\<newline>'',
                Close (listen_fd G), Close (udp_socket G), Close (epoll_fd G),
                Printf ''Epoll-based TCP server stopped.\<newline>''], Some 0)"
    using epoll_main_quit [of argv sio evs0 G pre qio rest] by simp
qed

text \<open>
  A run of the threaded server: a connection is accepted and forwards a chunk; the accept
  thread is blocked in \<open>accept\<close> and the handler in \<open>recv\<close> when the operator types
  \<open>quit\<close>. The handler then forwards the chunk its pending \<open>recv\<close> returns, the pending
  \<open>accept\<close> returns a second connection for which a handler is created, and only then do
  the two threads read the flag clear.
\<close>

lemma example_run_to_quit:
  "run \<lparr>udp_socket = 3, udp_addr = (''127.0.0.1'', 5140), listen_fd = 4, epoll_fd = - 1\<rparr> started
     [Accept_head,
      Accept_return \<lparr>a_running = 1, a_setsockopt = 0, a_malloc = True, a_accept = 8, a_errno = 0,
        a_running_again = 1, a_pthread_create = 0\<rparr>,
      Client_start 0 0 [],
      Client_head 0,
      Client_return 0 \<lparr>running_seen = 1, recv_ret = Recv_data [1, 2], sendto_ret = 2\<rparr>,
      Accept_head,
      Client_head 0] =
   \<lparr>sv_running = 1, sv_main = In_input_loop, sv_accept = In_accept 1,
      sv_clients = [In_recv 8 [1, 2] 1],
      sv_trace =
        [(Accept_thread, Setsockopt 4), (Accept_thread, Pthread_create_client 8),
         (Client_thread 0, Setsockopt 8),
         (Client_thread 0, Sendto 3 [1, 2] (''127.0.0.1'', 5140))]\<rparr>"
  by (simp add: run_def started_def accept_head_def accept_return_def client_start_def
        client_head_def client_return_def accept_iter_def client_iter_def BUFFER_SIZE_def)

lemma example_run_past_quit:
  "run \<lparr>udp_socket = 3, udp_addr = (''127.0.0.1'', 5140), listen_fd = 4, epoll_fd = - 1\<rparr> started
     [Accept_head,
      Accept_return \<lparr>a_running = 1, a_setsockopt = 0, a_malloc = True, a_accept = 8, a_errno = 0,
        a_running_again = 1, a_pthread_create = 0\<rparr>,
      Client_start 0 0 [],
      Client_head 0,
      Client_return 0 \<lparr>running_seen = 1, recv_ret = Recv_data [1, 2], sendto_ret = 2\<rparr>,
      Accept_head,
      Client_head 0,
      Main_fgets (Some ''quit\<newline>''),
      Client_return 0 \<lparr>running_seen = 1, recv_ret = Recv_data [3], sendto_ret = 1\<rparr>,
      Accept_return \<lparr>a_running = 1, a_setsockopt = 0, a_malloc = True, a_accept = 9, a_errno = 0,
        a_running_again = 1, a_pthread_create = 0\<rparr>] =
   \<lparr>sv_running = 0, sv_main = In_join, sv_accept = At_accept_head,
      sv_clients = [Reading 8 [3, 2], Fresh 9],
      sv_trace =
        [(Accept_thread, Setsockopt 4), (Accept_thread, Pthread_create_client 8),
         (Client_thread 0, Setsockopt 8),
         (Client_thread 0, Sendto 3 [1, 2] (''127.0.0.1'', 5140)),
         (Main_thread, Printf ''Shutting down TCP server...\<newline>''),
         (Client_thread 0, Sendto 3 [3] (''127.0.0.1'', 5140)),
         (Accept_thread, Setsockopt 4), (Accept_thread, Pthread_create_client 9)]\<rparr>"
  by (simp add: run_def started_def accept_head_def accept_return_def client_start_def
        client_head_def client_return_def accept_iter_def client_iter_def BUFFER_SIZE_def
        main_step_def main_input_iter_def strncmp_eq_def)

theorem graceful_shutdown_witness:
  "sv_main (run \<lparr>udp_socket = 3, udp_addr = (''127.0.0.1'', 5140), listen_fd = 4, epoll_fd = - 1\<rparr> started
     [Accept_head,
      Accept_return \<lparr>a_running = 1, a_setsockopt = 0, a_malloc = True, a_accept = 8, a_errno = 0,
        a_running_again = 1, a_pthread_create = 0\<rparr>,
      Client_start 0 0 [],
      Client_head 0,
      Client_return 0 \<lparr>running_seen = 1, recv_ret = Recv_data [1, 2], sendto_ret = 2\<rparr>,
      Accept_head,
      Client_head 0]) = In_input_loop \<and>
   strncmp_eq ''quit\<newline>'' ''quit'' 4 \<and>
   sv_main (run \<lparr>udp_socket = 3, udp_addr = (''127.0.0.1'', 5140), listen_fd = 4, epoll_fd = - 1\<rparr>
     (run \<lparr>udp_socket = 3, udp_addr = (''127.0.0.1'', 5140), listen_fd = 4, epoll_fd = - 1\<rparr> started
     [Accept_head,
      Accept_return \<lparr>a_running = 1, a_setsockopt = 0, a_malloc = True, a_accept = 8, a_errno = 0,
        a_running_again = 1, a_pthread_create = 0\<rparr>,
      Client_start 0 0 [],
      Client_head 0,
      Client_return 0 \<lparr>running_seen = 1, recv_ret = Recv_data [1, 2], sendto_ret = 2\<rparr>,
      Accept_head,
      Client_head 0])
     [Main_fgets (Some ''quit\<newline>''),
      Client_return 0 \<lparr>running_seen = 1, recv_ret = Recv_data [3], sendto_ret = 1\<rparr>,
      Accept_return \<lparr>a_running = 1, a_setsockopt = 0, a_malloc = True, a_accept = 9, a_errno = 0,
        a_running_again = 1, a_pthread_create = 0\<rparr>,
      Client_head 0,
      Accept_head,
      Main_join]) = Exited 0 \<and>
   sv_running (run \<lparr>udp_socket = 3, udp_addr = (''127.0.0.1'', 5140), listen_fd = 4, epoll_fd = - 1\<rparr>
     (run \<lparr>udp_socket = 3, udp_addr = (''127.0.0.1'', 5140), listen_fd = 4, epoll_fd = - 1\<rparr> started
     [Accept_head,
      Accept_return \<lparr>a_running = 1, a_setsockopt = 0, a_malloc = True, a_accept = 8, a_errno = 0,
        a_running_again = 1, a_pthread_create = 0\<rparr>,
      Client_start 0 0 [],
      Client_head 0,
      Client_return 0 \<lparr>running_seen = 1, recv_ret = Recv_data [1, 2], sendto_ret = 2\<rparr>,
      Accept_head,
      Client_head 0])
     [Main_fgets (Some ''quit\<newline>''),
      Client_return 0 \<lparr>running_seen = 1, recv_ret = Recv_data [3], sendto_ret = 1\<rparr>,
      Accept_return \<lparr>a_running = 1, a_setsockopt = 0, a_malloc = True, a_accept = 9, a_errno = 0,
        a_running_again = 1, a_pthread_create = 0\<rparr>,
      Client_head 0,
      Accept_head,
      Main_join]) = 0 \<and>
   sv_accept (run \<lparr>udp_socket = 3, udp_addr = (''127.0.0.1'', 5140), listen_fd = 4, epoll_fd = - 1\<rparr>
     (run \<lparr>udp_socket = 3, udp_addr = (''127.0.0.1'', 5140), listen_fd = 4, epoll_fd = - 1\<rparr> started
     [Accept_head,
      Accept_return \<lparr>a_running = 1, a_setsockopt = 0, a_malloc = True, a_accept = 8, a_errno = 0,
        a_running_again = 1, a_pthread_create = 0\<rparr>,
      Client_start 0 0 [],
      Client_head 0,
      Client_return 0 \<lparr>running_seen = 1, recv_ret = Recv_data [1, 2], sendto_ret = 2\<rparr>,
      Accept_head,
      Client_head 0])
     [Main_fgets (Some ''quit\<newline>''),
      Client_return 0 \<lparr>running_seen = 1, recv_ret = Recv_data [3], sendto_ret = 1\<rparr>,
      Accept_return \<lparr>a_running = 1, a_setsockopt = 0, a_malloc = True, a_accept = 9, a_errno = 0,
        a_running_again = 1, a_pthread_create = 0\<rparr>,
      Client_head 0,
      Accept_head,
      Main_join]) = Accept_returned \<and>
   events_of Main_thread (sv_trace (run \<lparr>udp_socket = 3, udp_addr = (''127.0.0.1'', 5140), listen_fd = 4, epoll_fd = - 1\<rparr>
     (run \<lparr>udp_socket = 3, udp_addr = (''127.0.0.1'', 5140), listen_fd = 4, epoll_fd = - 1\<rparr> started
     [Accept_head,
      Accept_return \<lparr>a_running = 1, a_setsockopt = 0, a_malloc = True, a_accept = 8, a_errno = 0,
        a_running_again = 1, a_pthread_create = 0\<rparr>,
      Client_start 0 0 [],
      Client_head 0,
      Client_return 0 \<lparr>running_seen = 1, recv_ret = Recv_data [1, 2], sendto_ret = 2\<rparr>,
      Accept_head,
      Client_head 0])
     [Main_fgets (Some ''quit\<newline>''),
      Client_return 0 \<lparr>running_seen = 1, recv_ret = Recv_data [3], sendto_ret = 1\<rparr>,
      Accept_return \<lparr>a_running = 1, a_setsockopt = 0, a_malloc = True, a_accept = 9, a_errno = 0,
        a_running_again = 1, a_pthread_create = 0\<rparr>,
      Client_head 0,
      Accept_head,
      Main_join])) =
     [Printf ''Shutting down TCP server...\<newline>'', Pthread_join_accept, Close 4, Close 3,
      Printf ''TCP server stopped.\<newline>''] \<and>
   step \<lparr>udp_socket = 3, udp_addr = (''127.0.0.1'', 5140), listen_fd = 4, epoll_fd = - 1\<rparr>
     (run \<lparr>udp_socket = 3, udp_addr = (''127.0.0.1'', 5140), listen_fd = 4, epoll_fd = - 1\<rparr> started
     [Accept_head,
      Accept_return \<lparr>a_running = 1, a_setsockopt = 0, a_malloc = True, a_accept = 8, a_errno = 0,
        a_running_again = 1, a_pthread_create = 0\<rparr>,
      Client_start 0 0 [],
      Client_head 0,
      Client_return 0 \<lparr>running_seen = 1, recv_ret = Recv_data [1, 2], sendto_ret = 2\<rparr>,
      Accept_head,
      Client_head 0,
      Main_fgets (Some ''quit\<newline>''),
      Client_return 0 \<lparr>running_seen = 1, recv_ret = Recv_data [3], sendto_ret = 1\<rparr>,
      Accept_return \<lparr>a_running = 1, a_setsockopt = 0, a_malloc = True, a_accept = 9, a_errno = 0,
        a_running_again = 1, a_pthread_create = 0\<rparr>])
     (Client_head 0) =
   \<lparr>sv_running = 0, sv_main = In_join, sv_accept = At_accept_head,
      sv_clients = [Returned 8, Fresh 9],
      sv_trace =
        [(Accept_thread, Setsockopt 4), (Accept_thread, Pthread_create_client 8),
         (Client_thread 0, Setsockopt 8),
         (Client_thread 0, Sendto 3 [1, 2] (''127.0.0.1'', 5140)),
         (Main_thread, Printf ''Shutting down TCP server...\<newline>''),
         (Client_thread 0, Sendto 3 [3] (''127.0.0.1'', 5140)),
         (Accept_thread, Setsockopt 4), (Accept_thread, Pthread_create_client 9),
         (Client_thread 0, Close 8)]\<rparr> \<and>
   step \<lparr>udp_socket = 3, udp_addr = (''127.0.0.1'', 5140), listen_fd = 4, epoll_fd = - 1\<rparr>
     (run \<lparr>udp_socket = 3, udp_addr = (''127.0.0.1'', 5140), listen_fd = 4, epoll_fd = - 1\<rparr> started
     [Accept_head,
      Accept_return \<lparr>a_running = 1, a_setsockopt = 0, a_malloc = True, a_accept = 8, a_errno = 0,
        a_running_again = 1, a_pthread_create = 0\<rparr>,
      Client_start 0 0 [],
      Client_head 0,
      Client_return 0 \<lparr>running_seen = 1, recv_ret = Recv_data [1, 2], sendto_ret = 2\<rparr>,
      Accept_head,
      Client_head 0,
      Main_fgets (Some ''quit\<newline>''),
      Client_return 0 \<lparr>running_seen = 1, recv_ret = Recv_data [3], sendto_ret = 1\<rparr>,
      Accept_return \<lparr>a_running = 1, a_setsockopt = 0, a_malloc = True, a_accept = 9, a_errno = 0,
        a_running_again = 1, a_pthread_create = 0\<rparr>])
     Accept_head =
   \<lparr>sv_running = 0, sv_main = In_join, sv_accept = Accept_returned,
      sv_clients = [Reading 8 [3, 2], Fresh 9],
      sv_trace =
        [(Accept_thread, Setsockopt 4), (Accept_thread, Pthread_create_client 8),
         (Client_thread 0, Setsockopt 8),
         (Client_thread 0, Sendto 3 [1, 2] (''127.0.0.1'', 5140)),
         (Main_thread, Printf ''Shutting down TCP server...\<newline>''),
         (Client_thread 0, Sendto 3 [3] (''127.0.0.1'', 5140)),
         (Accept_thread, Setsockopt 4), (Accept_thread, Pthread_create_client 9)]\<rparr> \<and>
   step \<lparr>udp_socket = 3, udp_addr = (''127.0.0.1'', 5140), listen_fd = 4, epoll_fd = - 1\<rparr>
     (run \<lparr>udp_socket = 3, udp_addr = (''127.0.0.1'', 5140), listen_fd = 4, epoll_fd = - 1\<rparr> started
     [Accept_head,
      Accept_return \<lparr>a_running = 1, a_setsockopt = 0, a_malloc = True, a_accept = 8, a_errno = 0,
        a_running_again = 1, a_pthread_create = 0\<rparr>,
      Client_start 0 0 [],
      Client_head 0,
      Client_return 0 \<lparr>running_seen = 1, recv_ret = Recv_data [1, 2], sendto_ret = 2\<rparr>,
      Accept_head,
      Client_head 0,
      Main_fgets (Some ''quit\<newline>''),
      Client_return 0 \<lparr>running_seen = 1, recv_ret = Recv_data [3], sendto_ret = 1\<rparr>,
      Accept_return \<lparr>a_running = 1, a_setsockopt = 0, a_malloc = True, a_accept = 9, a_errno = 0,
        a_running_again = 1, a_pthread_create = 0\<rparr>])
     (Main_fgets (Some ''quit\<newline>'')) =
   \<lparr>sv_running = 0, sv_main = In_join, sv_accept = At_accept_head,
      sv_clients = [Reading 8 [3, 2], Fresh 9],
      sv_trace =
        [(Accept_thread, Setsockopt 4), (Accept_thread, Pthread_create_client 8),
         (Client_thread 0, Setsockopt 8),
         (Client_thread 0, Sendto 3 [1, 2] (''127.0.0.1'', 5140)),
         (Main_thread, Printf ''Shutting down TCP server...\<newline>''),
         (Client_thread 0, Sendto 3 [3] (''127.0.0.1'', 5140)),
         (Accept_thread, Setsockopt 4), (Accept_thread, Pthread_create_client 9)]\<rparr> \<and>
   quit_typed \<lparr>select_ret = 1, stdin_isset = True, fgets_ret = Some ''quit\<newline>'', wait_ret = Wait_ready []\<rparr> \<and>
   epoll_main [''epoll_server'', ''9999'', ''127.0.0.1'', ''5140'']
     \<lparr>socket_udp = 3, inet_pton_ret = 1, socket_tcp = 4, setsockopt_ret = 0, bind_ret = 0,
        listen_ret = 0, pthread_create_ret = 0, epoll_create1_ret = 5, getfl_ret = 0,
        setfl_ret = 0, epoll_ctl_ret = 0\<rparr>
     [\<lparr>select_ret = 1, stdin_isset = True, fgets_ret = Some ''quit\<newline>'', wait_ret = Wait_ready []\<rparr>] =
     (fst (epoll_main_startup [''epoll_server'', ''9999'', ''127.0.0.1'', ''5140'']
        \<lparr>socket_udp = 3, inet_pton_ret = 1, socket_tcp = 4, setsockopt_ret = 0, bind_ret = 0,
        listen_ret = 0, pthread_create_ret = 0, epoll_create1_ret = 5, getfl_ret = 0,
        setfl_ret = 0, epoll_ctl_ret = 0\<rparr>) @
      [Printf ''Shutting down epoll TCP server...\<newline>'', Close 4, Close 3, Close 5,
       Printf ''Epoll-based TCP server stopped.\<newline>''], Some 0)"
proof -
  have h: "sv_main (run \<lparr>udp_socket = 3, udp_addr = (''127.0.0.1'', 5140), listen_fd = 4, epoll_fd = - 1\<rparr> started
     [Accept_head,
      Accept_return \<lparr>a_running = 1, a_setsockopt = 0, a_malloc = True, a_accept = 8, a_errno = 0,
        a_running_again = 1, a_pthread_create = 0\<rparr>,
      Client_start 0 0 [],
      Client_head 0,
      Client_return 0 \<lparr>running_seen = 1, recv_ret = Recv_data [1, 2], sendto_ret = 2\<rparr>,
      Accept_head,
      Client_head 0]) = In_input_loop"
    unfolding example_run_to_quit by simp
  have ev: "events_of Main_thread (sv_trace (run \<lparr>udp_socket = 3, udp_addr = (''127.0.0.1'', 5140), listen_fd = 4, epoll_fd = - 1\<rparr> started
     [Accept_head,
      Accept_return \<lparr>a_running = 1, a_setsockopt = 0, a_malloc = True, a_accept = 8, a_errno = 0,
        a_running_again = 1, a_pthread_create = 0\<rparr>,
      Client_start 0 0 [],
      Client_head 0,
      Client_return 0 \<lparr>running_seen = 1, recv_ret = Recv_data [1, 2], sendto_ret = 2\<rparr>,
      Accept_head,
      Client_head 0])) = []"
    unfolding example_run_to_quit by (simp add: events_of_def)
  have q: "strncmp_eq ''quit\<newline>'' ''quit'' 4" by (simp add: strncmp_eq_def)
  have qt: "quit_typed \<lparr>select_ret = 1, stdin_isset = True, fgets_ret = Some ''quit\<newline>'', wait_ret = Wait_ready []\<rparr>"
    by (simp add: quit_typed_def strncmp_eq_def)
  note A = graceful_shutdown
    [where G = "\<lparr>udp_socket = 3, udp_addr = (''127.0.0.1'', 5140), listen_fd = 4, epoll_fd = - 1\<rparr>"
       and as = "[Accept_head,
      Accept_return \<lparr>a_running = 1, a_setsockopt = 0, a_malloc = True, a_accept = 8, a_errno = 0,
        a_running_again = 1, a_pthread_create = 0\<rparr>,
      Client_start 0 0 [],
      Client_head 0,
      Client_return 0 \<lparr>running_seen = 1, recv_ret = Recv_data [1, 2], sendto_ret = 2\<rparr>,
      Accept_head,
      Client_head 0]"
       and line = "''quit\<newline>''"
       and ?as1.0 = "[Client_return 0 \<lparr>running_seen = 1, recv_ret = Recv_data [3], sendto_ret = 1\<rparr>]"
       and aio = "\<lparr>a_running = 1, a_setsockopt = 0, a_malloc = True, a_accept = 9, a_errno = 0,
        a_running_again = 1, a_pthread_create = 0\<rparr>"
       and ?as2.0 = "[Client_head 0]" and ?as3.0 = "[]",
     THEN conjunct2, THEN conjunct2, THEN conjunct2, THEN conjunct1]
  have a: "sv_main (run \<lparr>udp_socket = 3, udp_addr = (''127.0.0.1'', 5140), listen_fd = 4, epoll_fd = - 1\<rparr>
     (run \<lparr>udp_socket = 3, udp_addr = (''127.0.0.1'', 5140), listen_fd = 4, epoll_fd = - 1\<rparr> started
     [Accept_head,
      Accept_return \<lparr>a_running = 1, a_setsockopt = 0, a_malloc = True, a_accept = 8, a_errno = 0,
        a_running_again = 1, a_pthread_create = 0\<rparr>,
      Client_start 0 0 [],
      Client_head 0,
      Client_return 0 \<lparr>running_seen = 1, recv_ret = Recv_data [1, 2], sendto_ret = 2\<rparr>,
      Accept_head,
      Client_head 0])
     [Main_fgets (Some ''quit\<newline>''),
      Client_return 0 \<lparr>running_seen = 1, recv_ret = Recv_data [3], sendto_ret = 1\<rparr>,
      Accept_return \<lparr>a_running = 1, a_setsockopt = 0, a_malloc = True, a_accept = 9, a_errno = 0,
        a_running_again = 1, a_pthread_create = 0\<rparr>,
      Client_head 0,
      Accept_head,
      Main_join]) = Exited 0 \<and>
   sv_running (run \<lparr>udp_socket = 3, udp_addr = (''127.0.0.1'', 5140), listen_fd = 4, epoll_fd = - 1\<rparr>
     (run \<lparr>udp_socket = 3, udp_addr = (''127.0.0.1'', 5140), listen_fd = 4, epoll_fd = - 1\<rparr> started
     [Accept_head,
      Accept_return \<lparr>a_running = 1, a_setsockopt = 0, a_malloc = True, a_accept = 8, a_errno = 0,
        a_running_again = 1, a_pthread_create = 0\<rparr>,
      Client_start 0 0 [],
      Client_head 0,
      Client_return 0 \<lparr>running_seen = 1, recv_ret = Recv_data [1, 2], sendto_ret = 2\<rparr>,
      Accept_head,
      Client_head 0])
     [Main_fgets (Some ''quit\<newline>''),
      Client_return 0 \<lparr>running_seen = 1, recv_ret = Recv_data [3], sendto_ret = 1\<rparr>,
      Accept_return \<lparr>a_running = 1, a_setsockopt = 0, a_malloc = True, a_accept = 9, a_errno = 0,
        a_running_again = 1, a_pthread_create = 0\<rparr>,
      Client_head 0,
      Accept_head,
      Main_join]) = 0 \<and>
   sv_accept (run \<lparr>udp_socket = 3, udp_addr = (''127.0.0.1'', 5140), listen_fd = 4, epoll_fd = - 1\<rparr>
     (run \<lparr>udp_socket = 3, udp_addr = (''127.0.0.1'', 5140), listen_fd = 4, epoll_fd = - 1\<rparr> started
     [Accept_head,
      Accept_return \<lparr>a_running = 1, a_setsockopt = 0, a_malloc = True, a_accept = 8, a_errno = 0,
        a_running_again = 1, a_pthread_create = 0\<rparr>,
      Client_start 0 0 [],
      Client_head 0,
      Client_return 0 \<lparr>running_seen = 1, recv_ret = Recv_data [1, 2], sendto_ret = 2\<rparr>,
      Accept_head,
      Client_head 0])
     [Main_fgets (Some ''quit\<newline>''),
      Client_return 0 \<lparr>running_seen = 1, recv_ret = Recv_data [3], sendto_ret = 1\<rparr>,
      Accept_return \<lparr>a_running = 1, a_setsockopt = 0, a_malloc = True, a_accept = 9, a_errno = 0,
        a_running_again = 1, a_pthread_create = 0\<rparr>,
      Client_head 0,
      Accept_head,
      Main_join]) = Accept_returned \<and>
   events_of Main_thread (sv_trace (run \<lparr>udp_socket = 3, udp_addr = (''127.0.0.1'', 5140), listen_fd = 4, epoll_fd = - 1\<rparr>
     (run \<lparr>udp_socket = 3, udp_addr = (''127.0.0.1'', 5140), listen_fd = 4, epoll_fd = - 1\<rparr> started
     [Accept_head,
      Accept_return \<lparr>a_running = 1, a_setsockopt = 0, a_malloc = True, a_accept = 8, a_errno = 0,
        a_running_again = 1, a_pthread_create = 0\<rparr>,
      Client_start 0 0 [],
      Client_head 0,
      Client_return 0 \<lparr>running_seen = 1, recv_ret = Recv_data [1, 2], sendto_ret = 2\<rparr>,
      Accept_head,
      Client_head 0])
     [Main_fgets (Some ''quit\<newline>''),
      Client_return 0 \<lparr>running_seen = 1, recv_ret = Recv_data [3], sendto_ret = 1\<rparr>,
      Accept_return \<lparr>a_running = 1, a_setsockopt = 0, a_malloc = True, a_accept = 9, a_errno = 0,
        a_running_again = 1, a_pthread_create = 0\<rparr>,
      Client_head 0,
      Accept_head,
      Main_join])) =
     [Printf ''Shutting down TCP server...\<newline>'', Pthread_join_accept, Close 4, Close 3,
      Printf ''TCP server stopped.\<newline>'']"
    using A h q by (simp add: Let_def ev main_shutdown_def)
  note B = graceful_shutdown
    [where G = "\<lparr>udp_socket = 3, udp_addr = (''127.0.0.1'', 5140), listen_fd = 4, epoll_fd = - 1\<rparr>"
       and as = "[Accept_head,
      Accept_return \<lparr>a_running = 1, a_setsockopt = 0, a_malloc = True, a_accept = 8, a_errno = 0,
        a_running_again = 1, a_pthread_create = 0\<rparr>,
      Client_start 0 0 [],
      Client_head 0,
      Client_return 0 \<lparr>running_seen = 1, recv_ret = Recv_data [1, 2], sendto_ret = 2\<rparr>,
      Accept_head,
      Client_head 0,
      Main_fgets (Some ''quit\<newline>''),
      Client_return 0 \<lparr>running_seen = 1, recv_ret = Recv_data [3], sendto_ret = 1\<rparr>,
      Accept_return \<lparr>a_running = 1, a_setsockopt = 0, a_malloc = True, a_accept = 9, a_errno = 0,
        a_running_again = 1, a_pthread_create = 0\<rparr>]"
       and i = 0 and fd = 8 and b = "[3, 2]" and line' = "Some ''quit\<newline>''"]
  have b: "step \<lparr>udp_socket = 3, udp_addr = (''127.0.0.1'', 5140), listen_fd = 4, epoll_fd = - 1\<rparr>
     (run \<lparr>udp_socket = 3, udp_addr = (''127.0.0.1'', 5140), listen_fd = 4, epoll_fd = - 1\<rparr> started
     [Accept_head,
      Accept_return \<lparr>a_running = 1, a_setsockopt = 0, a_malloc = True, a_accept = 8, a_errno = 0,
        a_running_again = 1, a_pthread_create = 0\<rparr>,
      Client_start 0 0 [],
      Client_head 0,
      Client_return 0 \<lparr>running_seen = 1, recv_ret = Recv_data [1, 2], sendto_ret = 2\<rparr>,
      Accept_head,
      Client_head 0,
      Main_fgets (Some ''quit\<newline>''),
      Client_return 0 \<lparr>running_seen = 1, recv_ret = Recv_data [3], sendto_ret = 1\<rparr>,
      Accept_return \<lparr>a_running = 1, a_setsockopt = 0, a_malloc = True, a_accept = 9, a_errno = 0,
        a_running_again = 1, a_pthread_create = 0\<rparr>])
     (Client_head 0) =
   \<lparr>sv_running = 0, sv_main = In_join, sv_accept = At_accept_head,
      sv_clients = [Returned 8, Fresh 9],
      sv_trace =
        [(Accept_thread, Setsockopt 4), (Accept_thread, Pthread_create_client 8),
         (Client_thread 0, Setsockopt 8),
         (Client_thread 0, Sendto 3 [1, 2] (''127.0.0.1'', 5140)),
         (Main_thread, Printf ''Shutting down TCP server...\<newline>''),
         (Client_thread 0, Sendto 3 [3] (''127.0.0.1'', 5140)),
         (Accept_thread, Setsockopt 4), (Accept_thread, Pthread_create_client 9),
         (Client_thread 0, Close 8)]\<rparr>"
    using B [THEN conjunct2, THEN conjunct2, THEN conjunct2, THEN conjunct2, THEN conjunct2,
             THEN conjunct2, THEN conjunct2, THEN conjunct1]
    unfolding example_run_past_quit by simp
  have b2: "step \<lparr>udp_socket = 3, udp_addr = (''127.0.0.1'', 5140), listen_fd = 4, epoll_fd = - 1\<rparr>
     (run \<lparr>udp_socket = 3, udp_addr = (''127.0.0.1'', 5140), listen_fd = 4, epoll_fd = - 1\<rparr> started
     [Accept_head,
      Accept_return \<lparr>a_running = 1, a_setsockopt = 0, a_malloc = True, a_accept = 8, a_errno = 0,
        a_running_again = 1, a_pthread_create = 0\<rparr>,
      Client_start 0 0 [],
      Client_head 0,
      Client_return 0 \<lparr>running_seen = 1, recv_ret = Recv_data [1, 2], sendto_ret = 2\<rparr>,
      Accept_head,
      Client_head 0,
      Main_fgets (Some ''quit\<newline>''),
      Client_return 0 \<lparr>running_seen = 1, recv_ret = Recv_data [3], sendto_ret = 1\<rparr>,
      Accept_return \<lparr>a_running = 1, a_setsockopt = 0, a_malloc = True, a_accept = 9, a_errno = 0,
        a_running_again = 1, a_pthread_create = 0\<rparr>])
     Accept_head =
   \<lparr>sv_running = 0, sv_main = In_join, sv_accept = Accept_returned,
      sv_clients = [Reading 8 [3, 2], Fresh 9],
      sv_trace =
        [(Accept_thread, Setsockopt 4), (Accept_thread, Pthread_create_client 8),
         (Client_thread 0, Setsockopt 8),
         (Client_thread 0, Sendto 3 [1, 2] (''127.0.0.1'', 5140)),
         (Main_thread, Printf ''Shutting down TCP server...\<newline>''),
         (Client_thread 0, Sendto 3 [3] (''127.0.0.1'', 5140)),
         (Accept_thread, Setsockopt 4), (Accept_thread, Pthread_create_client 9)]\<rparr>"
    using B [THEN conjunct2, THEN conjunct2, THEN conjunct2, THEN conjunct2, THEN conjunct2,
             THEN conjunct1]
    unfolding example_run_past_quit by simp
  have b3: "step \<lparr>udp_socket = 3, udp_addr = (''127.0.0.1'', 5140), listen_fd = 4, epoll_fd = - 1\<rparr>
     (run \<lparr>udp_socket = 3, udp_addr = (''127.0.0.1'', 5140), listen_fd = 4, epoll_fd = - 1\<rparr> started
     [Accept_head,
      Accept_return \<lparr>a_running = 1, a_setsockopt = 0, a_malloc = True, a_accept = 8, a_errno = 0,
        a_running_again = 1, a_pthread_create = 0\<rparr>,
      Client_start 0 0 [],
      Client_head 0,
      Client_return 0 \<lparr>running_seen = 1, recv_ret = Recv_data [1, 2], sendto_ret = 2\<rparr>,
      Accept_head,
      Client_head 0,
      Main_fgets (Some ''quit\<newline>''),
      Client_return 0 \<lparr>running_seen = 1, recv_ret = Recv_data [3], sendto_ret = 1\<rparr>,
      Accept_return \<lparr>a_running = 1, a_setsockopt = 0, a_malloc = True, a_accept = 9, a_errno = 0,
        a_running_again = 1, a_pthread_create = 0\<rparr>])
     (Main_fgets (Some ''quit\<newline>'')) =
   \<lparr>sv_running = 0, sv_main = In_join, sv_accept = At_accept_head,
      sv_clients = [Reading 8 [3, 2], Fresh 9],
      sv_trace =
        [(Accept_thread, Setsockopt 4), (Accept_thread, Pthread_create_client 8),
         (Client_thread 0, Setsockopt 8),
         (Client_thread 0, Sendto 3 [1, 2] (''127.0.0.1'', 5140)),
         (Main_thread, Printf ''Shutting down TCP server...\<newline>''),
         (Client_thread 0, Sendto 3 [3] (''127.0.0.1'', 5140)),
         (Accept_thread, Setsockopt 4), (Accept_thread, Pthread_create_client 9)]\<rparr>"
    using B [THEN conjunct2, THEN conjunct2, THEN conjunct2, THEN conjunct2, THEN conjunct2,
             THEN conjunct2, THEN conjunct1]
    unfolding example_run_past_quit by simp
  note C = graceful_shutdown
    [where G = "\<lparr>udp_socket = 3, udp_addr = (''127.0.0.1'', htons 5140), listen_fd = 4, epoll_fd = 5\<rparr>"
       and argv = "[''epoll_server'', ''9999'', ''127.0.0.1'', ''5140'']"
       and sio = "\<lparr>socket_udp = 3, inet_pton_ret = 1, socket_tcp = 4, setsockopt_ret = 0, bind_ret = 0,
        listen_ret = 0, pthread_create_ret = 0, epoll_create1_ret = 5, getfl_ret = 0,
        setfl_ret = 0, epoll_ctl_ret = 0\<rparr>"
       and ?evs0.0 = "fst (epoll_main_startup [''epoll_server'', ''9999'', ''127.0.0.1'', ''5140'']
          \<lparr>socket_udp = 3, inet_pton_ret = 1, socket_tcp = 4, setsockopt_ret = 0, bind_ret = 0,
        listen_ret = 0, pthread_create_ret = 0, epoll_create1_ret = 5, getfl_ret = 0,
        setfl_ret = 0, epoll_ctl_ret = 0\<rparr>)"
       and pre = "[]" and rest = "[]"
       and qio = "\<lparr>select_ret = 1, stdin_isset = True, fgets_ret = Some ''quit\<newline>'', wait_ret = Wait_ready []\<rparr>",
     THEN conjunct2, THEN conjunct2, THEN conjunct2, THEN conjunct2, THEN conjunct2, THEN conjunct2,
     THEN conjunct2, THEN conjunct2, THEN conjunct2, THEN conjunct2]
  have c: "epoll_main [''epoll_server'', ''9999'', ''127.0.0.1'', ''5140'']
     \<lparr>socket_udp = 3, inet_pton_ret = 1, socket_tcp = 4, setsockopt_ret = 0, bind_ret = 0,
        listen_ret = 0, pthread_create_ret = 0, epoll_create1_ret = 5, getfl_ret = 0,
        setfl_ret = 0, epoll_ctl_ret = 0\<rparr>
     [\<lparr>select_ret = 1, stdin_isset = True, fgets_ret = Some ''quit\<newline>'', wait_ret = Wait_ready []\<rparr>] =
     (fst (epoll_main_startup [''epoll_server'', ''9999'', ''127.0.0.1'', ''5140'']
        \<lparr>socket_udp = 3, inet_pton_ret = 1, socket_tcp = 4, setsockopt_ret = 0, bind_ret = 0,
        listen_ret = 0, pthread_create_ret = 0, epoll_create1_ret = 5, getfl_ret = 0,
        setfl_ret = 0, epoll_ctl_ret = 0\<rparr>) @
      [Printf ''Shutting down epoll TCP server...\<newline>'', Close 4, Close 3, Close 5,
       Printf ''Epoll-based TCP server stopped.\<newline>''], Some 0)"
    using C qt by (simp add: example_epoll_up)
  show ?thesis
    by (intro conjI) (rule h q a [THEN conjunct1] a [THEN conjunct2, THEN conjunct1]
          a [THEN conjunct2, THEN conjunct2, THEN conjunct1]
          a [THEN conjunct2, THEN conjunct2, THEN conjunct2] b b2 b3 qt c)+
qed

end
